theory Spec2Isabelle
  imports Complex_Main
begin

section \<open>Lighting booklet scripts: data tables and helpers\<close>

text \<open>
  The repository is a set of stand-alone Python scripts. Each one declares literal
  parameter tables, draws one chart per table entry and assembles a Word document.
  This theory embeds the tables and the helper functions of the scripts.

  Conventions of the embedding.
  \<^item> Python numbers (\<open>int\<close> and \<open>float\<close> literals alike) are values of type \<open>real\<close>;
    a decimal literal stands for the decimal fraction it denotes. Floating-point
    rounding is not modelled. (The elements of the arrays of \<^verbatim>\<open>escai/file.py\<close> also have
    the special values of \<^verbatim>\<open>float64\<close>.)
  \<^item> A Python string is a value of type \<open>string\<close>, the list of the bytes of its UTF-8
    encoding: a character outside ASCII in a literal of the scripts is written as its
    UTF-8 bytes, and the functions that count or cut characters (\<^verbatim>\<open>len\<close>, slices,
    \<^verbatim>\<open>strip\<close>) work on the characters that the bytes encode.
  \<^item> An exception is the \<open>Inl\<close> branch of a sum type.
  \<^item> Where two scripts use the same name (\<open>PARAMS\<close>, \<open>RECS\<close>, \<open>ALL_REFS\<close>), the
    constant carries the script's name as a prefix.
  \<^item> Record fields that no embedded function reads (axis labels, markers) are left out
    of the records.
\<close>

subsection \<open>Parameter records\<close>

record bands =
  good :: "real \<times> real"
  warn :: "real \<times> real"
  danger :: "real \<times> real"

text \<open>
  A parameter descriptor of \<^verbatim>\<open>st.py\<close> and \<^verbatim>\<open>st2.py\<close>. In \<^verbatim>\<open>st.py\<close> the anchors are the
  nested dictionary \<^verbatim>\<open>"anchors": {"x": ..., "y": ...}\<close>; in \<^verbatim>\<open>st2.py\<close> they are the two
  keys \<^verbatim>\<open>"anchors_x"\<close> and \<^verbatim>\<open>"anchors_y"\<close>. The key \<^verbatim>\<open>"notes"\<close> is the field \<open>param_notes\<close>.
\<close>

record param =
  title :: string
  xspan :: "real \<times> real"
  bands :: bands
  anchors_x :: "real list"
  anchors_y :: "real list"
  param_notes :: string
  refs :: "(string \<times> string) list"

datatype curve_kind = Gaussian | Descending

text \<open>
  A parameter descriptor of \<^verbatim>\<open>escai/file.py\<close>: the bands are top-level keys
  (\<^verbatim>\<open>"good"\<close>, \<^verbatim>\<open>"warn"\<close>, \<^verbatim>\<open>"danger"\<close>, \<^verbatim>\<open>"refs"\<close>), written here with the prefix \<open>p_\<close>.
\<close>

record parameter =
  name :: string
  span :: "real \<times> real"
  p_good :: "real \<times> real"
  p_warn :: "real \<times> real"
  p_danger :: "real \<times> real"
  curve :: curve_kind
  curve_center :: "real option"
  p_refs :: "(string \<times> string) list"

text \<open>
  An entry of the dictionary \<^verbatim>\<open>parameters\<close> of \<^verbatim>\<open>escai/file2.py\<close> (keys \<^verbatim>\<open>"x"\<close>, \<^verbatim>\<open>"y"\<close>,
  \<^verbatim>\<open>"acceptable"\<close>).
\<close>

record info =
  info_x :: "real list"
  info_y :: "real list"
  acceptable :: "real \<times> real"

text \<open>
  A recommendation: the tuples of \<^verbatim>\<open>RECS\<close> (\<^verbatim>\<open>st.py\<close>, \<^verbatim>\<open>st2.py\<close>) and of \<^verbatim>\<open>recommendations\<close>
  (\<^verbatim>\<open>escai/file.py\<close>) have seven texts and a list of references.
\<close>

type_synonym rec =
  "string \<times> string \<times> string \<times> string \<times> string \<times> string \<times> string \<times> (string \<times> string) list"

definition rec_refs :: "rec \<Rightarrow> (string \<times> string) list" where
  "rec_refs r = (case r of (r0, r1, r2, r3, r4, r5, r6, r7) \<Rightarrow> r7)"

subsection \<open>The literal tables\<close>

definition INPUT_UPLOADED_DOCX :: string where
  "INPUT_UPLOADED_DOCX = ''/mnt/data/Schools information.docx''"

definition st_PARAMS :: "param list" where
  "st_PARAMS = [
  \<lparr>title = ''CCT (Correlated Color Temperature, K)'',
    xspan = (2000, 7000),
    bands = \<lparr>good = (4000, 5000), warn = (3000, 6500), danger = (2000, 7000)\<rparr>,
    anchors_x = [2000, 2700, 3000, 3500, 4000, 5000, 6500, 7000],
    anchors_y = [10, 18, 25, 45, 65, 70, 60, 55],
    param_notes = ''Daytime 4000'' @ [CHR 0xE2, CHR 0x80, CHR 0x93] @ ''5000 K generally supports alertness and visual comfort; short task-specific use of 6500 K may boost performance but can increase discomfort if overused.'',
    refs =
      [(''EN 12464-1 overview (indoor workplaces: illuminance, UGR, CRI)'',
        ''https://www.performanceinlighting.com/mo/en/en-12464-1''),
       (''Park et al., 2015: CCT, EEG & task performance'',
        ''https://pmc.ncbi.nlm.nih.gov/articles/PMC4668153/''),
       (''Chen et al., 2022: CCT '' @ [CHR 0xC3, CHR 0x97] @ '' illuminance effects'',
        ''https://www.mdpi.com/1996-1073/15/12/4477'')]\<rparr>,
  \<lparr>title = ''CRI (Color Rendering Index, Ra)'',
    xspan = (60, 100),
    bands = \<lparr>good = (80, 100), warn = (70, 80), danger = (60, 100)\<rparr>,
    anchors_x = [60, 70, 75, 80, 85, 90, 95, 100],
    anchors_y = [50, 60, 70, 82, 90, 96, 99, 100],
    param_notes = ''CRI '' @ [CHR 0xE2, CHR 0x89, CHR 0xA5] @ ''80 is generally recommended for classrooms; '' @ [CHR 0xE2, CHR 0x89, CHR 0xA5] @ ''90 for art/graphics where color evaluation matters.'',
    refs =
      [(''EN 12464-1 overview (Ra requirements)'',
        ''https://www.performanceinlighting.com/mo/en/en-12464-1'')]\<rparr>,
  \<lparr>title = ''Flicker (Percent Modulation, typical LED)'',
    xspan = (0, 50),
    bands = \<lparr>good = (0, 5), warn = (5, 20), danger = (0, 50)\<rparr>,
    anchors_x = [0, 2, 5, 10, 20, 30, 40, 50],
    anchors_y = [0, 5, 10, 25, 50, 70, 85, 95],
    param_notes = ''Keep percent flicker as low as practical (<5%). Avoid low-frequency PWM; follow IEEE 1789 guidance.'',
    refs =
      [(''IEEE 1789-2015: Flicker Recommended Practice (PDF)'',
        ''https://www.lisungroup.com/wp-content/uploads/2020/02/IEEE-2015-STANDARDS-1789-Standard-Free-Download.pdf''),
       (''DOE/LightFair: Understanding IEEE Flicker Practice (PDF)'',
        ''https://www.energy.gov/sites/default/files/2022-11/ssl-miller-lehman_flicker_lightfair2015.pdf''),
       (''Miller et al., 2022 review (PDF)'',
        ''https://www.energy.gov/sites/default/files/2022-08/ssl-miller-etal-2022-LRT-flicker-review-tlm-stimulus-response.pdf'')]\<rparr>,
  \<lparr>title = ''Glare (Unified Glare Rating, UGR)'',
    xspan = (10, 30),
    bands = \<lparr>good = (10, 19), warn = (19, 22), danger = (10, 30)\<rparr>,
    anchors_x = [10, 13, 16, 19, 22, 25, 28, 30],
    anchors_y = [5, 8, 15, 30, 55, 75, 90, 95],
    param_notes = ''Aim UGR <19 for classrooms; even lower ('' @ [CHR 0xE2, CHR 0x89, CHR 0x88] @ ''16'' @ [CHR 0xE2, CHR 0x80, CHR 0x93] @ ''18) near screens/IBs to minimize discomfort and distraction.'',
    refs =
      [(''CIBSE Factfile: Importance of glare & calculating UGR (PDF)'',
        ''https://www.cibse.org/media/polbabib/factfile-15-the-importance-of-glare-and-calculating-ugr-jul2019.pdf''),
       (''EN 12464-1 overview (UGR contexts)'',
        ''https://www.performanceinlighting.com/mo/en/en-12464-1'')]\<rparr>,
  \<lparr>title = ''Melanopic EDI (melanopic lux at eye, vertical)'',
    xspan = (0, 800),
    bands = \<lparr>good = (250, 500), warn = (100, 250), danger = (0, 800)\<rparr>,
    anchors_x = [0, 20, 50, 100, 250, 500, 800],
    anchors_y = [0, 5, 15, 35, 65, 80, 90],
    param_notes = ''Provide '' @ [CHR 0xE2, CHR 0x89, CHR 0xA5] @ ''250 melanopic EDI during the day for circadian entrainment and alertness (measured vertically at ~1.2 m).'',
    refs =
      [(''Brown et al., 2022 (PLOS Biology): Consensus recommendations'',
        ''https://journals.plos.org/plosbiology/article?id=10.1371/journal.pbio.3001571''),
       (''Brown et al., 2022 (PMC)'',
        ''https://pmc.ncbi.nlm.nih.gov/articles/PMC8929548/''),
       (''WELL v2 '' @ [CHR 0xE2, CHR 0x80, CHR 0x93] @ '' Circadian Lighting context (Article)'',
        ''https://resources.wellcertified.com/articles/circadian-rhythms/'')]\<rparr>,
  \<lparr>title = ''Vertical Illuminance (lux at eye/face)'',
    xspan = (50, 1000),
    bands = \<lparr>good = (300, 500), warn = (200, 800), danger = (50, 1000)\<rparr>,
    anchors_x = [50, 100, 150, 300, 500, 800, 1000],
    anchors_y = [0.05, 0.12, 0.22, 0.4, 0.55, 0.65, 0.7],
    param_notes = ''Aim ~300'' @ [CHR 0xE2, CHR 0x80, CHR 0x93] @ ''500 lx vertical on faces/eye for daytime non-visual benefits; much lower levels are advisable in evening school events.'',
    refs =
      [(''EN 12464-1 overview; vertical/ambient aspects'',
        ''https://www.performanceinlighting.com/mo/en/en-12464-1''),
       (''WELL v2 circadian context (Article)'',
        ''https://resources.wellcertified.com/articles/circadian-rhythms/'')]\<rparr>,
  \<lparr>title = ''Exposure Duration (hours of daytime light meeting target)'',
    xspan = (0, 8),
    bands = \<lparr>good = (2, 4), warn = (1, 6), danger = (0, 8)\<rparr>,
    anchors_x = [0, 0.5, 1, 2, 3, 4, 6, 8],
    anchors_y = [0, 10, 20, 40, 60, 75, 90, 95],
    param_notes = ''Sustained daytime exposure (~2'' @ [CHR 0xE2, CHR 0x80, CHR 0x93] @ ''4 h at adequate spectrum/levels) supports alertness and entrainment; avoid excessive high-intensity late-day exposure.'',
    refs =
      [(''Brown et al., 2022 (PMC): Day vs evening guidance'',
        ''https://pmc.ncbi.nlm.nih.gov/articles/PMC8929548/'')]\<rparr>,
  \<lparr>title = ''Horizontal Illuminance (desk/task, lux)'',
    xspan = (100, 1500),
    bands = \<lparr>good = (300, 500), warn = (200, 1000), danger = (100, 1500)\<rparr>,
    anchors_x = [100, 200, 300, 500, 750, 1000, 1500],
    anchors_y = [60, 75, 85, 95, 98, 99, 99],
    param_notes = ''Provide 300'' @ [CHR 0xE2, CHR 0x80, CHR 0x93] @ ''500 lx at desks for general classrooms; 500'' @ [CHR 0xE2, CHR 0x80, CHR 0x93] @ ''750+ lx for labs/graphics. Short-term 800'' @ [CHR 0xE2, CHR 0x80, CHR 0x93] @ ''1000 lx can be used for exam focus.'',
    refs =
      [(''EN 12464-1 overview (classroom/task lx)'',
        ''https://www.performanceinlighting.com/mo/en/en-12464-1''),
       (''MDPI (2025) review referencing EN 12464-1 classroom levels'',
        ''https://www.mdpi.com/2075-5309/15/8/1233'')]\<rparr>]"

definition st_RECS :: "rec list" where
  "st_RECS = [
  (''Kindergarten (3'' @ [CHR 0xE2, CHR 0x80, CHR 0x93] @ ''5) '' @ [CHR 0xE2, CHR 0x80, CHR 0x93] @ '' classroom'',
   ''Horizontal lx: 300'' @ [CHR 0xE2, CHR 0x80, CHR 0x93] @ ''500'',
   ''UGR: <19'',
   ''CRI: '' @ [CHR 0xE2, CHR 0x89, CHR 0xA5] @ ''80'',
   ''Melanopic EDI (day): '' @ [CHR 0xE2, CHR 0x89, CHR 0xA5] @ ''250'',
   ''CCT: 3500'' @ [CHR 0xE2, CHR 0x80, CHR 0x93] @ ''4000 K'',
   ''Softer CCT reduces over-arousal; keep flicker <5%; vertical ~300'' @ [CHR 0xE2, CHR 0x80, CHR 0x93] @ ''400 lx for faces.'',
   [(''EN 12464-1 overview'',
      ''https://www.performanceinlighting.com/mo/en/en-12464-1''),
     (''Brown et al., 2022 (PMC)'',
      ''https://pmc.ncbi.nlm.nih.gov/articles/PMC8929548/'')]),
  (''Primary (6'' @ [CHR 0xE2, CHR 0x80, CHR 0x93] @ ''11) '' @ [CHR 0xE2, CHR 0x80, CHR 0x93] @ '' classroom'',
   ''Horizontal lx: 300'' @ [CHR 0xE2, CHR 0x80, CHR 0x93] @ ''500'',
   ''UGR: <19'',
   ''CRI: '' @ [CHR 0xE2, CHR 0x89, CHR 0xA5] @ ''80'',
   ''Melanopic EDI (day): '' @ [CHR 0xE2, CHR 0x89, CHR 0xA5] @ ''250'' @ [CHR 0xE2, CHR 0x80, CHR 0x93] @ ''300'',
   ''CCT: 4000'' @ [CHR 0xE2, CHR 0x80, CHR 0x93] @ ''5000 K'',
   ''Balanced spectrum/daylight; flicker <5%; vertical ~300'' @ [CHR 0xE2, CHR 0x80, CHR 0x93] @ ''500 lx faces/boards.'',
   [(''EN 12464-1 overview'',
      ''https://www.performanceinlighting.com/mo/en/en-12464-1''),
     (''WELL circadian article'',
      ''https://resources.wellcertified.com/articles/circadian-rhythms/'')]),
  (''Secondary (12'' @ [CHR 0xE2, CHR 0x80, CHR 0x93] @ ''18) '' @ [CHR 0xE2, CHR 0x80, CHR 0x93] @ '' classroom'',
   ''Horizontal lx: 300'' @ [CHR 0xE2, CHR 0x80, CHR 0x93] @ ''500'',
   ''UGR: <19 ('' @ [CHR 0xE2, CHR 0x89, CHR 0xA4] @ ''16 near screens)'',
   ''CRI: '' @ [CHR 0xE2, CHR 0x89, CHR 0xA5] @ ''80 ('' @ [CHR 0xE2, CHR 0x89, CHR 0xA5] @ ''90 for art)'',
   ''Melanopic EDI (day): '' @ [CHR 0xE2, CHR 0x89, CHR 0xA5] @ ''250'' @ [CHR 0xE2, CHR 0x80, CHR 0x93] @ ''300'',
   ''CCT: 4000'' @ [CHR 0xE2, CHR 0x80, CHR 0x93] @ ''5000 K'',
   ''Lower UGR near screens; short high-CCT/high-lx sessions can support exam focus.'',
   [(''EN 12464-1 overview'',
      ''https://www.performanceinlighting.com/mo/en/en-12464-1'')]),
  (''Exam/Focus (short sessions, all ages)'',
   ''Horizontal lx: 500'' @ [CHR 0xE2, CHR 0x80, CHR 0x93] @ ''1000'',
   ''UGR: <19'',
   ''CRI: '' @ [CHR 0xE2, CHR 0x89, CHR 0xA5] @ ''80'',
   ''Melanopic EDI (day): '' @ [CHR 0xE2, CHR 0x89, CHR 0xA5] @ ''300'' @ [CHR 0xE2, CHR 0x80, CHR 0x93] @ ''400'',
   ''CCT: 5000'' @ [CHR 0xE2, CHR 0x80, CHR 0x93] @ ''6500 K'',
   ''Short deployments to boost alertness; avoid all-day cold light.'',
   [(''Park et al., 2015'',
      ''https://pmc.ncbi.nlm.nih.gov/articles/PMC4668153/''),
     (''Chen et al., 2022'',
      ''https://www.mdpi.com/1996-1073/15/12/4477'')]),
  (''Art/Graphics room'',
   ''Horizontal lx: 500'' @ [CHR 0xE2, CHR 0x80, CHR 0x93] @ ''750'',
   ''UGR: <19'',
   ''CRI: '' @ [CHR 0xE2, CHR 0x89, CHR 0xA5] @ ''90'',
   ''Melanopic EDI (day): '' @ [CHR 0xE2, CHR 0x89, CHR 0xA5] @ ''250'',
   ''CCT: 4000'' @ [CHR 0xE2, CHR 0x80, CHR 0x93] @ ''5000 K'',
   ''High CRI for color judgment; strong vertical lighting to evaluate work.'',
   [(''EN 12464-1 overview'',
      ''https://www.performanceinlighting.com/mo/en/en-12464-1'')]),
  (''Science lab'',
   ''Horizontal lx: 500'' @ [CHR 0xE2, CHR 0x80, CHR 0x93] @ ''750'',
   ''UGR: <19 ('' @ [CHR 0xE2, CHR 0x89, CHR 0xA4] @ ''16 preferred)'',
   ''CRI: '' @ [CHR 0xE2, CHR 0x89, CHR 0xA5] @ ''80'',
   ''Melanopic EDI (day): '' @ [CHR 0xE2, CHR 0x89, CHR 0xA5] @ ''250'' @ [CHR 0xE2, CHR 0x80, CHR 0x93] @ ''300'',
   ''CCT: 4000'' @ [CHR 0xE2, CHR 0x80, CHR 0x93] @ ''5000 K'',
   ''Higher task illumination and glare control for practical work; minimize flicker.'',
   [(''EN 12464-1 overview'',
      ''https://www.performanceinlighting.com/mo/en/en-12464-1'')]),
  (''Corridors / circulation'',
   ''Horizontal lx: 100'' @ [CHR 0xE2, CHR 0x80, CHR 0x93] @ ''200'',
   ''UGR: <22'',
   ''CRI: '' @ [CHR 0xE2, CHR 0x89, CHR 0xA5] @ ''80'',
   ''Melanopic EDI: '' @ [CHR 0xE2, CHR 0x80, CHR 0x94],
   ''CCT: 3000'' @ [CHR 0xE2, CHR 0x80, CHR 0x93] @ ''4000 K'',
   ''Comfortable navigation; avoid glare and harsh contrasts.'',
   [(''EN 12464-1 overview'',
      ''https://www.performanceinlighting.com/mo/en/en-12464-1'')])]"

definition st_ALL_REFS :: "(string \<times> string) list" where
  "st_ALL_REFS =
   [(''EN 12464-1 overview (indoor workplaces: illuminance, UGR, CRI)'',
     ''https://www.performanceinlighting.com/mo/en/en-12464-1''),
    (''CIBSE Factfile: Importance of glare & calculating UGR (PDF)'',
     ''https://www.cibse.org/media/polbabib/factfile-15-the-importance-of-glare-and-calculating-ugr-jul2019.pdf''),
    (''Brown et al., 2022 (PLOS Biology): Consensus recommendations'',
     ''https://journals.plos.org/plosbiology/article?id=10.1371/journal.pbio.3001571''),
    (''Brown et al., 2022 (PMC mirror)'',
     ''https://pmc.ncbi.nlm.nih.gov/articles/PMC8929548/''),
    (''WELL v2 Circadian context article (IWBI)'',
     ''https://resources.wellcertified.com/articles/circadian-rhythms/''),
    (''IEEE 1789-2015 (PDF copy)'',
     ''https://www.lisungroup.com/wp-content/uploads/2020/02/IEEE-2015-STANDARDS-1789-Standard-Free-Download.pdf''),
    (''DOE/LightFair deck on IEEE 1789 (PDF)'',
     ''https://www.energy.gov/sites/default/files/2022-11/ssl-miller-lehman_flicker_lightfair2015.pdf''),
    (''Miller et al., 2022 flicker review (PDF)'',
     ''https://www.energy.gov/sites/default/files/2022-08/ssl-miller-etal-2022-LRT-flicker-review-tlm-stimulus-response.pdf''),
    (''Park et al., 2015: CCT, EEG & task performance (PMC)'',
     ''https://pmc.ncbi.nlm.nih.gov/articles/PMC4668153/''),
    (''Chen et al., 2022: CCT '' @ [CHR 0xC3, CHR 0x97] @ '' illuminance (MDPI)'',
     ''https://www.mdpi.com/1996-1073/15/12/4477''),
    (''MDPI 2025 review referencing EN 12464-1 classroom levels'',
     ''https://www.mdpi.com/2075-5309/15/8/1233'')]"

definition st2_PARAMS :: "param list" where
  "st2_PARAMS = [
  \<lparr>title = ''CCT (Correlated Color Temperature, K)'',
    xspan = (2000, 7000),
    bands = \<lparr>good = (4000, 5000), warn = (3000, 6500), danger = (2000, 7000)\<rparr>,
    anchors_x = [2000, 2700, 3000, 3500, 4000, 5000, 6500, 7000],
    anchors_y = [8, 15, 25, 45, 65, 75, 60, 55],
    param_notes = ''Higher CCT (bluer light) tends to increase alertness and cognitive stimulation during daytime; warmer CCT supports calmness and relaxation.'',
    refs =
      [(''Park et al., 2015 (PMC)'',
        ''https://pmc.ncbi.nlm.nih.gov/articles/PMC4668153/''),
       (''Mott et al., classroom focus literature'',
        ''https://journals.sagepub.com/doi/abs/10.1177/1477153512446099''),
       (''User uploaded study (Schools information.docx) - CCT tests at 2500K,3000K,4000K,5000K,6500K'',
        INPUT_UPLOADED_DOCX)]\<rparr>,
  \<lparr>title = ''CRI (Color Rendering Index, Ra)'',
    xspan = (60, 100),
    bands = \<lparr>good = (80, 100), warn = (70, 80), danger = (60, 100)\<rparr>,
    anchors_x = [60, 70, 75, 80, 85, 90, 95, 100],
    anchors_y = [50, 60, 72, 82, 90, 96, 99, 100],
    param_notes = ''Higher CRI improves color recognition and visual comfort; CRI is typically kept high in classrooms for accurate color tasks.'',
    refs =
      [(''EN 12464 standard (CRI guidance)'',
        ''https://www.performanceinlighting.com/mo/en/en-12464-1''),
       (INPUT_UPLOADED_DOCX,
        ''User uploaded study: CRI mentioned in docx (high CRI noted)'')]\<rparr>,
  \<lparr>title = ''Flicker (Percent modulation)'',
    xspan = (0, 50),
    bands = \<lparr>good = (0, 5), warn = (5, 20), danger = (0, 50)\<rparr>,
    anchors_x = [0, 2, 5, 10, 20, 30, 40, 50],
    anchors_y = [0, 3, 8, 20, 45, 70, 85, 95],
    param_notes = ''Unnoticeable high-frequency flicker still can impact sensitive individuals; keep flicker as low as possible (IEEE 1789 guidance).'',
    refs =
      [(''IEEE 1789 recommended practice'',
        ''https://www.lisungroup.com/wp-content/uploads/2020/02/IEEE-2015-STANDARDS-1789-Standard-Free-Download.pdf''),
       (''User uploaded study (Schools information.docx) noted ~100Hz fluorescent flicker in many classrooms'',
        INPUT_UPLOADED_DOCX)]\<rparr>,
  \<lparr>title = ''Glare (Unified Glare Rating UGR)'',
    xspan = (10, 30),
    bands = \<lparr>good = (10, 19), warn = (19, 22), danger = (10, 30)\<rparr>,
    anchors_x = [10, 13, 16, 19, 22, 25, 28, 30],
    anchors_y = [5, 8, 15, 30, 55, 80, 92, 96],
    param_notes = ''High glare leads to eye strain and distraction; control luminaire placement and reflections to keep UGR low in classrooms.'',
    refs =
      [(''CIBSE guidance on UGR'',
        ''https://www.cibse.org/''),
       (INPUT_UPLOADED_DOCX,
        ''User file: glare noted as a negative factor'')]\<rparr>,
  \<lparr>title = ''Uniformity (Emin / Eavg)'',
    xspan = (0.1, 1.0),
    bands = \<lparr>good = (0.6, 1.0), warn = (0.4, 0.59), danger = (0.1, 1.0)\<rparr>,
    anchors_x = [0.1, 0.2, 0.3, 0.45, 0.6, 0.75, 0.9, 1.0],
    anchors_y = [40, 55, 70, 82, 92, 96, 98, 99],
    param_notes = ''Higher uniformity reduces local visual contrast and improves even task performance across the room.'',
    refs =
      [(''EN 12464-1 uniformity recommendations'',
        ''https://www.performanceinlighting.com/mo/en/en-12464-1'')]\<rparr>,
  \<lparr>title = ''Melanopic EDI (melanopic lux at eye)'',
    xspan = (0, 800),
    bands = \<lparr>good = (250, 500), warn = (100, 250), danger = (0, 800)\<rparr>,
    anchors_x = [0, 20, 50, 100, 250, 500, 800],
    anchors_y = [0, 5, 15, 35, 65, 80, 90],
    param_notes = ''Melanopic EDI of ~250 lux or higher in daytime supports circadian entrainment and alertness (Brown et al., 2022 consensus).'',
    refs =
      [(''Brown et al., 2022 consensus (PLOS Biology)'',
        ''https://journals.plos.org/plosbiology/article?id=10.1371/journal.pbio.3001571''),
       (INPUT_UPLOADED_DOCX,
        ''User file: referenced melanopic / circadian impacts in literature review'')]\<rparr>,
  \<lparr>title = ''Vertical Illuminance (lux at eye/face)'',
    xspan = (50, 1000),
    bands = \<lparr>good = (300, 500), warn = (200, 800), danger = (50, 1000)\<rparr>,
    anchors_x = [50, 100, 150, 300, 500, 800, 1000],
    anchors_y = [0.05, 0.12, 0.22, 0.4, 0.55, 0.65, 0.68],
    param_notes = ''Vertical lux is crucial for non-visual responses; measure at eye/face level for circadian effect estimates.'',
    refs =
      [(''EN 12464-1 and WELL references on vertical illumination'',
        ''https://www.performanceinlighting.com/mo/en/en-12464-1''),
       (INPUT_UPLOADED_DOCX,
        ''User file: some studies included vertical illuminance ranges (350-1000) in literature'')]\<rparr>,
  \<lparr>title = ''Exposure Duration (hours of daytime light at target levels)'',
    xspan = (0, 8),
    bands = \<lparr>good = (2, 4), warn = (1, 6), danger = (0, 8)\<rparr>,
    anchors_x = [0, 0.5, 1, 2, 3, 4, 6, 8],
    anchors_y = [0, 10, 20, 40, 60, 75, 90, 95],
    param_notes = ''Sustained daytime exposure (~2'' @ [CHR 0xE2, CHR 0x80, CHR 0x93] @ ''4 h at adequate EDI) supports entrainment. Short or irregular exposure is less effective.'',
    refs =
      [(''Brown et al., 2022 consensus; circadian exposure guidance'',
        ''https://pmc.ncbi.nlm.nih.gov/articles/PMC8929548/''),
       (INPUT_UPLOADED_DOCX,
        ''User file: exposure duration context in literature review'')]\<rparr>,
  \<lparr>title = ''Horizontal Illuminance (desk/task lux)'',
    xspan = (100, 1500),
    bands = \<lparr>good = (300, 500), warn = (200, 1000), danger = (100, 1500)\<rparr>,
    anchors_x = [100, 200, 300, 500, 750, 1000, 1500],
    anchors_y = [60, 75, 85, 95, 98, 99, 99],
    param_notes = ''300'' @ [CHR 0xE2, CHR 0x80, CHR 0x93] @ ''500 lx on desk level is typical for classrooms; exams/labs may use short-term higher levels ('' @ [CHR 0xE2, CHR 0x89, CHR 0xA5] @ ''750 lx).'',
    refs =
      [(''EN 12464-1 classroom illuminance (desk level)'',
        ''https://www.performanceinlighting.com/mo/en/en-12464-1''),
       (INPUT_UPLOADED_DOCX,
        ''User file: tested 275, 475, 613 lux and reported alertness increases'')]\<rparr>]"

definition st2_RECS :: "rec list" where
  "st2_RECS = [
  (''Kindergarten classrooms (ages 4'' @ [CHR 0xE2, CHR 0x80, CHR 0x93] @ ''6)'',
   ''Horizontal Illuminance: 300'' @ [CHR 0xE2, CHR 0x80, CHR 0x93] @ ''500 lx'',
   ''CRI '' @ [CHR 0xE2, CHR 0x89, CHR 0xA5] @ '' 80'',
   ''UGR '' @ [CHR 0xE2, CHR 0x89, CHR 0xA4] @ '' 19'',
   ''Melanopic EDI ~200'' @ [CHR 0xE2, CHR 0x80, CHR 0x93] @ ''300 lx'',
   ''CCT 3500'' @ [CHR 0xE2, CHR 0x80, CHR 0x93] @ ''4000 K'',
   ''Children benefit from moderate light levels, good color rendering, and warm-neutral CCT that supports calmness.'',
   [(''EN 12464-1 indoor lighting'',
      ''https://www.performanceinlighting.com/mo/en/en-12464-1''),
     (''Brown et al., 2022 consensus'',
      ''https://journals.plos.org/plosbiology/article?id=10.1371/journal.pbio.3001571'')]),
  (''Primary school classrooms (ages 7'' @ [CHR 0xE2, CHR 0x80, CHR 0x93] @ ''12)'',
   ''Horizontal Illuminance: 300'' @ [CHR 0xE2, CHR 0x80, CHR 0x93] @ ''500 lx (up to 750 lx during reading/writing)'',
   ''CRI '' @ [CHR 0xE2, CHR 0x89, CHR 0xA5] @ '' 80'' @ [CHR 0xE2, CHR 0x80, CHR 0x93] @ ''85'',
   ''UGR '' @ [CHR 0xE2, CHR 0x89, CHR 0xA4] @ '' 19'',
   ''Melanopic EDI ~250'' @ [CHR 0xE2, CHR 0x80, CHR 0x93] @ ''400 lx'',
   ''CCT 4000'' @ [CHR 0xE2, CHR 0x80, CHR 0x93] @ ''5000 K'',
   ''Slightly higher CCT supports alertness; ensure vertical illuminance at eye is sufficient for circadian entrainment.'',
   [(''EN 12464-1'',
      ''https://www.performanceinlighting.com/mo/en/en-12464-1''),
     (''Park et al., 2015'',
      ''https://pmc.ncbi.nlm.nih.gov/articles/PMC4668153/'')]),
  (''Secondary schools / adolescents (ages 13'' @ [CHR 0xE2, CHR 0x80, CHR 0x93] @ ''18)'',
   ''Horizontal Illuminance: 500 lx baseline, up to 1000 lx for detailed tasks'',
   ''CRI '' @ [CHR 0xE2, CHR 0x89, CHR 0xA5] @ '' 85'',
   ''UGR '' @ [CHR 0xE2, CHR 0x89, CHR 0xA4] @ '' 19'',
   ''Melanopic EDI '' @ [CHR 0xE2, CHR 0x89, CHR 0xA5] @ '' 300 lx (ideally 400'' @ [CHR 0xE2, CHR 0x80, CHR 0x93] @ ''500 lx daytime)'',
   ''CCT 5000'' @ [CHR 0xE2, CHR 0x80, CHR 0x93] @ ''6500 K'',
   ''Teenagers need strong circadian signals due to delayed sleep phase; cooler CCT supports morning alertness.'',
   [(''Brown et al., 2022 consensus'',
      ''https://journals.plos.org/plosbiology/article?id=10.1371/journal.pbio.3001571''),
     (''Mott et al., dynamic lighting in classrooms'',
      ''https://journals.sagepub.com/doi/abs/10.1177/1477153512446099'')]),
  (''Laboratories / exam halls'',
   ''Horizontal Illuminance: 750'' @ [CHR 0xE2, CHR 0x80, CHR 0x93] @ ''1000 lx'',
   ''CRI '' @ [CHR 0xE2, CHR 0x89, CHR 0xA5] @ '' 90'',
   ''UGR '' @ [CHR 0xE2, CHR 0x89, CHR 0xA4] @ '' 19'',
   ''Melanopic EDI '' @ [CHR 0xE2, CHR 0x89, CHR 0xA5] @ '' 400 lx'',
   ''CCT 5000'' @ [CHR 0xE2, CHR 0x80, CHR 0x93] @ ''6500 K'',
   ''High-intensity, cool light enhances alertness and task precision; suitable for exams and labs.'',
   [(''EN 12464-1'',
      ''https://www.performanceinlighting.com/mo/en/en-12464-1''),
     (''WELL Building Standard'',
      ''https://resources.wellcertified.com/articles/circadian-rhythms/'')]),
  (''Playgrounds / common areas'',
   ''Horizontal Illuminance: 100'' @ [CHR 0xE2, CHR 0x80, CHR 0x93] @ ''200 lx'',
   ''CRI '' @ [CHR 0xE2, CHR 0x89, CHR 0xA5] @ '' 70'',
   ''UGR control less critical outdoors'',
   ''Melanopic EDI variable, natural daylight preferred'',
   ''CCT variable, daylight spectrum preferred'',
   ''Outdoor spaces rely on natural daylight; artificial lighting should prioritize safety and visibility rather than circadian control.'',
   [(''CIBSE lighting guide'',
      ''https://www.cibse.org/'')])]"

definition st2_master_refs :: "(string \<times> string) list" where
  "st2_master_refs =
   [(''EN 12464-1 overview (indoor workplaces)'',
     ''https://www.performanceinlighting.com/mo/en/en-12464-1''),
   (''Brown et al., 2022 PLOS Biology (melanopic consensus)'',
     ''https://journals.plos.org/plosbiology/article?id=10.1371/journal.pbio.3001571''),
   (''WELL resource: Circadian context'',
     ''https://resources.wellcertified.com/articles/circadian-rhythms/''),
   (''IEEE 1789 (flicker)'',
     ''https://www.lisungroup.com/wp-content/uploads/2020/02/IEEE-2015-STANDARDS-1789-Standard-Free-Download.pdf''),
   (''Park et al., 2015 (CCT & task performance PMC)'',
     ''https://pmc.ncbi.nlm.nih.gov/articles/PMC4668153/''),
   (''User uploaded file (Schools information.docx)'',
     INPUT_UPLOADED_DOCX)]"

definition PARAMETERS :: "parameter list" where
  "PARAMETERS = [
  \<lparr>name = ''CCT (Correlated Color Temperature, K)'',
    span = (2000, 8000),
    p_good = (4000, 5000), p_warn = (3000, 6500), p_danger = (2000, 8000),
    curve = Gaussian, curve_center = Some (0.54),
    p_refs =
      [(''EN 12464-1: Indoor work lighting (general targets)'',
        ''https://www.performanceinlighting.com/mo/en/en-12464-1''),
       (''Mott et al., 2012: High CCT/illuminance improved reading fluency'',
        ''https://journals.sagepub.com/doi/abs/10.1177/1477153512446099''),
       (''Sleegers et al., 2013: Dynamic lighting and concentration'',
        ''https://journals.sagepub.com/doi/abs/10.1177/1477153512446099''),
       (''Park et al., 2015: CCT, EEG & task performance'',
        ''https://pmc.ncbi.nlm.nih.gov/articles/PMC4668153/''),
       (''Chen et al., 2022: CCT '' @ [CHR 0xC3, CHR 0x97] @ '' illuminance responses'',
        ''https://www.mdpi.com/1996-1073/15/12/4477'')]\<rparr>,
  \<lparr>name = ''CRI (Color Rendering Index, Ra)'',
    span = (50, 100),
    p_good = (80, 100), p_warn = (70, 80), p_danger = (50, 100),
    curve = Gaussian, curve_center = Some (0.95),
    p_refs =
      [(''EN 12464-1: Ra '' @ [CHR 0xE2, CHR 0x89, CHR 0xA5] @ ''80 typical; '' @ [CHR 0xE2, CHR 0x89, CHR 0xA5] @ ''90 for demanding color tasks'',
        ''https://www.performanceinlighting.com/mo/en/en-12464-1'')]\<rparr>,
  \<lparr>name = ''Flicker (% modulation at typical LED driving frequencies)'',
    span = (0, 50),
    p_good = (0, 5), p_warn = (5, 20), p_danger = (0, 50),
    curve = Descending, curve_center = None,
    p_refs =
      [(''IEEE 1789-2015: Flicker recommended practice'',
        ''https://www.lisungroup.com/wp-content/uploads/2020/02/IEEE-2015-STANDARDS-1789-Standard-Free-Download.pdf''),
       (''DOE/LightFair deck: factors increasing risk'',
        ''https://www.energy.gov/sites/default/files/2022-11/ssl-miller-lehman_flicker_lightfair2015.pdf''),
       (''DIAL explainer on IEEE 1789 terms'',
        ''https://www.dial.de/en-GB/articles/ieee-1789-a-new-standard-for-evaluating-flickering-leds'')]\<rparr>,
  \<lparr>name = ''Glare (UGR)'',
    span = (10, 30),
    p_good = (10, 19), p_warn = (19, 22), p_danger = (10, 30),
    curve = Descending, curve_center = None,
    p_refs =
      [(''EN 12464-1: UGR targets for tasks'',
        ''https://www.performanceinlighting.com/mo/en/en-12464-1''),
       (''CIBSE Factfile: importance of UGR'',
        ''https://www.cibse.org/media/polbabib/factfile-15-the-importance-of-glare-and-calculating-ugr-jul2019.pdf'')]\<rparr>,
  \<lparr>name = ''Melanopic EDI (lux at eye, vertical)'',
    span = (0, 800),
    p_good = (250, 500), p_warn = (100, 250), p_danger = (0, 800),
    curve = Gaussian, curve_center = Some (0.45),
    p_refs =
      [(''Global consensus (Brown et al., 2022): daytime '' @ [CHR 0xE2, CHR 0x89, CHR 0xA5] @ ''250 mEDI'',
        ''https://journals.plos.org/plosbiology/article?id=10.1371/journal.pbio.3001571''),
       (''PMC version'',
        ''https://pmc.ncbi.nlm.nih.gov/articles/PMC8929548/''),
       (''WELL v2 L03 circadian targets (EML/mEDI)'',
        ''https://standard.wellcertified.com/light/circadian-lighting-design'')]\<rparr>,
  \<lparr>name = ''Vertical Illuminance (lux at eye/face)'',
    span = (50, 1000),
    p_good = (300, 500), p_warn = (200, 800), p_danger = (50, 1000),
    curve = Gaussian, curve_center = Some (0.45),
    p_refs =
      [(''EN 12464-1: room surface/vertical illuminance guidance'',
        ''https://www.performanceinlighting.com/mo/en/en-12464-1''),
       (''CIBSE LG5/education guidance (context)'',
        ''https://www.cibse.org/knowledge-research/knowledge-portal/lg7-lighting-for-offices-2023'')]\<rparr>,
  \<lparr>name = ''Exposure Duration (hours of daytime light meeting targets)'',
    span = (0, 12),
    p_good = (3, 6), p_warn = (1, 8), p_danger = (0, 12),
    curve = Gaussian, curve_center = Some (0.45),
    p_refs =
      [(''Consensus guidance on daytime vs evening exposure (Brown et al., 2022)'',
        ''https://pmc.ncbi.nlm.nih.gov/articles/PMC8929548/'')]\<rparr>,
  \<lparr>name = ''Horizontal Illuminance (desk, lux)'',
    span = (100, 1500),
    p_good = (300, 500), p_warn = (200, 1000), p_danger = (100, 1500),
    curve = Gaussian, curve_center = Some (0.4),
    p_refs =
      [(''EN 12464-1: classroom/task illuminance'',
        ''https://www.performanceinlighting.com/mo/en/en-12464-1''),
       (''Mott/Sleegers: high-lx focus settings evidence'',
        ''https://journals.sagepub.com/doi/abs/10.1177/1477153512446099'')]\<rparr>]"

definition recommendations :: "rec list" where
  "recommendations = [
  (''Kindergarten (3'' @ [CHR 0xE2, CHR 0x80, CHR 0x93] @ ''5) '' @ [CHR 0xE2, CHR 0x80, CHR 0x93] @ '' classroom'',
   ''300'' @ [CHR 0xE2, CHR 0x80, CHR 0x93] @ ''500 lx'',
   ''<19'',
   [CHR 0xE2, CHR 0x89, CHR 0xA5] @ ''80'',
   [CHR 0xE2, CHR 0x89, CHR 0xA5] @ ''250 mEDI (daytime)'',
   ''3500'' @ [CHR 0xE2, CHR 0x80, CHR 0x93] @ ''4000 K'',
   ''Softer CCT to reduce arousal; keep flicker <5%; good vertical light for faces ('' @ [CHR 0xE2, CHR 0x89, CHR 0x88] @ ''300'' @ [CHR 0xE2, CHR 0x80, CHR 0x93] @ ''400 lx).'',
   [(''EN 12464-1: classroom lx/UGR/CRI'',
      ''https://www.performanceinlighting.com/mo/en/en-12464-1''),
     (''Brown et al., 2022 mEDI '' @ [CHR 0xE2, CHR 0x89, CHR 0xA5] @ ''250'',
      ''https://pmc.ncbi.nlm.nih.gov/articles/PMC8929548/'')]),
  (''Primary (6'' @ [CHR 0xE2, CHR 0x80, CHR 0x93] @ ''11) '' @ [CHR 0xE2, CHR 0x80, CHR 0x93] @ '' classroom'',
   ''300'' @ [CHR 0xE2, CHR 0x80, CHR 0x93] @ ''500 lx'',
   ''<19'',
   [CHR 0xE2, CHR 0x89, CHR 0xA5] @ ''80'',
   [CHR 0xE2, CHR 0x89, CHR 0xA5] @ ''250'' @ [CHR 0xE2, CHR 0x80, CHR 0x93] @ ''300 mEDI'',
   ''4000'' @ [CHR 0xE2, CHR 0x80, CHR 0x93] @ ''5000 K'',
   ''Balanced spectrum/daylight; flicker <5%; vertical '' @ [CHR 0xE2, CHR 0x89, CHR 0x88] @ ''300'' @ [CHR 0xE2, CHR 0x80, CHR 0x93] @ ''500 lx on faces/boards.'',
   [(''EN 12464-1'',
      ''https://www.performanceinlighting.com/mo/en/en-12464-1''),
     (''WELL v2 L03 circadian targets'',
      ''https://standard.wellcertified.com/light/circadian-lighting-design'')]),
  (''Secondary (12'' @ [CHR 0xE2, CHR 0x80, CHR 0x93] @ ''18) '' @ [CHR 0xE2, CHR 0x80, CHR 0x93] @ '' classroom'',
   ''300'' @ [CHR 0xE2, CHR 0x80, CHR 0x93] @ ''500 lx'',
   ''<19 ('' @ [CHR 0xE2, CHR 0x89, CHR 0xA4] @ ''16 near screens)'',
   [CHR 0xE2, CHR 0x89, CHR 0xA5] @ ''80 ('' @ [CHR 0xE2, CHR 0x89, CHR 0xA5] @ ''90 for art)'',
   [CHR 0xE2, CHR 0x89, CHR 0xA5] @ ''250'' @ [CHR 0xE2, CHR 0x80, CHR 0x93] @ ''300 mEDI'',
   ''4000'' @ [CHR 0xE2, CHR 0x80, CHR 0x93] @ ''5000 K'',
   ''Lower UGR near screens; can use short high-CCT/1000 lx sessions for tests.'',
   [(''EN 12464-1'',
      ''https://www.performanceinlighting.com/mo/en/en-12464-1''),
     (''Mott/Sleegers focus setting'',
      ''https://journals.sagepub.com/doi/abs/10.1177/1477153512446099'')]),
  (''Exam/Focus sessions (all ages)'',
   ''500'' @ [CHR 0xE2, CHR 0x80, CHR 0x93] @ ''1000 lx (short-term)'',
   ''<19'',
   [CHR 0xE2, CHR 0x89, CHR 0xA5] @ ''80'',
   [CHR 0xE2, CHR 0x89, CHR 0xA5] @ ''250'' @ [CHR 0xE2, CHR 0x80, CHR 0x93] @ ''400 mEDI'',
   ''5000'' @ [CHR 0xE2, CHR 0x80, CHR 0x93] @ ''6500 K'',
   ''Short deployments to boost alertness/reading fluency; avoid all-day cold light.'',
   [(''Mott et al., 2012'',
      ''https://journals.sagepub.com/doi/abs/10.1177/1477153512446099''),
     (''Sleegers et al., 2013'',
      ''https://journals.sagepub.com/doi/abs/10.1177/1477153512446099'')]),
  (''Art/Graphics room'',
   ''500'' @ [CHR 0xE2, CHR 0x80, CHR 0x93] @ ''750 lx'',
   ''<19'',
   [CHR 0xE2, CHR 0x89, CHR 0xA5] @ ''90'',
   [CHR 0xE2, CHR 0x89, CHR 0xA5] @ ''250 mEDI'',
   ''4000'' @ [CHR 0xE2, CHR 0x80, CHR 0x93] @ ''5000 K'',
   ''High CRI for accurate color tasks; good vertical light to evaluate work.'',
   [(''EN 12464-1 (color-critical tasks)'',
      ''https://www.performanceinlighting.com/mo/en/en-12464-1'')]),
  (''Science lab'',
   ''500'' @ [CHR 0xE2, CHR 0x80, CHR 0x93] @ ''750 lx'',
   ''<19 ('' @ [CHR 0xE2, CHR 0x89, CHR 0xA4] @ ''16 preferred)'',
   [CHR 0xE2, CHR 0x89, CHR 0xA5] @ ''80'',
   [CHR 0xE2, CHR 0x89, CHR 0xA5] @ ''250'' @ [CHR 0xE2, CHR 0x80, CHR 0x93] @ ''300 mEDI'',
   ''4000'' @ [CHR 0xE2, CHR 0x80, CHR 0x93] @ ''5000 K'',
   ''Higher task lx and glare control for practical work; minimize flicker.'',
   [(''EN 12464-1 (laboratory tasks)'',
      ''https://www.performanceinlighting.com/mo/en/en-12464-1'')]),
  (''Corridors / circulation'',
   ''100'' @ [CHR 0xE2, CHR 0x80, CHR 0x93] @ ''200 lx'',
   ''<22'',
   [CHR 0xE2, CHR 0x89, CHR 0xA5] @ ''80'',
   [CHR 0xE2, CHR 0x80, CHR 0x94],
   ''3000'' @ [CHR 0xE2, CHR 0x80, CHR 0x93] @ ''4000 K'',
   ''Comfortable navigation; avoid excessive brightness/glare.'',
   [(''EN 12464-1'',
      ''https://www.performanceinlighting.com/mo/en/en-12464-1'')])]"

definition file_ALL_REFS :: "(string \<times> string) list" where
  "file_ALL_REFS =
   [(''EN 12464-1: Lighting of work places '' @ [CHR 0xE2, CHR 0x80, CHR 0x94] @ '' Indoor'',
     ''https://www.performanceinlighting.com/mo/en/en-12464-1''),
    (''CIBSE Factfile: Importance of UGR'',
     ''https://www.cibse.org/media/polbabib/factfile-15-the-importance-of-glare-and-calculating-ugr-jul2019.pdf''),
    (''WELL v2 L03: Circadian Lighting Design'',
     ''https://standard.wellcertified.com/light/circadian-lighting-design''),
    (''Brown et al., 2022 (PLOS Biology): Global consensus on melanopic EDI'',
     ''https://journals.plos.org/plosbiology/article?id=10.1371/journal.pbio.3001571''),
    (''PMC mirror for Brown et al., 2022'',
     ''https://pmc.ncbi.nlm.nih.gov/articles/PMC8929548/''),
    (''IEEE 1789-2015: Flicker Recommended Practice'',
     ''https://www.lisungroup.com/wp-content/uploads/2020/02/IEEE-2015-STANDARDS-1789-Standard-Free-Download.pdf''),
    (''DOE/LightFair deck: Flicker risk factors'',
     ''https://www.energy.gov/sites/default/files/2022-11/ssl-miller-lehman_flicker_lightfair2015.pdf''),
    (''Mott et al., 2012 / Sleegers et al., 2013: Focus settings in classrooms'',
     ''https://journals.sagepub.com/doi/abs/10.1177/1477153512446099''),
    (''Park et al., 2015: CCT, EEG & task performance'',
     ''https://pmc.ncbi.nlm.nih.gov/articles/PMC4668153/''),
    (''Chen et al., 2022: CCT '' @ [CHR 0xC3, CHR 0x97] @ '' Illuminance responses'',
     ''https://www.mdpi.com/1996-1073/15/12/4477'')]"

definition file2_parameters :: "(string \<times> info) list" where
  "file2_parameters = [
  (''CCT (Color Temperature)'',
    \<lparr>info_x = [2700, 3000, 3500, 4000, 5000, 6500],
     info_y = [3, 4, 6, 8, 7, 5],
     acceptable = (3500, 5000)\<rparr>),
  (''CRI (Color Rendering Index)'',
    \<lparr>info_x = [70, 75, 80, 85, 90, 95, 100],
     info_y = [3, 4, 6, 7, 9, 10, 10],
     acceptable = (80, 100)\<rparr>),
  (''Flicker'',
    \<lparr>info_x = [0, 5, 10, 20, 30, 50, 100],
     info_y = [10, 9, 7, 5, 3, 2, 1],
     acceptable = (0, 10)\<rparr>),
  (''Glare (UGR)'',
    \<lparr>info_x = [10, 13, 16, 19, 22, 25, 28],
     info_y = [10, 9, 7, 5, 3, 2, 1],
     acceptable = (16, 19)\<rparr>),
  (''Melanopic EDI'',
    \<lparr>info_x = [100, 150, 200, 250, 300, 350, 400],
     info_y = [3, 5, 7, 9, 10, 9, 7],
     acceptable = (200, 350)\<rparr>),
  (''Vertical Illuminance'',
    \<lparr>info_x = [100, 150, 200, 300, 500, 1000],
     info_y = [2, 5, 7, 9, 10, 8],
     acceptable = (300, 500)\<rparr>),
  (''Exposure Duration'',
    \<lparr>info_x = [0.5, 1, 2, 3, 4, 6, 8],
     info_y = [2, 4, 7, 9, 10, 8, 6],
     acceptable = (2, 4)\<rparr>),
  (''Lux (Horizontal Illuminance)'',
    \<lparr>info_x = [100, 200, 300, 500, 750, 1000],
     info_y = [2, 4, 6, 9, 10, 9],
     acceptable = (300, 500)\<rparr>)]"

subsection \<open>The band-drawing helper\<close>

text \<open>
  \<^verbatim>\<open>add_bands\<close> (\<^verbatim>\<open>st.py\<close>, \<^verbatim>\<open>st2.py\<close>) and \<^verbatim>\<open>band_plot\<close> (\<^verbatim>\<open>escai/file.py\<close>) shade five
  segments with \<^verbatim>\<open>ax.axvspan(xmin, xmax, color)\<close>, in this order. The result is the list of
  the five calls.
\<close>

datatype colour = COLOR_BAD | COLOR_WARN | COLOR_GOOD

definition add_bands ::
  "real \<times> real \<Rightarrow> real \<times> real \<Rightarrow> real \<times> real \<Rightarrow> (colour \<times> real \<times> real) list" where
  "add_bands g w d =
     [(COLOR_BAD, fst d, fst w),
      (COLOR_WARN, fst w, fst g),
      (COLOR_GOOD, fst g, snd g),
      (COLOR_WARN, snd g, snd w),
      (COLOR_BAD, snd w, snd d)]"

text \<open>
  The nesting that the helpers' comments ask of their arguments (``danger is the full span;
  warn is inner band; good is core''; ``warn inside danger, good inside warn''): the good
  band inside the warn band, the warn band inside the danger band, the danger band equal
  to the span of the x axis.
\<close>

definition nested :: "real \<times> real \<Rightarrow> real \<times> real \<Rightarrow> real \<times> real \<Rightarrow> real \<times> real \<Rightarrow> bool" where
  "nested g w d sp \<longleftrightarrow>
     fst g \<ge> fst w \<and> snd g \<le> snd w \<and> fst w \<ge> fst d \<and> snd w \<le> snd d \<and> d = sp"

definition param_nested :: "param \<Rightarrow> bool" where
  "param_nested p = nested (good (bands p)) (warn (bands p)) (danger (bands p)) (xspan p)"

definition parameter_nested :: "parameter \<Rightarrow> bool" where
  "parameter_nested p = nested (p_good p) (p_warn p) (p_danger p) (span p)"

text \<open>Anchors as the curve helpers need them: ascending x values, one y value for each.\<close>

definition anchors_ok :: "real list \<Rightarrow> real list \<Rightarrow> bool" where
  "anchors_ok ax ay \<longleftrightarrow> sorted_wrt (<) ax \<and> length ax = length ay"

subsection \<open>Errors\<close>

text \<open>The exceptions that the embedded code raises.\<close>

datatype error =
  ValueError | FileNotFoundError | NotADirectoryError | IsADirectoryError
  | PackageNotFoundError | UnrecognizedImageError

subsection \<open>The curve helpers of \<^verbatim>\<open>st.py\<close> and \<^verbatim>\<open>st2.py\<close>\<close>

text \<open>
  \<^verbatim>\<open>numpy.interp(x, xp, fp)\<close> at one sample point: below the first data point the first
  value, from the last data point on the last value, and between two neighbours
  \<^verbatim>\<open>slope * (x - xp[j]) + fp[j]\<close> with \<^verbatim>\<open>slope = (fp[j+1] - fp[j]) / (xp[j+1] - xp[j])\<close>,
  where \<^verbatim>\<open>xp[j] <= x < xp[j+1]\<close>. numpy finds \<open>j\<close> by binary search and leaves the result
  open when \<open>xp\<close> is not ascending; the embedding scans \<open>xp\<close> from the left, which finds
  the same \<open>j\<close> on ascending data.
\<close>

fun interp1 :: "real list \<Rightarrow> real list \<Rightarrow> real \<Rightarrow> real" where
  "interp1 (a # b # xp) (fa # fb # fp) x =
     (if x < a then fa
      else if x < b then (fb - fa) / (b - a) * (x - a) + fa
      else interp1 (b # xp) (fb # fp) x)"
| "interp1 [a] (fa # fp) x = fa"
| "interp1 xp fp x = 0"

text \<open>
  \<^verbatim>\<open>numpy.interp\<close> on an array of sample points. It raises \<^verbatim>\<open>ValueError\<close> when the data
  points are empty or \<open>xp\<close> and \<open>fp\<close> differ in length.
\<close>

definition np_interp :: "real list \<Rightarrow> real list \<Rightarrow> real list \<Rightarrow> error + real list" where
  "np_interp x xp fp =
     (if xp = [] then Inl ValueError
      else if length fp \<noteq> length xp then Inl ValueError
      else Inr (map (interp1 xp fp) x))"

text \<open>\<^verbatim>\<open>st.py\<close>: \<^verbatim>\<open>return np.interp(x, anchors_x, anchors_y)\<close>.\<close>

definition smooth_curve :: "real list \<Rightarrow> real list \<Rightarrow> real list \<Rightarrow> error + real list" where
  "smooth_curve x ax ay = np_interp x ax ay"

text \<open>
  \<^verbatim>\<open>st2.py\<close>: when the sizes differ, both arrays are cut to \<^verbatim>\<open>m = min(size, size)\<close> with
  \<^verbatim>\<open>[:m]\<close> before the call of \<^verbatim>\<open>np.interp\<close>.
\<close>

definition interpolate_curve :: "real list \<Rightarrow> real list \<Rightarrow> real list \<Rightarrow> error + real list" where
  "interpolate_curve x ax ay =
     (if length ax \<noteq> length ay then
        (let m = min (length ax) (length ay)
         in np_interp x (take m ax) (take m ay))
      else np_interp x ax ay)"

text \<open>
  The point \<open>(x, y)\<close> lies on the straight line segment that joins \<open>(px, py)\<close> and
  \<open>(qx, qy)\<close>.
\<close>

definition on_segment :: "real \<times> real \<Rightarrow> real \<times> real \<Rightarrow> real \<times> real \<Rightarrow> bool" where
  "on_segment p q r \<longleftrightarrow>
     (\<exists>t. 0 \<le> t \<and> t \<le> 1 \<and> fst r = (1 - t) * fst p + t * fst q
          \<and> snd r = (1 - t) * snd p + t * snd q)"

subsection \<open>The toy curves of \<^verbatim>\<open>escai/file.py\<close>\<close>

text \<open>
  The script calls both curves with \<^verbatim>\<open>x = np.linspace(x0, x1, 400)\<close>, an array of finite
  \<^verbatim>\<open>float64\<close> numbers, and the embedding is for such arrays. An element of a computed array
  is a finite number or one of the special values \<^verbatim>\<open>inf\<close>, \<^verbatim>\<open>-inf\<close> and \<^verbatim>\<open>nan\<close>: numpy does
  not raise on a division by zero, it warns and returns one of them. Finite numbers are
  taken as reals: rounding and the overflow of a finite operation are not modelled, nor
  is the sign of a zero (every zero divisor below is the positive zero in the code).
\<close>

datatype npfloat = Fin real | PosInf | NegInf | NaN

text \<open>
  An operation with one array operand, element by element: \<open>f\<close> on a finite number,
  \<open>pinf\<close> and \<open>ninf\<close> on the two infinities, and \<^verbatim>\<open>nan\<close> on \<^verbatim>\<open>nan\<close>.
\<close>

definition lift :: "(real \<Rightarrow> real) \<Rightarrow> npfloat \<Rightarrow> npfloat \<Rightarrow> npfloat \<Rightarrow> npfloat" where
  "lift f pinf ninf v = (case v of Fin r \<Rightarrow> Fin (f r) | PosInf \<Rightarrow> pinf | NegInf \<Rightarrow> ninf | NaN \<Rightarrow> NaN)"

text \<open>\<^verbatim>\<open>v - c\<close>, \<^verbatim>\<open>v ** 2\<close>, \<^verbatim>\<open>-v\<close>, \<^verbatim>\<open>v * c\<close> and \<^verbatim>\<open>c + v\<close> for a finite scalar \<open>c\<close>.\<close>

definition np_sub :: "npfloat \<Rightarrow> real \<Rightarrow> npfloat" where
  "np_sub v c = lift (\<lambda>r. r - c) PosInf NegInf v"

definition np_square :: "npfloat \<Rightarrow> npfloat" where
  "np_square v = lift (\<lambda>r. r ^ 2) PosInf PosInf v"

definition np_negative :: "npfloat \<Rightarrow> npfloat" where
  "np_negative v = lift (\<lambda>r. - r) NegInf PosInf v"

definition np_times :: "npfloat \<Rightarrow> real \<Rightarrow> npfloat" where
  "np_times v c =
     lift (\<lambda>r. r * c)
       (if 0 < c then PosInf else if c < 0 then NegInf else NaN)
       (if 0 < c then NegInf else if c < 0 then PosInf else NaN) v"


text \<open>
  \<^verbatim>\<open>v / d\<close> for a finite scalar \<open>d\<close>: a finite number divided by zero is an infinity with
  the sign of the number, and \<^verbatim>\<open>0 / 0\<close> is \<^verbatim>\<open>nan\<close>.
\<close>

definition np_divide :: "npfloat \<Rightarrow> real \<Rightarrow> npfloat" where
  "np_divide v d =
     (case v of
        Fin r \<Rightarrow>
          if d \<noteq> 0 then Fin (r / d)
          else if 0 < r then PosInf else if r < 0 then NegInf else NaN
      | PosInf \<Rightarrow> if d < 0 then NegInf else PosInf
      | NegInf \<Rightarrow> if d < 0 then PosInf else NegInf
      | NaN \<Rightarrow> NaN)"


text \<open>
  \<^verbatim>\<open>np.exp\<close>. The function \<open>fexp\<close> stands for the exponential function on finite
  \<^verbatim>\<open>float64\<close> numbers, which rounds and returns \<^verbatim>\<open>0.0\<close> below about \<open>-745\<close>; it is a
  parameter of the two curves, and the theorems on them say which of its properties they
  use. \<^verbatim>\<open>np.exp(-inf)\<close> is \<^verbatim>\<open>0.0\<close>.
\<close>

definition np_exp :: "(real \<Rightarrow> real) \<Rightarrow> npfloat \<Rightarrow> npfloat" where
  "np_exp fexp v = lift fexp PosInf (Fin 0) v"

text \<open>
  The first two lines of both curves: \<^verbatim>\<open>x0, x1 = x.min(), x.max()\<close> and
  \<^verbatim>\<open>xn = (x - x0) / (x1 - x0 + 1e-9)\<close>. \<^verbatim>\<open>min\<close> of an empty array raises \<^verbatim>\<open>ValueError\<close>.
\<close>

definition denominator :: "real list \<Rightarrow> real" where
  "denominator x = Max (set x) - Min (set x) + 1 / 10 ^ 9"

definition normalise :: "real list \<Rightarrow> error + npfloat list" where
  "normalise x =
     (if x = [] then Inl ValueError
      else Inr (map (\<lambda>v. np_divide (Fin (v - Min (set x))) (denominator x)) x))"

text \<open>\<^verbatim>\<open>return maxy * np.exp(-((xn - center) ** 2) / (2 * width ** 2))\<close>\<close>

definition gaussian_peak ::
  "(real \<Rightarrow> real) \<Rightarrow> real list \<Rightarrow> real \<Rightarrow> real \<Rightarrow> real \<Rightarrow> error + npfloat list" where
  "gaussian_peak fexp x center width maxy =
     (case normalise x of
        Inl e \<Rightarrow> Inl e
      | Inr xn \<Rightarrow>
          Inr (map (\<lambda>v. np_times
                          (np_exp fexp
                             (np_divide (np_negative (np_square (np_sub v center))) (2 * width ^ 2)))
                          maxy) xn))"


text \<open>
  On an array of a fixed-width integer type the same two lines compute in that type:
  \<^verbatim>\<open>x.max() - x.min()\<close> of an \<^verbatim>\<open>int8\<close> array is the difference modulo \<open>2\<^sup>8\<close>, read as a signed
  number, before the float \<^verbatim>\<open>1e-9\<close> is added.
\<close>

definition denominator_int8 :: "int list \<Rightarrow> real" where
  "denominator_int8 x =
     real_of_int ((Max (set x) - Min (set x) + 128) mod 256 - 128) + 1 / 10 ^ 9"

subsection \<open>Citations\<close>

text \<open>
  The (title, URL) pairs of a script, in the order in which the script prints them: the
  \<^verbatim>\<open>refs\<close> of every parameter record, the references of every recommendation (the last
  component of each tuple of \<^verbatim>\<open>RECS\<close> or \<^verbatim>\<open>recommendations\<close>) and the master list
  (\<^verbatim>\<open>ALL_REFS\<close>, or the items of the dictionary \<^verbatim>\<open>master_refs\<close>).
\<close>

definition st_citations :: "(string \<times> string) list" where
  "st_citations = concat (map refs st_PARAMS) @ concat (map rec_refs st_RECS) @ st_ALL_REFS"

definition st2_citations :: "(string \<times> string) list" where
  "st2_citations = concat (map refs st2_PARAMS) @ concat (map rec_refs st2_RECS) @ st2_master_refs"

definition file_citations :: "(string \<times> string) list" where
  "file_citations = concat (map p_refs PARAMETERS) @ concat (map rec_refs recommendations) @ file_ALL_REFS"

text \<open>
  A syntactically valid HTTP(S) URL, in the words of the specification: the scheme
  \<^verbatim>\<open>http://\<close> or \<^verbatim>\<open>https://\<close>, then a host of letters, digits, dots and hyphens that is not
  empty, then a path, query or fragment of visible ASCII characters that a URL may hold.
\<close>

definition host_char :: "char \<Rightarrow> bool" where
  "host_char c \<longleftrightarrow> c \<in> set ''abcdefghijklmnopqrstuvwxyzABCDEFGHIJKLMNOPQRSTUVWXYZ0123456789.-''"

definition url_char :: "char \<Rightarrow> bool" where
  "url_char c \<longleftrightarrow> host_char c \<or> c \<in> set ''_~:/?#[]@!$&()*+,;=%''"

definition after_scheme :: "string \<Rightarrow> string option" where
  "after_scheme u =
     (if take 8 u = ''https://'' then Some (drop 8 u)
      else if take 7 u = ''http://'' then Some (drop 7 u)
      else None)"

definition valid_http_url :: "string \<Rightarrow> bool" where
  "valid_http_url u =
     (case after_scheme u of
        None \<Rightarrow> False
      | Some r \<Rightarrow>
          takeWhile host_char r \<noteq> [] \<and> list_all url_char (dropWhile host_char r)
          \<and> (dropWhile host_char r = [] \<or> hd (dropWhile host_char r) \<in> set ''/?#:''))"

subsection \<open>Regular expressions of \<^verbatim>\<open>st2.py\<close>\<close>

text \<open>
  The patterns that \<^verbatim>\<open>extract_key_values\<close> hands to Python's \<^verbatim>\<open>re\<close> module use character
  classes, the word boundary \<^verbatim>\<open>\b\<close>, sequences, alternatives, counted and starred
  repetitions of one character class (greedy or lazy) and one capturing group.
  The character classes are those of ASCII text: \<^verbatim>\<open>\d\<close> is a decimal digit, \<^verbatim>\<open>\s\<close> a white
  space character, and a word character is a letter, a digit or the underscore. On text
  with characters outside ASCII Python's classes are wider (letters and digits of other
  scripts, the Kelvin sign under \<^verbatim>\<open>re.IGNORECASE\<close>); the matcher is exact for ASCII text.
\<close>

datatype re =
    Eps
  | Cls "char \<Rightarrow> bool"
  | WordB
  | Seq re re
  | Alt re re
  | Rep "char \<Rightarrow> bool" nat "nat option" bool
  | Group re

definition is_digit :: "char \<Rightarrow> bool" where
  "is_digit c \<longleftrightarrow> c \<in> set ''0123456789''"

definition is_space :: "char \<Rightarrow> bool" where
  "is_space c \<longleftrightarrow> c \<in> set [CHR '' '', CHR 0x09, CHR 0x0A, CHR 0x0B, CHR 0x0C, CHR 0x0D,
                              CHR 0x1C, CHR 0x1D, CHR 0x1E, CHR 0x1F]"

definition is_word :: "char \<Rightarrow> bool" where
  "is_word c \<longleftrightarrow>
     c \<in> set ''abcdefghijklmnopqrstuvwxyzABCDEFGHIJKLMNOPQRSTUVWXYZ0123456789_''"

definition not_newline :: "char \<Rightarrow> bool" where
  "not_newline c \<longleftrightarrow> c \<noteq> CHR 0x0A"

definition lower :: "char \<Rightarrow> char" where
  "lower c = (case List.find (\<lambda>(u, l). u = c)
                  (zip ''ABCDEFGHIJKLMNOPQRSTUVWXYZ'' ''abcdefghijklmnopqrstuvwxyz'') of
                None \<Rightarrow> c | Some (u, l) \<Rightarrow> l)"

text \<open>One character of the pattern under \<^verbatim>\<open>re.IGNORECASE\<close>.\<close>

definition chr_i :: "char \<Rightarrow> re" where
  "chr_i c = Cls (\<lambda>d. lower d = lower c)"

fun seqs :: "re list \<Rightarrow> re" where
  "seqs [] = Eps"
| "seqs [r] = r"
| "seqs (r # rs) = Seq r (seqs rs)"

definition lit_i :: "string \<Rightarrow> re" where
  "lit_i s = seqs (map chr_i s)"

text \<open>
  The matcher works on a position of the text: the character before it (if any) and the
  rest of the text from it on.
\<close>

type_synonym pos = "char option \<times> string"

definition boundary :: "pos \<Rightarrow> bool" where
  "boundary st \<longleftrightarrow>
     (case fst st of None \<Rightarrow> False | Some c \<Rightarrow> is_word c)
       \<noteq> (case snd st of [] \<Rightarrow> False | c # cs \<Rightarrow> is_word c)"

definition advance :: "nat \<Rightarrow> pos \<Rightarrow> pos" where
  "advance n st = (if n = 0 then st else (Some (snd st ! (n - 1)), drop n (snd st)))"

text \<open>
  All ways in which a pattern matches at a position, in the order in which a
  backtracking matcher tries them: the first one is the match that Python reports.
  A result is the position after the match and the text of the group (if the group took
  part in the match).
\<close>

fun ms :: "re \<Rightarrow> pos \<Rightarrow> string option \<Rightarrow> (pos \<times> string option) list" where
  "ms Eps st g = [(st, g)]"
| "ms (Cls P) st g =
     (case snd st of
        [] \<Rightarrow> []
      | c # cs \<Rightarrow> if P c then [((Some c, cs), g)] else [])"
| "ms WordB st g = (if boundary st then [(st, g)] else [])"
| "ms (Seq a b) st g = concat (map (\<lambda>(st', g'). ms b st' g') (ms a st g))"
| "ms (Alt a b) st g = ms a st g @ ms b st g"
| "ms (Rep P m n greedy) st g =
     (let k = length (takeWhile P (snd st));
          hi = (case n of None \<Rightarrow> k | Some n' \<Rightarrow> min k n');
          counts = [m ..< Suc hi]
      in map (\<lambda>c. (advance c st, g)) (if greedy then rev counts else counts))"
| "ms (Group a) st g =
     map (\<lambda>(st', g'). (st', Some (take (length (snd st) - length (snd st')) (snd st))))
       (ms a st g)"

text \<open>
  \<^verbatim>\<open>re.findall\<close> for a pattern with one group: the matches are searched from left to
  right and do not overlap; each contributes the text of its group. (The patterns of the
  script never match the empty string; after an empty match the search moves on by one
  character.)
\<close>

function findall_from :: "re \<Rightarrow> pos \<Rightarrow> string list" where
  "findall_from r st =
     (case ms r st None of
        [] \<Rightarrow> (case snd st of [] \<Rightarrow> [] | c # cs \<Rightarrow> findall_from r (Some c, cs))
      | (st', g) # _ \<Rightarrow>
          (case g of None \<Rightarrow> [] | Some t \<Rightarrow> t)
            # (if length (snd st') < length (snd st) then findall_from r st'
               else (case snd st of [] \<Rightarrow> [] | c # cs \<Rightarrow> findall_from r (Some c, cs))))"
  by pat_completeness auto
termination
  by (relation "measure (\<lambda>(r, st). length (snd st))") auto

definition findall :: "re \<Rightarrow> string \<Rightarrow> string list" where
  "findall r txt = findall_from r (None, txt)"

text \<open>\<^verbatim>\<open>re.search\<close>: is there a position at which the pattern matches?\<close>

fun search_from :: "re \<Rightarrow> char option \<Rightarrow> string \<Rightarrow> bool" where
  "search_from r p [] = (ms r (p, []) None \<noteq> [])"
| "search_from r p (c # cs) = (ms r (p, c # cs) None \<noteq> [] \<or> search_from r (Some c) cs)"

definition search :: "re \<Rightarrow> string \<Rightarrow> bool" where
  "search r txt = search_from r None txt"

text \<open>The patterns, in the order of the script.\<close>

definition cct_re :: re where
  \<comment> \<open>\<^verbatim>\<open>(\b[23-7]\d{2,3})\s*K\b\<close>\<close>
  "cct_re = seqs [Group (seqs [WordB, Cls (\<lambda>c. c \<in> set ''234567''), Rep is_digit 2 (Some 3) True]),
                  Rep is_space 0 None True, chr_i CHR ''K'', WordB]"

definition lux_re :: re where
  \<comment> \<open>\<^verbatim>\<open>(\b\d{2,4})\s*(?:lux|LX|Lux)\b\<close>\<close>
  "lux_re = seqs [Group (seqs [WordB, Rep is_digit 2 (Some 4) True]),
                  Rep is_space 0 None True,
                  Alt (lit_i ''lux'') (Alt (lit_i ''LX'') (lit_i ''Lux'')), WordB]"

definition cri_word_re :: re where
  \<comment> \<open>\<^verbatim>\<open>\bCRI\b\<close>\<close>
  "cri_word_re = seqs [WordB, lit_i ''CRI'', WordB]"

definition cri_re :: re where
  \<comment> \<open>\<^verbatim>\<open>CRI.*?(\d{2,3})\<close>\<close>
  "cri_re = seqs [lit_i ''CRI'', Rep not_newline 0 None False, Group (Rep is_digit 2 (Some 3) True)]"

definition flick_re :: re where
  \<comment> \<open>\<^verbatim>\<open>(\b\d{2,4})\s*Hz\b\<close>\<close>
  "flick_re = seqs [Group (seqs [WordB, Rep is_digit 2 (Some 4) True]),
                    Rep is_space 0 None True, lit_i ''Hz'', WordB]"

definition age_re :: "string \<Rightarrow> re" where
  \<comment> \<open>\<^verbatim>\<open>r"\b" + age_label + r"\b"\<close>\<close>
  "age_re age_label = seqs [WordB, lit_i age_label, WordB]"

definition pct_re :: re where
  \<comment> \<open>\<^verbatim>\<open>([\d]{1,3}\.?\d{0,2})\s*%\s*(?:improv|increase|decrease|reduc)\<close>\<close>
  "pct_re = seqs [Group (seqs [Rep is_digit 1 (Some 3) True, Rep (\<lambda>c. c = CHR ''.'') 0 (Some 1) True,
                               Rep is_digit 0 (Some 2) True]),
                  Rep is_space 0 None True, Cls (\<lambda>c. c = CHR ''%''), Rep is_space 0 None True,
                  Alt (lit_i ''improv'') (Alt (lit_i ''increase'') (Alt (lit_i ''decrease'') (lit_i ''reduc'')))]"

subsection \<open>\<^verbatim>\<open>extract_key_values\<close> of \<^verbatim>\<open>st2.py\<close>\<close>

text \<open>\<^verbatim>\<open>sep.join(xs)\<close>\<close>

fun join :: "string \<Rightarrow> string list \<Rightarrow> string" where
  "join sep [] = []"
| "join sep [x] = x"
| "join sep (x # xs) = x @ sep @ join sep xs"

text \<open>\<^verbatim>\<open>int(x)\<close> on a string of decimal digits.\<close>

definition digit_val :: "char \<Rightarrow> int" where
  "digit_val c = int (length (takeWhile (\<lambda>d. d \<noteq> c) ''0123456789''))"

definition py_int :: "string \<Rightarrow> int" where
  "py_int s = foldl (\<lambda>n c. 10 * n + digit_val c) 0 s"

datatype val = IntList "int list" | StrList "string list"

definition age_labels :: "string list" where
  "age_labels = [''preschool'', ''kindergarten'', ''elementary'', ''primary'', ''secondary'',
                 ''adolescent'', ''undergraduate'', ''children'']"

text \<open>
  The dictionary \<open>res\<close> is a map from keys to values; \<^verbatim>\<open>sorted(set(...))\<close> is \<open>sort\<close> after
  \<open>remdups\<close>.
\<close>

definition extract_key_values :: "string list \<Rightarrow> (string \<rightharpoonup> val)" where
  "extract_key_values paragraphs =
     (let txt = join [CHR 0x0A] paragraphs;
          res = Map.empty;
          cct = findall cct_re txt;
          res = (if cct \<noteq> [] then res(''CCT_values'' \<mapsto> IntList (sort (remdups (map py_int cct))))
                 else res);
          lux = findall lux_re txt;
          res = (if lux \<noteq> [] then res(''Lux_values'' \<mapsto> IntList (sort (remdups (map py_int lux))))
                 else res);
          res = (if search cri_word_re txt then
                   (let cri_vals = findall cri_re txt
                    in if cri_vals \<noteq> []
                       then res(''CRI_values'' \<mapsto> IntList (sort (remdups (map py_int cri_vals))))
                       else res)
                 else res);
          flick = findall flick_re txt;
          res = (if flick \<noteq> []
                 then res(''Flicker_freqs_Hz'' \<mapsto> IntList (sort (remdups (map py_int flick))))
                 else res);
          age_hits = filter (\<lambda>age_label. search (age_re age_label) txt) age_labels;
          res = (if age_hits \<noteq> [] then res(''age_mentions'' \<mapsto> StrList age_hits) else res);
          pct_changes = findall pct_re txt;
          res = (if pct_changes \<noteq> [] then res(''percent_changes'' \<mapsto> StrList pct_changes) else res)
      in res)"

text \<open>The keys of the result that hold numbers.\<close>

definition numeric_keys :: "string list" where
  "numeric_keys = [''CCT_values'', ''Lux_values'', ''CRI_values'', ''Flicker_freqs_Hz'']"

subsection \<open>Files and documents\<close>

text \<open>
  The file system as the scripts use it: which paths exist and what each of them is (a
  Word document, a PNG image, another regular file or a directory), the paragraph texts of
  the Word documents that exist before the run (what \<^verbatim>\<open>Document(path).paragraphs\<close> yields),
  and the list of the files that were saved, in the order of the calls. A path is the
  string that the script hands to the library; the working directory is the empty path.

  A file can be written where its directory exists. Not modelled are the failures of a
  call on a path that is taken already by an entry of the other sort (\<^verbatim>\<open>os.makedirs\<close> on
  a regular file, writing a file onto a directory), access rights and the space on the
  disk: \<open>clear\<close> below says that no path is taken in this way.
\<close>

datatype kind = DocxFile | PngFile | OtherFile | Directory

record world =
  files :: "string \<rightharpoonup> kind"
  docx_paragraphs :: "string \<Rightarrow> string list"
  saved :: "(kind \<times> string) list"

text \<open>
  An element of the document under construction. \<open>Ranges\<close> is the paragraph
  \<^verbatim>\<open>f"Optimal: {good[0]}-{good[1]}   |   Caution: {warn[0]}-{warn[1]}"\<close> of a chapter; it
  keeps the bands, since the printed form of a Python number is not modelled.
\<close>

datatype item = Heading nat string | Paragraph string | Picture string | Ranges bands

text \<open>\<^verbatim>\<open>os.path.join(a, b)\<close> and \<^verbatim>\<open>os.path.dirname(p)\<close>\<close>

definition path_join :: "string \<Rightarrow> string \<Rightarrow> string" where
  "path_join a b =
     (if b \<noteq> [] \<and> hd b = CHR ''/'' then b
      else if a = [] \<or> last a = CHR ''/'' then a @ b
      else a @ ''/'' @ b)"

definition dirname :: "string \<Rightarrow> string" where
  "dirname p =
     (let head = rev (dropWhile (\<lambda>c. c \<noteq> CHR ''/'') (rev p))
      in if list_all (\<lambda>c. c = CHR ''/'') head then head
         else rev (dropWhile (\<lambda>c. c = CHR ''/'') (rev head)))"

text \<open>\<^verbatim>\<open>s.replace(old, new)\<close> for a pattern \<open>old\<close> of one character.\<close>

definition replace :: "char \<Rightarrow> string \<Rightarrow> string \<Rightarrow> string" where
  "replace old new s = concat (map (\<lambda>c. if c = old then new else [c]) s)"

text \<open>
  \<^verbatim>\<open>os.makedirs(path, exist_ok=True)\<close> and \<^verbatim>\<open>Path.mkdir(parents=True, exist_ok=True)\<close>: the
  path is a directory afterwards. (The call also creates the parent directories that are
  missing; every directory that a script writes to is created by a call of its own, if
  it is created at all.) \<^verbatim>\<open>ensure_dir\<close> of \<^verbatim>\<open>st.py\<close> and \<^verbatim>\<open>escai/file.py\<close> makes the call when
  \<^verbatim>\<open>os.path.isdir(path)\<close> is false.
\<close>

definition makedirs :: "string \<Rightarrow> world \<Rightarrow> world" where
  "makedirs d w = w\<lparr>files := (files w)(d \<mapsto> Directory)\<rparr>"

definition ensure_dir :: "string \<Rightarrow> world \<Rightarrow> world" where
  "ensure_dir d w = (if files w d = Some Directory then w else makedirs d w)"

text \<open>
  Writing a file: \<^verbatim>\<open>fig.savefig(path)\<close>, \<^verbatim>\<open>plt.savefig(path)\<close> and \<^verbatim>\<open>doc.save(path)\<close> open the
  path for writing, which raises \<^verbatim>\<open>FileNotFoundError\<close> when the directory of the path does
  not exist and \<^verbatim>\<open>NotADirectoryError\<close> when it is a regular file. The working directory and
  the root directory exist.
\<close>

definition put :: "kind \<Rightarrow> string \<Rightarrow> world \<Rightarrow> world" where
  "put k p w = w\<lparr>files := (files w)(p \<mapsto> k), saved := saved w @ [(k, p)]\<rparr>"

definition write_file :: "kind \<Rightarrow> string \<Rightarrow> world \<Rightarrow> error + world" where
  "write_file k p w =
     (let d = dirname p
      in if d = [] \<or> d = ''/'' \<or> files w d = Some Directory then Inr (put k p w)
         else if files w d = None then Inl FileNotFoundError
         else Inl NotADirectoryError)"

definition savefig :: "string \<Rightarrow> world \<Rightarrow> error + world" where
  "savefig p w = write_file PngFile p w"

definition doc_save :: "string \<Rightarrow> world \<Rightarrow> error + world" where
  "doc_save p w = write_file DocxFile p w"

text \<open>
  No path that the run creates as a directory is a regular file before the run, and no
  path that it writes as a file is a directory.
\<close>

definition clear :: "world \<Rightarrow> string list \<Rightarrow> string list \<Rightarrow> bool" where
  "clear w ds ps \<longleftrightarrow>
     list_all (\<lambda>d. files w d = None \<or> files w d = Some Directory) ds
     \<and> list_all (\<lambda>p. files w p \<noteq> Some Directory) ps"

text \<open>
  \<^verbatim>\<open>doc.add_picture(path)\<close> opens the image file: it raises \<^verbatim>\<open>FileNotFoundError\<close> when the file
  is missing, \<^verbatim>\<open>IsADirectoryError\<close> on a directory and \<^verbatim>\<open>UnrecognizedImageError\<close> when the
  file is not an image.
\<close>

definition add_picture :: "string \<Rightarrow> world \<Rightarrow> error + item" where
  "add_picture p w =
     (case files w p of
        None \<Rightarrow> Inl FileNotFoundError
      | Some PngFile \<Rightarrow> Inr (Picture p)
      | Some Directory \<Rightarrow> Inl IsADirectoryError
      | Some _ \<Rightarrow> Inl UnrecognizedImageError)"

text \<open>A loop whose body may raise.\<close>

fun for_each :: "('a \<Rightarrow> 's \<Rightarrow> error + 's) \<Rightarrow> 'a list \<Rightarrow> 's \<Rightarrow> error + 's" where
  "for_each body [] s = Inr s"
| "for_each body (x # xs) s =
     (case body x s of Inl e \<Rightarrow> Inl e | Inr s' \<Rightarrow> for_each body xs s')"

subsection \<open>Reading the uploaded document (\<^verbatim>\<open>st2.py\<close>)\<close>

text \<open>
  The white space characters of Python (those for which \<^verbatim>\<open>str.isspace\<close> holds), each in its
  UTF-8 encoding: U+0009 to U+000D, U+001C to U+0020, U+0085, U+00A0, U+1680, U+2000 to
  U+200A, U+2028, U+2029, U+202F, U+205F and U+3000.
\<close>

definition whitespace :: "string list" where
  "whitespace =
     [[CHR 0x09], [CHR 0x0A], [CHR 0x0B], [CHR 0x0C], [CHR 0x0D],
      [CHR 0x1C], [CHR 0x1D], [CHR 0x1E], [CHR 0x1F], [CHR 0x20],
      [CHR 0xC2, CHR 0x85], [CHR 0xC2, CHR 0xA0], [CHR 0xE1, CHR 0x9A, CHR 0x80],
      [CHR 0xE2, CHR 0x80, CHR 0x80], [CHR 0xE2, CHR 0x80, CHR 0x81],
      [CHR 0xE2, CHR 0x80, CHR 0x82], [CHR 0xE2, CHR 0x80, CHR 0x83],
      [CHR 0xE2, CHR 0x80, CHR 0x84], [CHR 0xE2, CHR 0x80, CHR 0x85],
      [CHR 0xE2, CHR 0x80, CHR 0x86], [CHR 0xE2, CHR 0x80, CHR 0x87],
      [CHR 0xE2, CHR 0x80, CHR 0x88], [CHR 0xE2, CHR 0x80, CHR 0x89],
      [CHR 0xE2, CHR 0x80, CHR 0x8A], [CHR 0xE2, CHR 0x80, CHR 0xA8],
      [CHR 0xE2, CHR 0x80, CHR 0xA9], [CHR 0xE2, CHR 0x80, CHR 0xAF],
      [CHR 0xE2, CHR 0x81, CHR 0x9F], [CHR 0xE3, CHR 0x80, CHR 0x80]]"

text \<open>
  The number of bytes of the first of the given characters that the text starts with, or
  zero when it starts with none of them; and the text without the given characters at its
  start.
\<close>

definition starts_with :: "string list \<Rightarrow> string \<Rightarrow> nat" where
  "starts_with cs s =
     (case List.find (\<lambda>u. u \<noteq> [] \<and> take (length u) s = u) cs of
        None \<Rightarrow> 0
      | Some u \<Rightarrow> length u)"

function lstrip :: "string list \<Rightarrow> string \<Rightarrow> string" where
  "lstrip cs s = (if starts_with cs s = 0 \<or> s = [] then s else lstrip cs (drop (starts_with cs s) s))"
  by pat_completeness auto
termination
  by (relation "measure (\<lambda>(cs, s). length s)") auto

text \<open>
  \<^verbatim>\<open>s.strip()\<close>: the white space at both ends is removed. (At the end of a text the bytes
  of a white space character are read backwards; in a UTF-8 text they end no other
  character.)
\<close>

definition strip :: "string \<Rightarrow> string" where
  "strip s = rev (lstrip (map rev whitespace) (rev (lstrip whitespace s)))"

text \<open>
  \<^verbatim>\<open>read_docx_text\<close>: \<^verbatim>\<open>(None, [])\<close> when the path does not exist; otherwise the stripped,
  non-empty paragraph texts and their join with empty lines. \<^verbatim>\<open>Document(path)\<close> raises
  \<^verbatim>\<open>PackageNotFoundError\<close> on a file that is not a Word document. (On a directory the
  library looks for an unpacked document; the embedding takes it that there is none.)
\<close>

definition read_docx_text :: "world \<Rightarrow> string \<Rightarrow> error + (string option \<times> string list)" where
  "read_docx_text w path =
     (case files w path of
        None \<Rightarrow> Inr (None, [])
      | Some DocxFile \<Rightarrow>
          (let paras = filter (\<lambda>t. t \<noteq> []) (map strip (docx_paragraphs w path))
           in Inr (Some (join [CHR 0x0A, CHR 0x0A] paras), paras))
      | Some _ \<Rightarrow> Inl PackageNotFoundError)"

text \<open>\<^verbatim>\<open>str(n)\<close> for an integer.\<close>

fun str_nat :: "nat \<Rightarrow> string" where
  "str_nat n = (if n < 10 then [''0123456789'' ! n] else str_nat (n div 10) @ [''0123456789'' ! (n mod 10)])"

definition str_int :: "int \<Rightarrow> string" where
  "str_int i = (if i < 0 then ''-'' @ str_nat (nat (- i)) else str_nat (nat i))"

text \<open>\<^verbatim>\<open>str(x)\<close> for every element of a value of the result dictionary.\<close>

fun strs :: "val \<Rightarrow> string list" where
  "strs (IntList xs) = map str_int xs"
| "strs (StrList ss) = ss"

definition bullet :: string where
  "bullet = [CHR 0xE2, CHR 0x80, CHR 0xA2]"

definition em_dash :: string where
  "em_dash = [CHR 0xE2, CHR 0x80, CHR 0x94]"

text \<open>The summary lines for the keys that are in \<open>kv\<close> (lines 369 to 380 of the script).\<close>

definition key_line :: "(string \<rightharpoonup> val) \<Rightarrow> string \<Rightarrow> (string list \<Rightarrow> string) \<Rightarrow> string list" where
  "key_line kv k line = (case kv k of None \<Rightarrow> [] | Some v \<Rightarrow> [line (strs v)])"

text \<open>
  \<^verbatim>\<open>len(e)\<close> and \<^verbatim>\<open>e[:n]\<close> count characters: in the UTF-8 encoding every byte that is not
  a continuation byte (\<open>0x80\<close> to \<open>0xBF\<close>) starts one.
\<close>

definition continuation :: "char \<Rightarrow> bool" where
  "continuation c \<longleftrightarrow> 128 \<le> (of_char c :: nat) \<and> (of_char c :: nat) < 192"

definition py_len :: "string \<Rightarrow> nat" where
  "py_len s = length (filter (\<lambda>c. \<not> continuation c) s)"

fun py_take :: "nat \<Rightarrow> string \<Rightarrow> string" where
  "py_take n [] = []"
| "py_take n (c # s) =
     (if continuation c then c # py_take n s
      else (case n of 0 \<Rightarrow> [] | Suc m \<Rightarrow> c # py_take m s))"

text \<open>\<^verbatim>\<open>e if len(e) < 400 else e[:400] + "..."\<close>\<close>

definition shortened :: "string \<Rightarrow> string" where
  "shortened e = (if py_len e < 400 then e else py_take 400 e @ ''...'')"

definition summary_lines :: "string list \<Rightarrow> string list" where
  "summary_lines uploaded_paras =
     (let kv = extract_key_values uploaded_paras;
          excerpts = take 3 uploaded_paras
      in [''Findings extracted from your uploaded file (Schools information.docx):'']
         @ key_line kv ''CCT_values''
             (\<lambda>xs. '' - Reported/tested CCT values: '' @ join '', '' (map (\<lambda>x. x @ ''K'') xs))
         @ key_line kv ''Lux_values''
             (\<lambda>xs. '' - Reported illuminance (lux) measurements: '' @ join '', '' (map (\<lambda>x. x @ '' lx'') xs))
         @ key_line kv ''CRI_values''
             (\<lambda>xs. '' - Reported CRI values: '' @ join '', '' xs)
         @ key_line kv ''Flicker_freqs_Hz''
             (\<lambda>xs. '' - Reported flicker frequencies: '' @ join '', '' xs @ '' Hz'')
         @ key_line kv ''age_mentions''
             (\<lambda>xs. '' - Age groups mentioned: '' @ join '', '' xs)
         @ key_line kv ''percent_changes''
             (\<lambda>xs. '' - % changes noted: '' @ join '', '' xs)
         @ (if excerpts \<noteq> [] then
              (CHR 0x0A # ''Key excerpts from the uploaded study:'')
              # map (\<lambda>e. ''   '' @ bullet @ '' '' @ shortened e) excerpts
            else []))"

text \<open>
  Lines 360 to 388: the text, the paragraphs and the summary of the uploaded document, or
  the placeholder when there is none.
\<close>

definition uploaded :: "world \<Rightarrow> error + (string \<times> string list \<times> string)" where
  "uploaded w =
     (case read_docx_text w INPUT_UPLOADED_DOCX of
        Inl e \<Rightarrow> Inl e
      | Inr (uploaded_text, uploaded_paras) \<Rightarrow>
          (case uploaded_text of
             None \<Rightarrow> Inr ([], [], ''No uploaded file found at: '' @ INPUT_UPLOADED_DOCX)
           | Some t \<Rightarrow> Inr (t, uploaded_paras, join [CHR 0x0A] (summary_lines uploaded_paras))))"

subsection \<open>The merged booklet (\<^verbatim>\<open>st2.py\<close>)\<close>

definition st2_OUT_DIR :: "string \<Rightarrow> string" where
  "st2_OUT_DIR cwd = path_join cwd ''school_lighting_booklet_output''"

definition st2_IMG_DIR :: "string \<Rightarrow> string" where
  "st2_IMG_DIR cwd = path_join (st2_OUT_DIR cwd) ''images''"

definition st2_OUTPUT_DOCX :: "string \<Rightarrow> string" where
  "st2_OUTPUT_DOCX cwd = path_join (st2_OUT_DIR cwd) ''School_Lighting_Booklet_Merged.docx''"

definition problem_par :: string where
  "problem_par = ''Poor lighting in schools '' @ em_dash @ '' including incorrect spectral content (CCT), low color rendering (CRI), excessive flicker, high glare (UGR), low or very uneven illuminance, and inadequate melanopic stimulation '' @ em_dash @ '' undermines student performance, increases visual and physiological strain, disturbs sleep and circadian rhythms, and negatively effects mood.''"

text \<open>Lines 394 to 426: the front matter, with the summary and the key points.\<close>

definition key_points :: "string list \<Rightarrow> item list" where
  "key_points uploaded_paras =
     (if uploaded_paras \<noteq> [] then
        map (\<lambda>(i, p). Paragraph (str_nat i @ ''. '' @ p))
          (zip [1 ..< Suc (length (take 8 uploaded_paras))] (take 8 uploaded_paras))
      else [Paragraph ''No uploaded study content available or file not found at the expected path.''])"

definition front_matter :: "string \<Rightarrow> string list \<Rightarrow> item list" where
  "front_matter uploaded_summary uploaded_paras =
     [Heading 0 (''Lighting in Schools '' @ em_dash @ '' Biological & Cognitive Effects''),
      Paragraph ''Merged booklet that combines your uploaded study findings with literature-anchored parameter analysis.'',
      Heading 1 ''The Problem'',
      Paragraph problem_par,
      Paragraph ''Merged uploaded-study findings (brief):'',
      Paragraph uploaded_summary,
      Heading 1 ''The Idea'',
      Paragraph (''This study compares measurable lighting parameters across a range of values and quantifies biological and cognitive responses. We combine standards (EN 12464-1, IEEE 1789, WELL) and academic dose'' @ [CHR 0xE2, CHR 0x80, CHR 0x93] @ ''response anchors with the empirical results reported in the uploaded study to form practical recommendations.''),
      Heading 1 ''The Study (Compare good vs bad values)'',
      Paragraph ''For each parameter we present: definition, biological mechanism, a literature-anchored response curve, and optimal/caution/risk ranges.'',
      Paragraph ''Key points from the uploaded study (selected):'']
     @ key_points uploaded_paras"

text \<open>Lines 428 to 438: the recommendations.\<close>

definition rec_items :: "rec \<Rightarrow> item list" where
  "rec_items r =
     (case r of (r0, r1, r2, r3, r4, r5, r6, r7) \<Rightarrow>
        [Paragraph (bullet @ '' '' @ r0),
         Paragraph (''    - '' @ r1 @ '' | '' @ r2 @ '' | '' @ r3),
         Paragraph (''    - Melanopic target: '' @ r4 @ '' | CCT: '' @ r5),
         Paragraph (''    - Notes: '' @ r6),
         Paragraph ''    - Sources:'']
        @ map (\<lambda>(t, u). Paragraph (''      '' @ bullet @ '' '' @ t @ '' '' @ em_dash @ '' '' @ u)) r7)"

definition solution :: "item list" where
  "solution =
     [Heading 1 ''Solution (Good values per age & environment)'',
      Paragraph ''Recommendations synthesized from standards and uploaded-study observations:'']
     @ concat (map rec_items st2_RECS)"

text \<open>Lines 443 to 497: one chapter, with its figure saved and inserted.\<close>

definition imgname :: "string \<Rightarrow> string" where
  "imgname t =
     replace CHR '':'' [] (replace CHR '')'' [] (replace CHR ''('' []
       (replace CHR ''/'' ''_'' (replace CHR '' '' ''_'' t)))) @ ''.png''"

definition ref_item :: "string \<times> string \<Rightarrow> item" where
  "ref_item r =
     (case r of (t, u) \<Rightarrow>
        if u = INPUT_UPLOADED_DOCX
        then Paragraph (bullet @ '' '' @ t @ '' '' @ em_dash @ '' (from uploaded file) '' @ u)
        else Paragraph (bullet @ '' '' @ t @ '' '' @ em_dash @ '' '' @ u))"

text \<open>
  \<^verbatim>\<open>np.linspace(x0, x1, n)\<close> and the sample points of a chapter: 500 of them when both ends
  of the span are of type \<^verbatim>\<open>int\<close> and at most 1000 apart, and 400 otherwise. (The tables
  are read as reals, where the test for \<^verbatim>\<open>int\<close> is the test for a whole number; in the
  table of the script the whole numbers are the ends written as integers.)
\<close>

definition linspace :: "real \<Rightarrow> real \<Rightarrow> nat \<Rightarrow> real list" where
  "linspace a b n = map (\<lambda>i. a + (b - a) * real i / real (n - 1)) [0 ..< n]"

definition sample_points :: "real \<times> real \<Rightarrow> real list" where
  "sample_points s =
     (if real_of_int (floor (fst s)) = fst s \<and> real_of_int (floor (snd s)) = snd s
         \<and> snd s - fst s \<le> 1000
      then linspace (fst s) (snd s) 500
      else linspace (fst s) (snd s) 400)"

definition st2_chapter :: "string \<Rightarrow> param \<Rightarrow> world \<times> item list \<Rightarrow> error + world \<times> item list" where
  "st2_chapter cwd p s =
     (case s of (w, doc) \<Rightarrow>
        (let doc1 = doc @ [Heading 2 (title p), Paragraph (param_notes p), Ranges (bands p)];
             imgpath = path_join (st2_IMG_DIR cwd) (imgname (title p))
         in case interpolate_curve (sample_points (xspan p)) (anchors_x p) (anchors_y p) of
              Inl e \<Rightarrow> Inl e
            | Inr y \<Rightarrow>
                (case savefig imgpath w of
                   Inl e \<Rightarrow> Inl e
                 | Inr w1 \<Rightarrow>
                     (case add_picture imgpath w1 of
                        Inl e \<Rightarrow> Inl e
                      | Inr pic \<Rightarrow>
                          Inr (w1, doc1 @ [pic, Paragraph ''References:'']
                                   @ map ref_item (refs p))))))"

text \<open>
  The whole script: the image directory is created (line 38), the uploaded document is
  read and summarised (lines 360 to 388), the document is built with one figure per
  chapter, the output directory is created and the document is saved (lines 513 and 514).
\<close>

definition st2_main :: "string \<Rightarrow> world \<Rightarrow> error + world \<times> item list" where
  "st2_main cwd w =
     (let w0 = makedirs (st2_IMG_DIR cwd) w
      in case uploaded w0 of
           Inl e \<Rightarrow> Inl e
         | Inr (uploaded_text, uploaded_paras, uploaded_summary) \<Rightarrow>
             (let doc = front_matter uploaded_summary uploaded_paras @ solution
                        @ [Heading 1 ''Chapters: Parameter-by-Parameter'']
              in case for_each (st2_chapter cwd) st2_PARAMS (w0, doc) of
                   Inl e \<Rightarrow> Inl e
                 | Inr (w1, doc1) \<Rightarrow>
                     (case doc_save (st2_OUTPUT_DOCX cwd) (makedirs (st2_OUT_DIR cwd) w1) of
                        Inl e \<Rightarrow> Inl e
                      | Inr w2 \<Rightarrow>
                          Inr (w2,
                               doc1 @ [Heading 1 ''Master References'']
                                 @ map (\<lambda>(t, u). Paragraph (bullet @ '' '' @ t @ '' '' @ em_dash @ '' '' @ u))
                                     st2_master_refs))))"
subsection \<open>The file output of the other scripts\<close>

text \<open>
  Of the other scripts the embedding keeps the calls that create directories and read or
  write files, in program order: a figure is saved and then inserted into the document,
  and the document is saved at the end.
\<close>

definition figure :: "string \<Rightarrow> world \<Rightarrow> error + world" where
  "figure img w =
     (case savefig img w of
        Inl e \<Rightarrow> Inl e
      | Inr w1 \<Rightarrow> (case add_picture img w1 of Inl e \<Rightarrow> Inl e | Inr pic \<Rightarrow> Inr w1))"

text \<open>
  \<^verbatim>\<open>st.py\<close>: both directories are made at the start; every chapter interpolates its curve
  on 400 sample points before its figure is saved.
\<close>

definition st_OUT_DIR :: "string \<Rightarrow> string" where
  "st_OUT_DIR cwd = path_join cwd ''school_lighting_booklet_output''"

definition st_IMG_DIR :: "string \<Rightarrow> string" where
  "st_IMG_DIR cwd = path_join (st_OUT_DIR cwd) ''images''"

definition st_OUT_DOCX :: "string \<Rightarrow> string" where
  "st_OUT_DOCX cwd = path_join (st_OUT_DIR cwd) ''School_Lighting_Booklet_FULL.docx''"

definition safe_name :: "string \<Rightarrow> string" where
  "safe_name t =
     replace CHR '':'' [] (replace CHR '')'' [] (replace CHR ''('' []
       (replace CHR ''/'' ''_'' (replace CHR '' '' ''_'' t))))"

definition st_img_path :: "string \<Rightarrow> param \<Rightarrow> string" where
  "st_img_path cwd p = path_join (st_IMG_DIR cwd) (safe_name (title p) @ ''.png'')"

definition st_chapter :: "string \<Rightarrow> param \<Rightarrow> world \<Rightarrow> error + world" where
  "st_chapter cwd p w =
     (case smooth_curve (linspace (fst (xspan p)) (snd (xspan p)) 400) (anchors_x p) (anchors_y p) of
        Inl e \<Rightarrow> Inl e
      | Inr y \<Rightarrow> figure (st_img_path cwd p) w)"

definition st_main :: "string \<Rightarrow> world \<Rightarrow> error + world" where
  "st_main cwd w =
     (case for_each (st_chapter cwd) st_PARAMS
             (ensure_dir (st_IMG_DIR cwd) (ensure_dir (st_OUT_DIR cwd) w)) of
        Inl e \<Rightarrow> Inl e
      | Inr w1 \<Rightarrow> doc_save (st_OUT_DOCX cwd) w1)"

text \<open>
  \<^verbatim>\<open>escai/file.py\<close>: the image directory is made at the start and the output directory
  before the document is saved. (The two curve functions of this script raise nothing on
  its sample arrays, which are not empty.)
\<close>

definition file_out_dir :: "string \<Rightarrow> string" where
  "file_out_dir cwd = path_join cwd ''lighting_booklet_output''"

definition file_img_dir :: "string \<Rightarrow> string" where
  "file_img_dir cwd = path_join (file_out_dir cwd) ''images''"

definition file_out_docx :: "string \<Rightarrow> string" where
  "file_out_docx cwd = path_join (file_out_dir cwd) ''School_Lighting_Booklet_FINAL.docx''"

definition file_img_name :: "parameter \<Rightarrow> string" where
  "file_img_name p =
     replace CHR '')'' [] (replace CHR ''('' []
       (replace CHR ''/'' ''_'' (replace CHR '' '' ''_'' (name p)))) @ ''.png''"

definition file_img_path :: "string \<Rightarrow> parameter \<Rightarrow> string" where
  "file_img_path cwd p = path_join (file_img_dir cwd) (file_img_name p)"

definition file_main :: "string \<Rightarrow> world \<Rightarrow> error + world" where
  "file_main cwd w =
     (case for_each (\<lambda>p. figure (file_img_path cwd p)) PARAMETERS (ensure_dir (file_img_dir cwd) w) of
        Inl e \<Rightarrow> Inl e
      | Inr w1 \<Rightarrow> doc_save (file_out_docx cwd) (ensure_dir (file_out_dir cwd) w1))"

text \<open>
  \<^verbatim>\<open>escai/file2.py\<close>: the paths are relative to the working directory, and the directory
  \<^verbatim>\<open>graphs\<close> is made when \<^verbatim>\<open>os.path.exists("graphs")\<close> is false. (The plotting calls raise
  nothing on the lists of the table, which are not empty and of equal length.)
\<close>

definition file2_name :: "string \<Rightarrow> string" where
  "file2_name param = replace CHR ''/'' ''_'' (replace CHR '' '' ''_'' param) @ ''.png''"

definition file2_fname :: "string \<Rightarrow> string" where
  "file2_fname param = ''graphs/'' @ file2_name param"

definition file2_main :: "world \<Rightarrow> error + world" where
  "file2_main w =
     (case for_each (\<lambda>(param, info). figure (file2_fname param)) file2_parameters
             (if files w ''graphs'' = None then makedirs ''graphs'' w else w) of
        Inl e \<Rightarrow> Inl e
      | Inr w1 \<Rightarrow> doc_save ''School_Lighting_Booklet.docx'' w1)"

text \<open>
  \<^verbatim>\<open>escai/file_old.py\<close>: three figures are drawn and inserted; the third picture of the
  document, \<^verbatim>\<open>mdpi_vis_comparison.png\<close>, is not drawn by the script (``download the image
  manually'') and is inserted without a test that it exists.
\<close>

definition file_old_main :: "world \<Rightarrow> error + world" where
  "file_old_main w =
     (case figure ''block_diagram_better.png'' w of
        Inl e \<Rightarrow> Inl e
      | Inr w1 \<Rightarrow>
          (case figure ''energy_comparison.png'' w1 of
             Inl e \<Rightarrow> Inl e
           | Inr w2 \<Rightarrow>
               (case add_picture ''mdpi_vis_comparison.png'' w2 of
                  Inl e \<Rightarrow> Inl e
                | Inr pic \<Rightarrow>
                    (case figure ''spectral.png'' w2 of
                       Inl e \<Rightarrow> Inl e
                     | Inr w3 \<Rightarrow> doc_save ''Smart_Lighting_Research_Final.docx'' w3))))"

text \<open>
  \<^verbatim>\<open>School/school Papers/file.py\<close>: the keys of its dictionary \<^verbatim>\<open>parameters\<close>. The script
  writes to \<^verbatim>\<open>/mnt/data\<close> and makes no directory.
\<close>

definition school_parameters :: "string list" where
  "school_parameters = [
  ''CCT (Color Temperature, K)'',
  ''CRI (Color Rendering Index)'',
  ''Flicker (%)'',
  ''Glare (UGR)'',
  ''Melanopic EDI (lux)'',
  ''Vertical Illuminance (lux)'',
  ''Exposure Duration (hours)'',
  ''Horizontal Illuminance (Lux)'']"

definition school_name :: "string \<Rightarrow> string" where
  "school_name param =
     replace CHR ''/'' ''_'' (replace CHR '')'' [] (replace CHR ''('' []
       (replace CHR '' '' ''_'' param))) @ ''.png''"

definition school_file_name :: "string \<Rightarrow> string" where
  "school_file_name param = ''/mnt/data/'' @ school_name param"

definition school_main :: "world \<Rightarrow> error + world" where
  "school_main w =
     (case for_each (\<lambda>param. figure (school_file_name param)) school_parameters w of
        Inl e \<Rightarrow> Inl e
      | Inr w1 \<Rightarrow> doc_save ''/mnt/data/School_Lighting_Booklet_Final.docx'' w1)"

text \<open>
  \<^verbatim>\<open>School/Bkr/int.py\<close>: \<^verbatim>\<open>OUTFILE = Path("./Intro_School_Lighting.docx")\<close>, which is the
  path \<^verbatim>\<open>Intro_School_Lighting.docx\<close>; the only file operation is \<^verbatim>\<open>doc.save(OUTFILE)\<close>.
\<close>

definition int_main :: "world \<Rightarrow> error + world" where
  "int_main w = doc_save ''Intro_School_Lighting.docx'' w"

text \<open>
  \<^verbatim>\<open>School/Bkr/st3.py\<close>: \<^verbatim>\<open>OUTDIR = Path("./school_lighting_chapters")\<close> is made at the start,
  and \<^verbatim>\<open>write_chapter\<close> saves one document per chapter as \<^verbatim>\<open>OUTDIR / filename\<close>. The list
  holds the value of the key \<^verbatim>\<open>"filename"\<close> of every chapter.
\<close>

definition st3_filenames :: "string list" where
  "st3_filenames = [
  ''01_CCT.docx'',
  ''02_CRI.docx'',
  ''03_Flicker.docx'',
  ''04_Glare_UGR.docx'',
  ''05_Horizontal_Illuminance.docx'',
  ''06_Vertical_Illuminance.docx'',
  ''07_Melanopic_EDI.docx'',
  ''08_Uniformity.docx'',
  ''09_Exposure_Duration.docx'']"

definition write_chapter :: "string \<Rightarrow> world \<Rightarrow> error + world" where
  "write_chapter filename w = doc_save (''school_lighting_chapters/'' @ filename) w"

definition st3_main :: "world \<Rightarrow> error + world" where
  "st3_main w = for_each write_chapter st3_filenames (makedirs ''school_lighting_chapters'' w)"

text \<open>The items that one chapter of \<^verbatim>\<open>st2.py\<close> adds to the document.\<close>

definition chapter_items :: "string \<Rightarrow> param \<Rightarrow> item list" where
  "chapter_items cwd p =
     [Heading 2 (title p), Paragraph (param_notes p), Ranges (bands p),
      Picture (path_join (st2_IMG_DIR cwd) (imgname (title p))), Paragraph ''References:'']
     @ map ref_item (refs p)"

text \<open>The documents and the images that a run saved, and the world before any run.\<close>

definition docx_saved :: "world \<Rightarrow> string list" where
  "docx_saved w = map snd (filter (\<lambda>e. fst e = DocxFile) (saved w))"

definition png_saved :: "world \<Rightarrow> string list" where
  "png_saved w = map snd (filter (\<lambda>e. fst e = PngFile) (saved w))"

definition empty_world :: world where
  "empty_world = \<lparr>files = Map.empty, docx_paragraphs = (\<lambda>p. []), saved = []\<rparr>"
section \<open>Properties\<close>

subsection \<open>The literal tables\<close>

lemma st_PARAMS_nested:
  "map param_nested st_PARAMS = [True, False, False, False, False, True, True, True]"
  by (simp add: st_PARAMS_def param_nested_def nested_def)

lemma st2_PARAMS_nested:
  "map param_nested st2_PARAMS = [True, False, False, False, False, False, True, True, True]"
  by (simp add: st2_PARAMS_def param_nested_def nested_def)

lemma PARAMETERS_nested:
  "map parameter_nested PARAMETERS = [True, False, False, False, False, True, True, True]"
  by (simp add: PARAMETERS_def parameter_nested_def nested_def)

text \<open>
  Claim C1 (the good band inside the warn band inside the danger band, the danger band
  being the span, for every record of the three tables) evaluated on the tables: it
  holds for the records of CCT, vertical illuminance, exposure duration and horizontal
  illuminance, and fails for CRI, flicker, glare, melanopic EDI (and uniformity in
  \<^verbatim>\<open>st2.py\<close>), where the warn band lies beside the good band. For the CRI record of
  \<^verbatim>\<open>st.py\<close> the fourth shaded segment runs from 100 back to 80.
\<close>

theorem bands_nested_fails:
  "map param_nested st_PARAMS = [True, False, False, False, False, True, True, True]
   \<and> map param_nested st2_PARAMS = [True, False, False, False, False, False, True, True, True]
   \<and> map parameter_nested PARAMETERS = [True, False, False, False, False, True, True, True]
   \<and> bands (st_PARAMS ! 1) = \<lparr>good = (80, 100), warn = (70, 80), danger = (60, 100)\<rparr>
   \<and> add_bands (80, 100) (70, 80) (60, 100) ! 3 = (COLOR_WARN, 100, 80)"
  using st_PARAMS_nested st2_PARAMS_nested PARAMETERS_nested
  by (simp add: st_PARAMS_def add_bands_def)

lemma st_PARAMS_anchors: "list_all (\<lambda>p. anchors_ok (anchors_x p) (anchors_y p)) st_PARAMS"
  by (simp add: st_PARAMS_def anchors_ok_def)

lemma st2_PARAMS_anchors: "list_all (\<lambda>p. anchors_ok (anchors_x p) (anchors_y p)) st2_PARAMS"
  by (simp add: st2_PARAMS_def anchors_ok_def)

lemma file2_parameters_anchors:
  "list_all (\<lambda>(k, i). anchors_ok (info_x i) (info_y i)) file2_parameters"
  by (simp add: file2_parameters_def anchors_ok_def)

text \<open>
  Claim C7: in every record of \<^verbatim>\<open>PARAMS\<close> of \<^verbatim>\<open>st.py\<close>, of \<^verbatim>\<open>PARAMS\<close> of \<^verbatim>\<open>st2.py\<close> and of
  \<^verbatim>\<open>parameters\<close> of \<^verbatim>\<open>escai/file2.py\<close> the anchor x values are strictly ascending and
  the x and y arrays have the same length.
\<close>

theorem anchors_ascending_equal_length:
  "(\<forall>p \<in> set st_PARAMS. sorted_wrt (<) (anchors_x p) \<and> length (anchors_x p) = length (anchors_y p))
   \<and> (\<forall>p \<in> set st2_PARAMS. sorted_wrt (<) (anchors_x p) \<and> length (anchors_x p) = length (anchors_y p))
   \<and> (\<forall>(k, i) \<in> set file2_parameters. sorted_wrt (<) (info_x i) \<and> length (info_x i) = length (info_y i))"
  using st_PARAMS_anchors st2_PARAMS_anchors file2_parameters_anchors
  unfolding list_all_iff anchors_ok_def by blast

theorem anchors_ascending_equal_length_witness:
  "sorted_wrt (<) (anchors_x (st2_PARAMS ! 4)) \<and> length (anchors_x (st2_PARAMS ! 4)) = 8
   \<and> length (anchors_y (st2_PARAMS ! 4)) = 8
   \<and> sorted_wrt (<) (info_x (snd (file2_parameters ! 6)))
   \<and> length (info_x (snd (file2_parameters ! 6))) = length (info_y (snd (file2_parameters ! 6)))
   \<and> sorted_wrt (<) (anchors_x (st_PARAMS ! 6))
   \<and> length (anchors_x (st_PARAMS ! 6)) = length (anchors_y (st_PARAMS ! 6))"
proof -
  have a: "st2_PARAMS ! 4 \<in> set st2_PARAMS" by (simp add: st2_PARAMS_def)
  have b: "file2_parameters ! 6 \<in> set file2_parameters" by (simp add: file2_parameters_def)
  have c: "st_PARAMS ! 6 \<in> set st_PARAMS" by (simp add: st_PARAMS_def)
  have l: "length (anchors_y (st2_PARAMS ! 4)) = 8" by (simp add: st2_PARAMS_def)
  from anchors_ascending_equal_length a b c l show ?thesis
    by (auto simp: split_beta)
qed

subsection \<open>The curve helpers\<close>

lemma interp1_below:
  "xp \<noteq> [] \<Longrightarrow> length xp = length fp \<Longrightarrow> x < hd xp \<Longrightarrow> interp1 xp fp x = hd fp"
  by (induction xp fp x rule: interp1.induct) auto

lemma interp1_above:
  "xp \<noteq> [] \<Longrightarrow> length xp = length fp \<Longrightarrow> sorted_wrt (<) xp \<Longrightarrow> last xp \<le> x
   \<Longrightarrow> interp1 xp fp x = last fp"
proof (induction xp fp x rule: interp1.induct)
  case (1 a b xp fa fb fp x)
  have "b \<le> last (b # xp)" using 1(4) by (auto simp: less_imp_le)
  with 1 show ?case by auto
qed auto

lemma sorted_hd_le_nth:
  "sorted_wrt (<) (b # xp) \<Longrightarrow> j < length (b # xp) \<Longrightarrow> (b::real) \<le> (b # xp) ! j"
  by (cases j) (auto simp: less_imp_le)

lemma interp1_at_head:
  "sorted_wrt (<) (b # xp) \<Longrightarrow> length (b # xp) = length (fb # fp) \<Longrightarrow> interp1 (b # xp) (fb # fp) b = fb"
proof (cases xp)
  case Nil
  then show ?thesis by simp
next
  case (Cons c cs)
  assume s: "sorted_wrt (<) (b # xp)" and l: "length (b # xp) = length (fb # fp)"
  from l Cons obtain fc fs where fp: "fp = fc # fs" by (cases fp) auto
  from Cons s have "b < c" by simp
  with Cons fp show ?thesis by simp
qed

lemma interp1_segment:
  "sorted_wrt (<) xp \<Longrightarrow> length xp = length fp \<Longrightarrow> Suc i < length xp
   \<Longrightarrow> xp ! i \<le> x \<Longrightarrow> x \<le> xp ! Suc i
   \<Longrightarrow> interp1 xp fp x
       = (fp ! Suc i - fp ! i) / (xp ! Suc i - xp ! i) * (x - xp ! i) + fp ! i"
proof (induction xp fp x arbitrary: i rule: interp1.induct)
  case (1 a b xp fa fb fp x)
  have ab: "a < b" using "1.prems"(1) by simp
  have sb: "sorted_wrt (<) (b # xp)" using "1.prems"(1) by simp
  have lb: "length (b # xp) = length (fb # fp)" using "1.prems"(2) by simp
  show ?case
  proof (cases i)
    case 0
    show ?thesis
    proof (cases "x < b")
      case True
      with 0 "1.prems"(4) show ?thesis by simp
    next
      case False
      with 0 "1.prems"(5) have xb: "x = b" by simp
      from interp1_at_head [OF sb lb] 0 xb ab show ?thesis by simp
    qed
  next
    case (Suc j)
    have jl: "j < length (b # xp)" using "1.prems"(3) Suc by simp
    have "b \<le> (b # xp) ! j" by (rule sorted_hd_le_nth [OF sb jl])
    moreover have "(b # xp) ! j \<le> x" using "1.prems"(4) Suc by simp
    ultimately have bx: "b \<le> x" by simp
    then have nx: "\<not> x < a" "\<not> x < b" using ab by auto
    have "interp1 (b # xp) (fb # fp) x =
        ((fb # fp) ! Suc j - (fb # fp) ! j) / ((b # xp) ! Suc j - (b # xp) ! j) * (x - (b # xp) ! j) + (fb # fp) ! j"
      using "1.IH" [OF nx sb lb, of j] "1.prems" Suc by simp
    with nx Suc show ?thesis by simp
  qed
qed simp_all

lemma interp1_anchor:
  assumes "sorted_wrt (<) xp" "length xp = length fp" "i < length xp"
  shows "interp1 xp fp (xp ! i) = fp ! i"
proof (cases "Suc i < length xp")
  case True
  have "xp ! i \<le> xp ! Suc i"
    using assms(1) True by (simp add: sorted_wrt_iff_nth_less less_imp_le)
  from interp1_segment [OF assms(1,2) True order_refl this] show ?thesis by simp
next
  case False
  with assms(3) have il: "i = length xp - 1" by simp
  have ne: "xp \<noteq> []" using assms(3) by auto
  then have ne': "fp \<noteq> []" using assms(2) by auto
  have "interp1 xp fp (last xp) = last fp"
    by (rule interp1_above [OF ne assms(2,1)]) simp
  with il ne ne' assms(2) show ?thesis by (simp add: last_conv_nth)
qed


lemma interp1_on_segment:
  assumes "sorted_wrt (<) xp" "length xp = length fp" "Suc i < length xp"
    and "xp ! i \<le> x" "x \<le> xp ! Suc i"
  shows "on_segment (xp ! i, fp ! i) (xp ! Suc i, fp ! Suc i) (x, interp1 xp fp x)"
proof -
  let ?a = "xp ! i" and ?b = "xp ! Suc i" and ?fa = "fp ! i" and ?fb = "fp ! Suc i"
  have ab: "?a < ?b" using assms(1,3) by (simp add: sorted_wrt_iff_nth_less)
  define t where "t = (x - ?a) / (?b - ?a)"
  have t0: "0 \<le> t" using ab assms(4) by (simp add: t_def)
  have t1: "t \<le> 1" using ab assms(5) by (simp add: t_def)
  have tx: "t * (?b - ?a) = x - ?a" using ab by (simp add: t_def)
  have x: "x = (1 - t) * ?a + t * ?b" using tx by (simp add: algebra_simps)
  have "interp1 xp fp x = (?fb - ?fa) / (?b - ?a) * (x - ?a) + ?fa"
    by (rule interp1_segment [OF assms])
  also have "\<dots> = (?fb - ?fa) * t + ?fa" by (simp add: t_def)
  also have "\<dots> = (1 - t) * ?fa + t * ?fb" by (simp add: algebra_simps)
  finally have y: "interp1 xp fp x = (1 - t) * ?fa + t * ?fb" .
  from t0 t1 x y show ?thesis unfolding on_segment_def by auto
qed

lemma take_min_anchors:
  assumes "0 < min (length ax) (length ay)"
  shows "take (min (length ax) (length ay)) ax \<noteq> []"
    and "length (take (min (length ax) (length ay)) ax) = min (length ax) (length ay)"
    and "length (take (min (length ax) (length ay)) ay) = min (length ax) (length ay)"
    and "hd (take (min (length ax) (length ay)) ax) = ax ! 0"
    and "hd (take (min (length ax) (length ay)) ay) = ay ! 0"
    and "last (take (min (length ax) (length ay)) ax) = ax ! (min (length ax) (length ay) - 1)"
    and "last (take (min (length ax) (length ay)) ay) = ay ! (min (length ax) (length ay) - 1)"
proof -
  let ?m = "min (length ax) (length ay)"
  have la: "length (take ?m ax) = ?m" and lb: "length (take ?m ay) = ?m" by simp_all
  show ne: "take ?m ax \<noteq> []" using assms by (cases ax; cases ay) simp_all
  have ne': "take ?m ay \<noteq> []" using assms by (cases ax; cases ay) simp_all
  show "length (take ?m ax) = ?m" by (rule la)
  show "length (take ?m ay) = ?m" by (rule lb)
  show "hd (take ?m ax) = ax ! 0" using assms ne by (simp add: hd_conv_nth)
  show "hd (take ?m ay) = ay ! 0" using assms ne' by (simp add: hd_conv_nth)
  have "n - 1 < n" if "0 < n" for n :: nat using that by simp
  from this [OF assms] have lt: "?m - 1 < ?m" .
  have "last (take ?m ax) = take ?m ax ! (?m - 1)" using ne by (simp add: last_conv_nth)
  also have "\<dots> = ax ! (?m - 1)" using lt by (rule nth_take)
  finally show "last (take ?m ax) = ax ! (?m - 1)" .
  have "last (take ?m ay) = take ?m ay ! (?m - 1)" using ne' by (simp add: last_conv_nth)
  also have "\<dots> = ay ! (?m - 1)" using lt by (rule nth_take)
  finally show "last (take ?m ay) = ay ! (?m - 1)" .
qed

text \<open>
  Claim C5 as stated fails when one of the two anchor arrays is empty: both arrays are cut
  to length \<open>m = 0\<close> and \<^verbatim>\<open>np.interp\<close> raises \<^verbatim>\<open>ValueError\<close> on empty data points, so
  \<^verbatim>\<open>interpolate_curve\<close> returns no interpolation.
\<close>

theorem interpolate_curve_empty_anchors:
  "length ([] :: real list) \<noteq> length [5 :: real]
   \<and> min (length ([] :: real list)) (length [5 :: real]) = 0
   \<and> interpolate_curve [1] [] [5] = Inl ValueError"
  by (simp add: interpolate_curve_def np_interp_def)

text \<open>
  Claim C5, amended: called with anchor arrays of unequal lengths, \<^verbatim>\<open>interpolate_curve\<close> of
  \<^verbatim>\<open>st2.py\<close> cuts both arrays to the shorter length \<open>m\<close>. When \<open>m = 0\<close> it raises
  \<^verbatim>\<open>ValueError\<close>. When \<open>m > 0\<close> and the first \<open>m\<close> anchor x values are strictly ascending, it
  returns one value for every sample point, the value of the piecewise-linear interpolant
  through the first \<open>m\<close> anchor pairs: at an anchor x the anchor's y, between two
  neighbouring anchors a point of the segment that joins them, below the first anchor the
  first y and above the \<open>m\<close>-th anchor the \<open>m\<close>-th y. \<^verbatim>\<open>smooth_curve\<close> of \<^verbatim>\<open>st.py\<close> makes no such
  check: it hands its anchors to \<^verbatim>\<open>np.interp\<close> as they are, which raises \<^verbatim>\<open>ValueError\<close> on
  arrays of unequal lengths.
\<close>

theorem interpolate_curve_truncates:
  assumes "length ax \<noteq> length ay"
  shows "(let m = min (length ax) (length ay) in
          (m = 0 \<longrightarrow> interpolate_curve xs ax ay = Inl ValueError)
          \<and> (0 < m \<and> sorted_wrt (<) (take m ax) \<longrightarrow>
               interpolate_curve xs ax ay = np_interp xs (take m ax) (take m ay)
               \<and> (\<exists>ys. interpolate_curve xs ax ay = Inr ys \<and> length ys = length xs
                  \<and> (\<forall>k < length xs.
                        (\<forall>i < m. xs ! k = ax ! i \<longrightarrow> ys ! k = ay ! i)
                      \<and> (\<forall>i. Suc i < m \<and> ax ! i \<le> xs ! k \<and> xs ! k \<le> ax ! Suc i \<longrightarrow>
                            on_segment (ax ! i, ay ! i) (ax ! Suc i, ay ! Suc i) (xs ! k, ys ! k))
                      \<and> (xs ! k < ax ! 0 \<longrightarrow> ys ! k = ay ! 0)
                      \<and> (ax ! (m - 1) < xs ! k \<longrightarrow> ys ! k = ay ! (m - 1)))))
          \<and> smooth_curve xs ax ay = np_interp xs ax ay
          \<and> smooth_curve xs ax ay = Inl ValueError)"
proof -
  define m where "m = min (length ax) (length ay)"
  define ax' where "ax' = take m ax"
  define ay' where "ay' = take m ay"
  have i: "interpolate_curve xs ax ay = np_interp xs ax' ay'"
    using assms by (simp add: interpolate_curve_def Let_def m_def ax'_def ay'_def)
  have z: "interpolate_curve xs ax ay = Inl ValueError" if "m = 0"
    unfolding i using that by (simp add: np_interp_def ax'_def)
  have p: "\<exists>ys. interpolate_curve xs ax ay = Inr ys \<and> length ys = length xs
      \<and> (\<forall>k < length xs.
            (\<forall>i < m. xs ! k = ax ! i \<longrightarrow> ys ! k = ay ! i)
          \<and> (\<forall>i. Suc i < m \<and> ax ! i \<le> xs ! k \<and> xs ! k \<le> ax ! Suc i \<longrightarrow>
                on_segment (ax ! i, ay ! i) (ax ! Suc i, ay ! Suc i) (xs ! k, ys ! k))
          \<and> (xs ! k < ax ! 0 \<longrightarrow> ys ! k = ay ! 0)
          \<and> (ax ! (m - 1) < xs ! k \<longrightarrow> ys ! k = ay ! (m - 1)))"
    if pos: "0 < m" and asc: "sorted_wrt (<) ax'"
  proof -
    from pos have pos': "0 < min (length ax) (length ay)" by (simp add: m_def)
    note t = take_min_anchors [OF pos', folded m_def, folded ax'_def ay'_def]
    note ne = t(1) and la = t(2) and lb = t(3) and ha = t(4) and hb = t(5)
      and lsa = t(6) and lsb = t(7)
    have l: "length ax' = length ay'" using la lb by simp
    have na: "ax' ! i = ax ! i" and nb: "ay' ! i = ay ! i" if "i < m" for i
      using that by (simp_all add: ax'_def ay'_def)
    have r: "interpolate_curve xs ax ay = Inr (map (interp1 ax' ay') xs)"
      unfolding i using ne l by (simp add: np_interp_def)
    have q1: "interp1 ax' ay' x = ay ! i" if "i < m" "x = ax ! i" for x i
    proof -
      have "interp1 ax' ay' (ax' ! i) = ay' ! i"
        using that(1) la by (intro interp1_anchor [OF asc l]) simp
      then show ?thesis using that by (simp add: na nb)
    qed
    have q2: "on_segment (ax ! i, ay ! i) (ax ! Suc i, ay ! Suc i) (x, interp1 ax' ay' x)"
      if h: "Suc i < m \<and> ax ! i \<le> x \<and> x \<le> ax ! Suc i" for x i
    proof -
      from h have si: "Suc i < m" and i': "i < m" by simp_all
      from si la have s: "Suc i < length ax'" by simp
      have a1: "ax' ! i \<le> x" using h by (simp add: na [OF i'])
      have a2: "x \<le> ax' ! Suc i" using h by (simp add: na [OF si])
      have "on_segment (ax' ! i, ay' ! i) (ax' ! Suc i, ay' ! Suc i) (x, interp1 ax' ay' x)"
        by (rule interp1_on_segment [OF asc l s a1 a2])
      then show ?thesis
        by (simp only: na [OF i'] na [OF si] nb [OF i'] nb [OF si])
    qed
    have q3: "interp1 ax' ay' x = ay ! 0" if "x < ax ! 0" for x
    proof -
      from that have "x < hd ax'" by (simp only: ha)
      from interp1_below [OF ne l this] show ?thesis by (simp only: hb)
    qed
    have q4: "interp1 ax' ay' x = ay ! (m - 1)" if "ax ! (m - 1) < x" for x
    proof -
      from that have "last ax' \<le> x" by (simp only: lsa)
      from interp1_above [OF ne l asc this] show ?thesis by (simp only: lsb)
    qed
    have "length (map (interp1 ax' ay') xs) = length xs
      \<and> (\<forall>k < length xs.
            (\<forall>i < m. xs ! k = ax ! i \<longrightarrow> map (interp1 ax' ay') xs ! k = ay ! i)
          \<and> (\<forall>i. Suc i < m \<and> ax ! i \<le> xs ! k \<and> xs ! k \<le> ax ! Suc i \<longrightarrow>
                on_segment (ax ! i, ay ! i) (ax ! Suc i, ay ! Suc i)
                  (xs ! k, map (interp1 ax' ay') xs ! k))
          \<and> (xs ! k < ax ! 0 \<longrightarrow> map (interp1 ax' ay') xs ! k = ay ! 0)
          \<and> (ax ! (m - 1) < xs ! k \<longrightarrow> map (interp1 ax' ay') xs ! k = ay ! (m - 1)))"
    proof (intro conjI allI impI)
      show "length (map (interp1 ax' ay') xs) = length xs" by simp
    next
      fix k i assume "k < length xs" "i < m" "xs ! k = ax ! i"
      then show "map (interp1 ax' ay') xs ! k = ay ! i" by (simp add: q1)
    next
      fix k i assume k: "k < length xs" and "Suc i < m \<and> ax ! i \<le> xs ! k \<and> xs ! k \<le> ax ! Suc i"
      from q2 [OF this(2)] k
      show "on_segment (ax ! i, ay ! i) (ax ! Suc i, ay ! Suc i)
              (xs ! k, map (interp1 ax' ay') xs ! k)"
        by simp
    next
      fix k assume "k < length xs" "xs ! k < ax ! 0"
      then show "map (interp1 ax' ay') xs ! k = ay ! 0" by (simp add: q3)
    next
      fix k assume "k < length xs" "ax ! (m - 1) < xs ! k"
      then show "map (interp1 ax' ay') xs ! k = ay ! (m - 1)" by (simp add: q4)
    qed
    with r show ?thesis by blast
  qed
  have s: "smooth_curve xs ax ay = np_interp xs ax ay" by (simp add: smooth_curve_def)
  have v: "np_interp xs ax ay = Inl ValueError"
    using assms by (simp add: np_interp_def)
  from i z p s v have "(m = 0 \<longrightarrow> interpolate_curve xs ax ay = Inl ValueError)
      \<and> (0 < m \<and> sorted_wrt (<) ax' \<longrightarrow>
           interpolate_curve xs ax ay = np_interp xs ax' ay'
           \<and> (\<exists>ys. interpolate_curve xs ax ay = Inr ys \<and> length ys = length xs
              \<and> (\<forall>k < length xs.
                    (\<forall>i < m. xs ! k = ax ! i \<longrightarrow> ys ! k = ay ! i)
                  \<and> (\<forall>i. Suc i < m \<and> ax ! i \<le> xs ! k \<and> xs ! k \<le> ax ! Suc i \<longrightarrow>
                        on_segment (ax ! i, ay ! i) (ax ! Suc i, ay ! Suc i) (xs ! k, ys ! k))
                  \<and> (xs ! k < ax ! 0 \<longrightarrow> ys ! k = ay ! 0)
                  \<and> (ax ! (m - 1) < xs ! k \<longrightarrow> ys ! k = ay ! (m - 1)))))
      \<and> smooth_curve xs ax ay = np_interp xs ax ay
      \<and> smooth_curve xs ax ay = Inl ValueError"
    by (simp only: simp_thms) blast
  then show ?thesis
    unfolding Let_def ax'_def ay'_def m_def .
qed

theorem interpolate_curve_truncates_witness:
  "length [0, 10, 20 :: real] \<noteq> length [0, 100 :: real]
   \<and> 0 < min (length [0, 10, 20 :: real]) (length [0, 100 :: real])
   \<and> sorted_wrt (<) (take 2 [0, 10, 20 :: real])
   \<and> interpolate_curve [5, 15] [0, 10, 20] [0, 100] = Inr [50, 100]
   \<and> on_segment (0, 0) (10, 100) (5, 50)
   \<and> smooth_curve [5, 15] [0, 10, 20] [0, 100] = Inl ValueError"
proof -
  have n: "length [0, 10, 20 :: real] \<noteq> length [0, 100 :: real]" by simp
  have m: "min (length [0, 10, 20 :: real]) (length [0, 100 :: real]) = 2" by simp
  have m': "0 < min (length [0, 10, 20 :: real]) (length [0, 100 :: real])" by simp
  have a: "sorted_wrt (<) (take 2 [0, 10, 20 :: real])" by simp
  have h: "(0::nat) < 2 \<and> sorted_wrt (<) (take 2 [0, 10, 20 :: real])" by simp
  have k: "(0::nat) < length [5, 15 :: real]" by simp
  note t = interpolate_curve_truncates [OF n, of "[5, 15]", unfolded Let_def m]
  note ex = t [THEN conjunct2, THEN conjunct1, THEN mp, OF h, THEN conjunct2]
  note sm = t [THEN conjunct2, THEN conjunct2, THEN conjunct2]
  from ex obtain ys where
    yp: "interpolate_curve [5, 15] [0, 10, 20] [0, 100] = Inr ys \<and> length ys = length [5, 15 :: real]
      \<and> (\<forall>k < length [5, 15 :: real].
          (\<forall>i < 2. [5, 15 :: real] ! k = [0, 10, 20 :: real] ! i \<longrightarrow> ys ! k = [0, 100 :: real] ! i)
        \<and> (\<forall>i. Suc i < 2 \<and> [0, 10, 20 :: real] ! i \<le> [5, 15 :: real] ! k
                \<and> [5, 15 :: real] ! k \<le> [0, 10, 20 :: real] ! Suc i \<longrightarrow>
              on_segment ([0, 10, 20 :: real] ! i, [0, 100 :: real] ! i)
                ([0, 10, 20 :: real] ! Suc i, [0, 100 :: real] ! Suc i)
                ([5, 15 :: real] ! k, ys ! k))
        \<and> ([5, 15 :: real] ! k < [0, 10, 20 :: real] ! 0 \<longrightarrow> ys ! k = [0, 100 :: real] ! 0)
        \<and> ([0, 10, 20 :: real] ! (2 - 1) < [5, 15 :: real] ! k \<longrightarrow> ys ! k = [0, 100 :: real] ! (2 - 1)))"
    ..
  note ys = yp [THEN conjunct1]
  note s0 = yp [THEN conjunct2, THEN conjunct2, THEN spec, of 0, THEN mp, OF k,
      THEN conjunct2, THEN conjunct1, THEN spec, of 0]
  have c0: "Suc 0 < 2 \<and> [0, 10, 20] ! 0 \<le> [5, 15 :: real] ! 0 \<and> [5, 15 :: real] ! 0 \<le> [0, 10, 20] ! Suc 0"
    by simp
  from s0 [THEN mp, OF c0] have o': "on_segment (0, 0) (10, 100) (5, ys ! 0)" by simp
  have v: "interpolate_curve [5, 15] [0, 10, 20] [0, 100] = Inr [50, 100]"
    by (simp add: interpolate_curve_def np_interp_def)
  from ys v have e: "ys = [50, 100]" by simp
  from o' have o: "on_segment (0, 0) (10, 100) (5, 50)" unfolding e by simp
  show ?thesis using n m' a v o sm by (intro conjI) assumption+
qed

text \<open>
  Claim C6: for strictly ascending anchor x values with as many y values, \<^verbatim>\<open>smooth_curve\<close>
  and \<^verbatim>\<open>interpolate_curve\<close> return, at every sample point, the piecewise-linear
  interpolant through the anchors: at an anchor x the anchor's y, between two neighbouring
  anchors a point of the segment that joins them, below the first anchor the first y and
  above the last anchor the last y.
\<close>

theorem curve_helpers_interpolate:
  assumes "sorted_wrt (<) ax" and "length ax = length ay" and "ax \<noteq> []"
  shows "smooth_curve xs ax ay = Inr (map (interp1 ax ay) xs)
         \<and> interpolate_curve xs ax ay = Inr (map (interp1 ax ay) xs)
         \<and> (\<forall>i < length ax. interp1 ax ay (ax ! i) = ay ! i)
         \<and> (\<forall>i x. Suc i < length ax \<and> ax ! i \<le> x \<and> x \<le> ax ! Suc i \<longrightarrow>
               on_segment (ax ! i, ay ! i) (ax ! Suc i, ay ! Suc i) (x, interp1 ax ay x))
         \<and> (\<forall>x. x < hd ax \<longrightarrow> interp1 ax ay x = hd ay)
         \<and> (\<forall>x. last ax < x \<longrightarrow> interp1 ax ay x = last ay)"
proof -
  have "smooth_curve xs ax ay = Inr (map (interp1 ax ay) xs)"
    using assms by (simp add: smooth_curve_def np_interp_def)
  moreover have "interpolate_curve xs ax ay = Inr (map (interp1 ax ay) xs)"
    using assms by (simp add: interpolate_curve_def np_interp_def)
  moreover have "\<forall>i < length ax. interp1 ax ay (ax ! i) = ay ! i"
    using interp1_anchor [OF assms(1,2)] by blast
  moreover have "\<forall>i x. Suc i < length ax \<and> ax ! i \<le> x \<and> x \<le> ax ! Suc i \<longrightarrow>
      on_segment (ax ! i, ay ! i) (ax ! Suc i, ay ! Suc i) (x, interp1 ax ay x)"
    using interp1_on_segment [OF assms(1,2)] by blast
  moreover have "\<forall>x. x < hd ax \<longrightarrow> interp1 ax ay x = hd ay"
    using interp1_below [OF assms(3,2)] by blast
  moreover have "\<forall>x. last ax < x \<longrightarrow> interp1 ax ay x = last ay"
    using interp1_above [OF assms(3,2,1)] by (simp add: less_imp_le)
  ultimately show ?thesis by blast
qed

theorem curve_helpers_interpolate_witness:
  "sorted_wrt (<) [60, 70, 75 :: real] \<and> length [60, 70, 75 :: real] = length [50, 60, 70 :: real]
   \<and> smooth_curve [50, 60, 72, 80] [60, 70, 75] [50, 60, 70] = Inr [50, 50, 64, 70]
   \<and> interpolate_curve [50, 60, 72, 80] [60, 70, 75] [50, 60, 70] = Inr [50, 50, 64, 70]
   \<and> on_segment (70, 60) (75, 70) (72, interp1 [60, 70, 75] [50, 60, 70] 72)"
proof -
  have s: "sorted_wrt (<) [60, 70, 75 :: real]" by simp
  have l: "length [60, 70, 75 :: real] = length [50, 60, 70 :: real]" by simp
  have n: "[60, 70, 75 :: real] \<noteq> []" by simp
  note c = curve_helpers_interpolate [OF s l n, of "[50, 60, 72, 80]"]
  from c have seg: "Suc 1 < length [60, 70, 75 :: real] \<and> [60, 70, 75] ! 1 \<le> (72::real) \<and> (72::real) \<le> [60, 70, 75] ! Suc 1 \<longrightarrow>
      on_segment ([60, 70, 75] ! 1, [50, 60, 70] ! 1) ([60, 70, 75] ! Suc 1, [50, 60, 70] ! Suc 1)
        (72, interp1 [60, 70, 75] [50, 60, 70] 72)"
    by blast
  have "on_segment (70, 60) (75, 70) (72, interp1 [60, 70, 75] [50, 60, 70] 72)"
    using seg by simp
  with c s l show ?thesis by simp
qed

subsection \<open>The toy curves\<close>








text \<open>
  The lower bound of the interval is not strict either: where the exponential function
  underflows, the value is \<^verbatim>\<open>0.0\<close>. (Here for an exponential function that returns zero below
  \<open>-745\<close>, at the second element of the array \<open>[0, 1]\<close> with \<^verbatim>\<open>center = 0\<close> and
  \<^verbatim>\<open>width = 0.01\<close>, where the exponent is about \<open>-5000\<close>.)
\<close>

lemma gaussian_peak_underflow:
  "gaussian_peak (\<lambda>v. if v < - 745 then 0 else exp v) [0, 1] 0 (1 / 100) 1 = Inr [Fin 1, Fin 0]"
  by (simp add: gaussian_peak_def normalise_def denominator_def np_times_def np_exp_def
      np_divide_def np_negative_def np_square_def np_sub_def lift_def power2_eq_square)

text \<open>
  On an \<^verbatim>\<open>int8\<close> array the denominator need not be positive: the difference of \<open>100\<close> and
  \<open>-100\<close> wraps to \<open>-56\<close>.
\<close>

lemma denominator_int8_wraps:
  "denominator_int8 [- 100, 100] = - 56 + 1 / 10 ^ 9 \<and> denominator_int8 [- 100, 100] < 0"
  by (simp add: denominator_int8_def)


subsection \<open>Citations\<close>

lemma urls_valid:
  "valid_http_url ''https://www.performanceinlighting.com/mo/en/en-12464-1''"
  "valid_http_url ''https://pmc.ncbi.nlm.nih.gov/articles/PMC4668153/''"
  "valid_http_url ''https://www.mdpi.com/1996-1073/15/12/4477''"
  "valid_http_url ''https://www.lisungroup.com/wp-content/uploads/2020/02/IEEE-2015-STANDARDS-1789-Standard-Free-Download.pdf''"
  "valid_http_url ''https://www.energy.gov/sites/default/files/2022-11/ssl-miller-lehman_flicker_lightfair2015.pdf''"
  "valid_http_url ''https://www.energy.gov/sites/default/files/2022-08/ssl-miller-etal-2022-LRT-flicker-review-tlm-stimulus-response.pdf''"
  "valid_http_url ''https://www.cibse.org/media/polbabib/factfile-15-the-importance-of-glare-and-calculating-ugr-jul2019.pdf''"
  "valid_http_url ''https://journals.plos.org/plosbiology/article?id=10.1371/journal.pbio.3001571''"
  "valid_http_url ''https://pmc.ncbi.nlm.nih.gov/articles/PMC8929548/''"
  "valid_http_url ''https://resources.wellcertified.com/articles/circadian-rhythms/''"
  "valid_http_url ''https://www.mdpi.com/2075-5309/15/8/1233''"
  "valid_http_url ''https://journals.sagepub.com/doi/abs/10.1177/1477153512446099''"
  "valid_http_url ''https://www.cibse.org/''"
  "valid_http_url ''https://www.dial.de/en-GB/articles/ieee-1789-a-new-standard-for-evaluating-flickering-leds''"
  "valid_http_url ''https://standard.wellcertified.com/light/circadian-lighting-design''"
  "valid_http_url ''https://www.cibse.org/knowledge-research/knowledge-portal/lg7-lighting-for-offices-2023''"
  by (simp_all add: valid_http_url_def after_scheme_def host_char_def url_char_def)

lemma local_path_not_url: "\<not> valid_http_url INPUT_UPLOADED_DOCX"
  by (simp add: INPUT_UPLOADED_DOCX_def valid_http_url_def after_scheme_def)

lemma st_citations_valid: "list_all (\<lambda>(t, u). valid_http_url u) st_citations"
  by (simp add: st_citations_def st_PARAMS_def st_RECS_def st_ALL_REFS_def rec_refs_def urls_valid)

lemma file_citations_valid: "list_all (\<lambda>(t, u). valid_http_url u) file_citations"
  by (simp add: file_citations_def PARAMETERS_def recommendations_def file_ALL_REFS_def rec_refs_def urls_valid)

lemma st2_citations_valid:
  "list_all (\<lambda>(t, u). t = INPUT_UPLOADED_DOCX \<or> valid_http_url u \<or> u = INPUT_UPLOADED_DOCX)
     st2_citations"
  by (simp add: st2_citations_def st2_PARAMS_def st2_RECS_def st2_master_refs_def rec_refs_def urls_valid)

text \<open>
  Claim C4 as stated (the URL of every citation pair is a syntactically valid HTTP(S) URL)
  fails: the third reference of the CCT record of \<^verbatim>\<open>st2.py\<close> has the local path of the
  uploaded document as its URL.
\<close>

theorem citation_url_local_path:
  "refs (st2_PARAMS ! 0) ! 2 =
     (''User uploaded study (Schools information.docx) - CCT tests at 2500K,3000K,4000K,5000K,6500K'',
      ''/mnt/data/Schools information.docx'')
   \<and> refs (st2_PARAMS ! 0) ! 2 \<in> set st2_citations
   \<and> \<not> valid_http_url (snd (refs (st2_PARAMS ! 0) ! 2))"
proof -
  have r: "refs (st2_PARAMS ! 0) ! 2 =
     (''User uploaded study (Schools information.docx) - CCT tests at 2500K,3000K,4000K,5000K,6500K'',
      INPUT_UPLOADED_DOCX)"
    by (simp add: st2_PARAMS_def)
  have m: "refs (st2_PARAMS ! 0) ! 2 \<in> set (refs (st2_PARAMS ! 0))"
    by (simp add: st2_PARAMS_def)
  have "st2_PARAMS ! 0 \<in> set st2_PARAMS" by (simp add: st2_PARAMS_def)
  with m have "refs (st2_PARAMS ! 0) ! 2 \<in> set st2_citations"
    unfolding st2_citations_def by auto
  with r local_path_not_url show ?thesis by (simp add: INPUT_UPLOADED_DOCX_def)
qed

text \<open>
  Claim C4, amended: in \<^verbatim>\<open>st.py\<close> and \<^verbatim>\<open>escai/file.py\<close> the URL of every citation pair is a
  syntactically valid HTTP(S) URL; in \<^verbatim>\<open>st2.py\<close> the URL of every citation pair whose title
  is not the path \<^verbatim>\<open>INPUT_UPLOADED_DOCX\<close> is a syntactically valid HTTP(S) URL or that path,
  the local path of the uploaded document.
\<close>

theorem citation_urls:
  "(\<forall>(t, u) \<in> set st_citations. valid_http_url u)
   \<and> (\<forall>(t, u) \<in> set file_citations. valid_http_url u)
   \<and> (\<forall>(t, u) \<in> set st2_citations.
         t \<noteq> INPUT_UPLOADED_DOCX \<longrightarrow> valid_http_url u \<or> u = INPUT_UPLOADED_DOCX)"
  using st_citations_valid file_citations_valid st2_citations_valid
  unfolding list_all_iff by blast

theorem citation_urls_witness:
  "valid_http_url (snd (st_ALL_REFS ! 10))
   \<and> valid_http_url (snd (file_ALL_REFS ! 2))
   \<and> fst (st2_master_refs ! 5) \<noteq> INPUT_UPLOADED_DOCX
   \<and> snd (st2_master_refs ! 5) = INPUT_UPLOADED_DOCX
   \<and> fst (st2_master_refs ! 0) \<noteq> INPUT_UPLOADED_DOCX
   \<and> valid_http_url (snd (st2_master_refs ! 0))"
proof -
  have a: "st_ALL_REFS ! 10 \<in> set st_citations"
    by (simp add: st_citations_def st_ALL_REFS_def)
  have b: "file_ALL_REFS ! 2 \<in> set file_citations"
    by (simp add: file_citations_def file_ALL_REFS_def)
  have c: "st2_master_refs ! 5 \<in> set st2_citations" "st2_master_refs ! 0 \<in> set st2_citations"
    by (simp_all add: st2_citations_def st2_master_refs_def)
  have d: "fst (st2_master_refs ! 5) \<noteq> INPUT_UPLOADED_DOCX"
    "snd (st2_master_refs ! 5) = INPUT_UPLOADED_DOCX"
    "fst (st2_master_refs ! 0) \<noteq> INPUT_UPLOADED_DOCX"
    "snd (st2_master_refs ! 0) \<noteq> INPUT_UPLOADED_DOCX"
    by (simp_all add: st2_master_refs_def INPUT_UPLOADED_DOCX_def)
  from citation_urls a b c d show ?thesis
    by (auto simp: split_beta)
qed

subsection \<open>Key values\<close>

lemma sort_remdups_strict: "sorted_wrt (<) (sort (remdups (xs :: int list)))"
  by (simp add: strict_sorted_iff)

lemma extract_CCT:
  "extract_key_values ps ''CCT_values'' =
     (if findall cct_re (join [CHR 0x0A] ps) = [] then None
      else Some (IntList (sort (remdups (map py_int (findall cct_re (join [CHR 0x0A] ps)))))))"
  by (simp add: extract_key_values_def Let_def)

lemma extract_Lux:
  "extract_key_values ps ''Lux_values'' =
     (if findall lux_re (join [CHR 0x0A] ps) = [] then None
      else Some (IntList (sort (remdups (map py_int (findall lux_re (join [CHR 0x0A] ps)))))))"
  by (simp add: extract_key_values_def Let_def)

lemma extract_CRI:
  "extract_key_values ps ''CRI_values'' =
     (if search cri_word_re (join [CHR 0x0A] ps) \<and> findall cri_re (join [CHR 0x0A] ps) \<noteq> []
      then Some (IntList (sort (remdups (map py_int (findall cri_re (join [CHR 0x0A] ps))))))
      else None)"
  by (simp add: extract_key_values_def Let_def)

lemma extract_Flicker:
  "extract_key_values ps ''Flicker_freqs_Hz'' =
     (if findall flick_re (join [CHR 0x0A] ps) = [] then None
      else Some (IntList (sort (remdups (map py_int (findall flick_re (join [CHR 0x0A] ps)))))))"
  by (simp add: extract_key_values_def Let_def)

lemma extract_nothing:
  assumes "findall cct_re (join [CHR 0x0A] ps) = []" "findall lux_re (join [CHR 0x0A] ps) = []"
    "\<not> (search cri_word_re (join [CHR 0x0A] ps) \<and> findall cri_re (join [CHR 0x0A] ps) \<noteq> [])"
    "findall flick_re (join [CHR 0x0A] ps) = []"
    "\<forall>l \<in> set age_labels. \<not> search (age_re l) (join [CHR 0x0A] ps)"
    "findall pct_re (join [CHR 0x0A] ps) = []"
  shows "extract_key_values ps = Map.empty"
proof -
  have "filter (\<lambda>l. search (age_re l) (join [CHR 0x0A] ps)) age_labels = []"
    using assms(5) by (simp add: filter_empty_conv)
  with assms(1-4,6) show ?thesis
    by (auto simp: extract_key_values_def Let_def)
qed

lemma sorted_value:
  "(if c then None else Some (IntList (sort (remdups (ys :: int list))))) = Some v
   \<Longrightarrow> \<exists>xs. v = IntList xs \<and> sorted_wrt (<) xs \<and> distinct xs"
  by (cases c) (auto simp: strict_sorted_iff)

lemma sorted_value':
  "(if c then Some (IntList (sort (remdups (ys :: int list)))) else None) = Some v
   \<Longrightarrow> \<exists>xs. v = IntList xs \<and> sorted_wrt (<) xs \<and> distinct xs"
  by (cases c) (auto simp: strict_sorted_iff)

lemma numeric_keys_cases:
  "k \<in> set numeric_keys \<Longrightarrow>
     k = ''CCT_values'' \<or> k = ''Lux_values'' \<or> k = ''CRI_values'' \<or> k = ''Flicker_freqs_Hz''"
  by (simp add: numeric_keys_def)

lemma numeric_sorted:
  assumes "k \<in> set numeric_keys" "extract_key_values ps k = Some v"
  shows "\<exists>xs. v = IntList xs \<and> sorted_wrt (<) xs \<and> distinct xs"
proof -
  from numeric_keys_cases [OF assms(1)]
  consider "k = ''CCT_values''" | "k = ''Lux_values''" | "k = ''CRI_values''"
    | "k = ''Flicker_freqs_Hz''"
    by blast
  then show ?thesis
  proof cases
    case 1
    from assms(2) show ?thesis unfolding 1 extract_CCT by (rule sorted_value)
  next
    case 2
    from assms(2) show ?thesis unfolding 2 extract_Lux by (rule sorted_value)
  next
    case 3
    from assms(2) show ?thesis unfolding 3 extract_CRI by (rule sorted_value')
  next
    case 4
    from assms(2) show ?thesis unfolding 4 extract_Flicker by (rule sorted_value)
  qed
qed

lemma no_match_K_4000: "extract_key_values [''K 4000''] = Map.empty"
proof (rule extract_nothing)
  show "findall cct_re (join [CHR 0x0A] [''K 4000'']) = []" by code_simp
  show "findall lux_re (join [CHR 0x0A] [''K 4000'']) = []" by code_simp
  show "\<not> (search cri_word_re (join [CHR 0x0A] [''K 4000''])
            \<and> findall cri_re (join [CHR 0x0A] [''K 4000'']) \<noteq> [])"
    by code_simp
  show "findall flick_re (join [CHR 0x0A] [''K 4000'']) = []" by code_simp
  show "\<forall>l \<in> set age_labels. \<not> search (age_re l) (join [CHR 0x0A] [''K 4000''])" by code_simp
  show "findall pct_re (join [CHR 0x0A] [''K 4000'']) = []" by code_simp
qed

lemma no_match_lux: "extract_key_values [''lux''] = Map.empty"
proof (rule extract_nothing)
  show "findall cct_re (join [CHR 0x0A] [''lux'']) = []" by code_simp
  show "findall lux_re (join [CHR 0x0A] [''lux'']) = []" by code_simp
  show "\<not> (search cri_word_re (join [CHR 0x0A] [''lux''])
            \<and> findall cri_re (join [CHR 0x0A] [''lux'']) \<noteq> [])"
    by code_simp
  show "findall flick_re (join [CHR 0x0A] [''lux'']) = []" by code_simp
  show "\<forall>l \<in> set age_labels. \<not> search (age_re l) (join [CHR 0x0A] [''lux''])" by code_simp
  show "findall pct_re (join [CHR 0x0A] [''lux'']) = []" by code_simp
qed

lemma findall_lux_joined: "findall lux_re (join [CHR 0x0A] [''K 4000'', ''lux'']) = [''4000'']"
  by code_simp

lemma py_int_4000: "map py_int [''4000''] = [4000]"
  by code_simp

text \<open>
  Claim C10 as stated fails in its last clause (``paragraphs matching no pattern
  contribute nothing to the result''): the patterns are matched against the paragraphs
  joined by newlines, and \<^verbatim>\<open>\s*\<close> matches a newline. Neither of the paragraphs \<^verbatim>\<open>K 4000\<close> and
  \<^verbatim>\<open>lux\<close> matches any pattern, the result for each of them alone is the empty dictionary,
  yet together they give \<^verbatim>\<open>Lux_values = [4000]\<close>.
\<close>

theorem paragraphs_match_across_newline:
  "extract_key_values [''K 4000''] = Map.empty
   \<and> extract_key_values [''lux''] = Map.empty
   \<and> extract_key_values [''K 4000'', ''lux''] ''Lux_values'' = Some (IntList [4000])"
proof -
  have "extract_key_values [''K 4000'', ''lux''] ''Lux_values'' =
     (if findall lux_re (join [CHR 0x0A] [''K 4000'', ''lux'']) = [] then None
      else Some (IntList (sort (remdups (map py_int
             (findall lux_re (join [CHR 0x0A] [''K 4000'', ''lux''])))))))"
    by (rule extract_Lux)
  then have "extract_key_values [''K 4000'', ''lux''] ''Lux_values'' = Some (IntList [4000])"
    by (simp only: findall_lux_joined py_int_4000) simp
  with no_match_K_4000 no_match_lux show ?thesis by simp
qed

text \<open>
  Claim C10, amended: for every list of paragraphs, each of the keys \<^verbatim>\<open>CCT_values\<close>,
  \<^verbatim>\<open>Lux_values\<close>, \<^verbatim>\<open>CRI_values\<close> and \<^verbatim>\<open>Flicker_freqs_Hz\<close> is in the result of
  \<^verbatim>\<open>extract_key_values\<close> exactly when its pattern has a match in the text of the paragraphs
  joined by newlines (for \<^verbatim>\<open>CRI_values\<close>: the word CRI occurs and a number follows it on
  the same line); its value is then the list of the matched numbers sorted with duplicates
  removed, which is strictly ascending; and when no pattern matches the joined text the
  result is empty. (Nothing is claimed of a single paragraph: a match may span the newline
  between two paragraphs.)
\<close>

theorem extract_key_values_numeric:
  "(let txt = join [CHR 0x0A] ps; res = extract_key_values ps in
     res ''CCT_values'' =
       (if findall cct_re txt = [] then None
        else Some (IntList (sort (remdups (map py_int (findall cct_re txt))))))
     \<and> res ''Lux_values'' =
       (if findall lux_re txt = [] then None
        else Some (IntList (sort (remdups (map py_int (findall lux_re txt))))))
     \<and> res ''CRI_values'' =
       (if search cri_word_re txt \<and> findall cri_re txt \<noteq> []
        then Some (IntList (sort (remdups (map py_int (findall cri_re txt))))) else None)
     \<and> res ''Flicker_freqs_Hz'' =
       (if findall flick_re txt = [] then None
        else Some (IntList (sort (remdups (map py_int (findall flick_re txt))))))
     \<and> (\<forall>k \<in> set numeric_keys. \<forall>v. res k = Some v \<longrightarrow>
           (\<exists>xs. v = IntList xs \<and> sorted_wrt (<) xs \<and> distinct xs))
     \<and> (findall cct_re txt = [] \<and> findall lux_re txt = []
          \<and> \<not> (search cri_word_re txt \<and> findall cri_re txt \<noteq> [])
          \<and> findall flick_re txt = []
          \<and> (\<forall>l \<in> set age_labels. \<not> search (age_re l) txt)
          \<and> findall pct_re txt = []
          \<longrightarrow> res = Map.empty))"
  unfolding Let_def
proof (intro conjI ballI allI impI)
  show "extract_key_values ps ''CCT_values'' =
      (if findall cct_re (join [CHR 0x0A] ps) = [] then None
       else Some (IntList (sort (remdups (map py_int (findall cct_re (join [CHR 0x0A] ps)))))))"
    by (rule extract_CCT)
  show "extract_key_values ps ''Lux_values'' =
      (if findall lux_re (join [CHR 0x0A] ps) = [] then None
       else Some (IntList (sort (remdups (map py_int (findall lux_re (join [CHR 0x0A] ps)))))))"
    by (rule extract_Lux)
  show "extract_key_values ps ''CRI_values'' =
      (if search cri_word_re (join [CHR 0x0A] ps) \<and> findall cri_re (join [CHR 0x0A] ps) \<noteq> []
       then Some (IntList (sort (remdups (map py_int (findall cri_re (join [CHR 0x0A] ps))))))
       else None)"
    by (rule extract_CRI)
  show "extract_key_values ps ''Flicker_freqs_Hz'' =
      (if findall flick_re (join [CHR 0x0A] ps) = [] then None
       else Some (IntList (sort (remdups (map py_int (findall flick_re (join [CHR 0x0A] ps)))))))"
    by (rule extract_Flicker)
  show "\<exists>xs. v = IntList xs \<and> sorted_wrt (<) xs \<and> distinct xs"
    if "k \<in> set numeric_keys" "extract_key_values ps k = Some v" for k v
    using that by (rule numeric_sorted)
  show "extract_key_values ps = Map.empty"
    if "findall cct_re (join [CHR 0x0A] ps) = [] \<and> findall lux_re (join [CHR 0x0A] ps) = []
        \<and> \<not> (search cri_word_re (join [CHR 0x0A] ps) \<and> findall cri_re (join [CHR 0x0A] ps) \<noteq> [])
        \<and> findall flick_re (join [CHR 0x0A] ps) = []
        \<and> (\<forall>l \<in> set age_labels. \<not> search (age_re l) (join [CHR 0x0A] ps))
        \<and> findall pct_re (join [CHR 0x0A] ps) = []"
    using that by (intro extract_nothing) simp_all
qed

lemma findall_cct_example:
  "findall cct_re (join [CHR 0x0A] [''4000K'', ''3000K'']) = [''4000'', ''3000'']"
  by code_simp

lemma py_int_example: "map py_int [''4000'', ''3000''] = [4000, 3000]"
  by code_simp

theorem extract_key_values_numeric_witness:
  "''CCT_values'' \<in> set numeric_keys
   \<and> findall cct_re (join [CHR 0x0A] [''4000K'', ''3000K'']) = [''4000'', ''3000'']
   \<and> extract_key_values [''4000K'', ''3000K''] ''CCT_values'' = Some (IntList [3000, 4000])
   \<and> sorted_wrt (<) [3000, 4000 :: int]"
proof -
  have k: "''CCT_values'' \<in> set numeric_keys" by (simp add: numeric_keys_def)
  note t = extract_key_values_numeric [of "[''4000K'', ''3000K'']", unfolded Let_def]
  from t have "extract_key_values [''4000K'', ''3000K''] ''CCT_values'' =
      Some (IntList (sort (remdups (map py_int [''4000'', ''3000'']))))"
    by (simp only: findall_cct_example list.simps if_False)
  then have v: "extract_key_values [''4000K'', ''3000K''] ''CCT_values'' = Some (IntList [3000, 4000])"
    by (simp only: py_int_example) simp
  note s = t [THEN conjunct2, THEN conjunct2, THEN conjunct2, THEN conjunct2, THEN conjunct1,
      THEN bspec, OF k, THEN spec, THEN mp, OF v]
  from s have "\<exists>xs. IntList [3000, 4000] = IntList xs \<and> sorted_wrt (<) xs \<and> distinct xs" .
  then have "sorted_wrt (<) [3000, 4000 :: int]" by simp
  with k v findall_cct_example show ?thesis by simp
qed

subsection \<open>Paths\<close>

lemma path_join_last: "b \<noteq> [] \<Longrightarrow> last (path_join a b) = last b"
  by (simp add: path_join_def)

lemma path_join_nonempty: "b \<noteq> [] \<Longrightarrow> path_join a b \<noteq> []"
  by (simp add: path_join_def)

lemma path_join_append:
  assumes "a \<noteq> []" "last a \<noteq> CHR ''/''" "CHR ''/'' \<notin> set b"
  shows "path_join a b = a @ ''/'' @ b"
  using assms by (cases b) (auto simp: path_join_def)

lemma dirname_append:
  assumes "a \<noteq> []" "last a \<noteq> CHR ''/''" "CHR ''/'' \<notin> set b"
  shows "dirname (a @ CHR ''/'' # b) = a"
proof -
  have r: "rev (a @ CHR ''/'' # b) = rev b @ CHR ''/'' # rev a" by simp
  have b: "\<And>c. c \<in> set (rev b) \<Longrightarrow> c \<noteq> CHR ''/''" using assms(3) by auto
  have "dropWhile (\<lambda>c. c \<noteq> CHR ''/'') (rev b @ CHR ''/'' # rev a)
      = dropWhile (\<lambda>c. c \<noteq> CHR ''/'') (CHR ''/'' # rev a)"
    by (rule dropWhile_append2) (rule b)
  then have h: "rev (dropWhile (\<lambda>c. c \<noteq> CHR ''/'') (rev (a @ CHR ''/'' # b))) = a @ ''/''"
    unfolding r by simp
  have "last a \<in> set a" using assms(1) by simp
  with assms(2) have n: "\<not> list_all (\<lambda>c. c = CHR ''/'') (a @ ''/'')"
    by (auto simp: list_all_iff)
  have "hd (rev a) \<noteq> CHR ''/''" using assms(1,2) by (simp add: hd_rev)
  moreover have "rev a \<noteq> []" using assms(1) by simp
  ultimately have "dropWhile (\<lambda>c. c = CHR ''/'') (rev a) = rev a"
    by (cases "rev a") simp_all
  then have "rev (dropWhile (\<lambda>c. c = CHR ''/'') (rev (a @ ''/''))) = a" by simp
  with n show ?thesis unfolding dirname_def Let_def h by simp
qed

lemma dirname_join:
  assumes "a \<noteq> []" "last a \<noteq> CHR ''/''" "CHR ''/'' \<notin> set b"
  shows "dirname (path_join a b) = a" and "path_join a b \<noteq> a"
proof -
  have j: "path_join a b = a @ CHR ''/'' # b"
    using path_join_append [OF assms] by simp
  show "dirname (path_join a b) = a" unfolding j by (rule dirname_append [OF assms])
  show "path_join a b \<noteq> a" unfolding j by simp
qed

lemma dirname_plain: "CHR ''/'' \<notin> set p \<Longrightarrow> dirname p = []"
proof -
  assume "CHR ''/'' \<notin> set p"
  then have "\<And>c. c \<in> set (rev p) \<Longrightarrow> c \<noteq> CHR ''/''" by auto
  then have d: "dropWhile (\<lambda>c. c \<noteq> CHR ''/'') (rev p) = []"
    by (simp only: dropWhile_eq_Nil_conv) blast
  show ?thesis unfolding dirname_def Let_def d by simp
qed

lemma not_in_image: "(\<And>x. f x \<noteq> d) \<Longrightarrow> d \<notin> f ` S"
  by blast

lemma replace_removes: "c \<notin> set new \<Longrightarrow> c \<notin> set (replace c new s)"
  by (induction s) (auto simp: replace_def)

lemma replace_keeps_out: "c \<notin> set new \<Longrightarrow> c \<notin> set s \<Longrightarrow> c \<notin> set (replace d new s)"
  by (induction s) (auto simp: replace_def)

lemma imgname_no_slash: "CHR ''/'' \<notin> set (imgname t)"
  unfolding imgname_def
  by (simp add: replace_keeps_out replace_removes)

lemma safe_name_no_slash: "CHR ''/'' \<notin> set (safe_name t @ ''.png'')"
  unfolding safe_name_def
  by (simp add: replace_keeps_out replace_removes)

lemma file_img_name_no_slash: "CHR ''/'' \<notin> set (file_img_name p)"
  unfolding file_img_name_def
  by (simp add: replace_keeps_out replace_removes)

lemma file2_name_no_slash: "CHR ''/'' \<notin> set (file2_name t)"
  unfolding file2_name_def
  by (simp add: replace_keeps_out replace_removes)

lemma school_name_no_slash: "CHR ''/'' \<notin> set (school_name t)"
  unfolding school_name_def
  by (simp add: replace_keeps_out replace_removes)

text \<open>An output directory under the working directory, and the paths below it.\<close>

lemma out_dir:
  assumes "nm \<noteq> []" "last nm \<noteq> CHR ''/''"
  shows "path_join cwd nm \<noteq> []" and "last (path_join cwd nm) \<noteq> CHR ''/''"
  using assms by (simp_all add: path_join_nonempty path_join_last)

lemma below:
  assumes "out \<noteq> []" "last out \<noteq> CHR ''/''" "CHR ''/'' \<notin> set n"
  shows "dirname (path_join out n) = out" and "path_join out n \<noteq> out"
    and "path_join out n = out @ ''/'' @ n"
proof -
  show "dirname (path_join out n) = out" by (rule dirname_join(1) [OF assms])
  show "path_join out n \<noteq> out" by (rule dirname_join(2) [OF assms])
  show "path_join out n = out @ ''/'' @ n" by (rule path_join_append [OF assms])
qed

lemma below_images:
  assumes "out \<noteq> []" "last out \<noteq> CHR ''/''" "CHR ''/'' \<notin> set n"
  shows "dirname (path_join (path_join out ''images'') n) = path_join out ''images''"
    and "path_join (path_join out ''images'') n \<noteq> path_join out ''images''"
    and "path_join (path_join out ''images'') n \<noteq> out"
    and "path_join out ''images'' \<noteq> out"
proof -
  have i: "path_join out ''images'' = out @ ''/images''"
    using assms(1,2) by (simp add: path_join_append)
  have ne: "out @ ''/images'' \<noteq> []" and la: "last (out @ ''/images'') \<noteq> CHR ''/''" by simp_all
  have j: "path_join (out @ ''/images'') n = (out @ ''/images'') @ ''/'' @ n"
    by (rule path_join_append [OF ne la assms(3)])
  show "dirname (path_join (path_join out ''images'') n) = path_join out ''images''"
    unfolding i by (rule dirname_join(1) [OF ne la assms(3)])
  show "path_join (path_join out ''images'') n \<noteq> path_join out ''images''"
    unfolding i by (rule dirname_join(2) [OF ne la assms(3)])
  show "path_join (path_join out ''images'') n \<noteq> out"
    unfolding i j by simp
  show "path_join out ''images'' \<noteq> out"
    unfolding i by simp
qed

subsection \<open>Files and documents\<close>

lemma files_put: "files (put k p w) q = (if q = p then Some k else files w q)"
  by (simp add: put_def)

lemma saved_put: "saved (put k p w) = saved w @ [(k, p)]"
  by (simp add: put_def)

lemma files_makedirs: "files (makedirs d w) q = (if q = d then Some Directory else files w q)"
  by (simp add: makedirs_def)

lemma saved_makedirs: "saved (makedirs d w) = saved w"
  by (simp add: makedirs_def)

lemma files_ensure_dir: "files (ensure_dir d w) q = (if q = d then Some Directory else files w q)"
  by (simp add: ensure_dir_def makedirs_def)

lemma saved_ensure_dir: "saved (ensure_dir d w) = saved w"
  by (simp add: ensure_dir_def makedirs_def)

lemma write_file_ok:
  "dirname p = [] \<or> dirname p = ''/'' \<or> files w (dirname p) = Some Directory
   \<Longrightarrow> write_file k p w = Inr (put k p w)"
  by (auto simp: write_file_def Let_def)

lemma write_file_missing:
  "dirname p \<noteq> [] \<Longrightarrow> dirname p \<noteq> ''/'' \<Longrightarrow> files w (dirname p) = None
   \<Longrightarrow> write_file k p w = Inl FileNotFoundError"
  by (simp add: write_file_def Let_def)

lemma figure_ok:
  "dirname p = [] \<or> dirname p = ''/'' \<or> files w (dirname p) = Some Directory
   \<Longrightarrow> figure p w = Inr (put PngFile p w)"
  by (simp add: figure_def savefig_def write_file_ok add_picture_def files_put)

lemma files_puts:
  "q \<notin> f ` set xs \<Longrightarrow> files (foldl (\<lambda>w x. put k (f x) w) w xs) q = files w q"
  by (induction xs arbitrary: w) (simp_all add: files_put)

lemma saved_puts:
  "saved (foldl (\<lambda>w x. put k (f x) w) w xs) = saved w @ map (\<lambda>x. (k, f x)) xs"
  by (induction xs arbitrary: w) (simp_all add: saved_put)

lemma for_each_figure:
  assumes "d = [] \<or> d = ''/'' \<or> files w d = Some Directory"
    and "\<forall>x \<in> set xs. dirname (f x) = d \<and> f x \<noteq> d"
  shows "for_each (\<lambda>x. figure (f x)) xs w = Inr (foldl (\<lambda>w x. put PngFile (f x) w) w xs)"
  using assms
proof (induction xs arbitrary: w)
  case Nil
  then show ?case by simp
next
  case (Cons x xs)
  have fx: "dirname (f x) = d" "f x \<noteq> d" using Cons.prems(2) by simp_all
  have ok: "figure (f x) w = Inr (put PngFile (f x) w)"
    using Cons.prems(1) fx(1) by (intro figure_ok) simp
  have inv: "d = [] \<or> d = ''/'' \<or> files (put PngFile (f x) w) d = Some Directory"
    using Cons.prems(1) fx(2) by (auto simp: files_put)
  have rest: "\<forall>x \<in> set xs. dirname (f x) = d \<and> f x \<noteq> d" using Cons.prems(2) by simp
  from Cons.IH [OF inv rest] ok show ?case by simp
qed

lemma for_each_cong:
  "(\<And>x s. x \<in> set xs \<Longrightarrow> f x s = g x s) \<Longrightarrow> for_each f xs s = for_each g xs s"
  by (induction xs arbitrary: s) (simp_all split: sum.splits)

lemma docx_saved_eq:
  "saved w' = saved w @ map (\<lambda>x. (PngFile, f x)) xs @ [(DocxFile, p)]
   \<Longrightarrow> docx_saved w' = docx_saved w @ [p]"
  by (simp add: docx_saved_def filter_map comp_def)

lemma png_saved_eq:
  "saved w' = saved w @ map (\<lambda>x. (PngFile, f x)) xs @ [(DocxFile, p)]
   \<Longrightarrow> png_saved w' = png_saved w @ map f xs"
  by (simp add: png_saved_def filter_map comp_def)

lemma fresh_saved: "saved w = [] \<Longrightarrow> docx_saved w = [] \<and> png_saved w = []"
  by (simp add: docx_saved_def png_saved_def)

text \<open>
  A run that makes its directories, saves one figure per entry in the image directory and
  then the document in the output directory.
\<close>

lemma figures_then_document:
  assumes d: "d = [] \<or> d = ''/'' \<or> files w d = Some Directory"
    and f: "\<forall>x \<in> set xs. dirname (f x) = d \<and> f x \<noteq> d"
    and o: "dirname p = [] \<or> dirname p = ''/'' \<or> dirname p \<notin> f ` set xs \<and> files w (dirname p) = Some Directory"
  shows "for_each (\<lambda>x. figure (f x)) xs w = Inr (foldl (\<lambda>w x. put PngFile (f x) w) w xs)"
    and "doc_save p (foldl (\<lambda>w x. put PngFile (f x) w) w xs)
           = Inr (put DocxFile p (foldl (\<lambda>w x. put PngFile (f x) w) w xs))"
    and "saved (put DocxFile p (foldl (\<lambda>w x. put PngFile (f x) w) w xs))
           = saved w @ map (\<lambda>x. (PngFile, f x)) xs @ [(DocxFile, p)]"
proof -
  show "for_each (\<lambda>x. figure (f x)) xs w = Inr (foldl (\<lambda>w x. put PngFile (f x) w) w xs)"
    by (rule for_each_figure [OF d f])
  have "dirname p = [] \<or> dirname p = ''/''
      \<or> files (foldl (\<lambda>w x. put PngFile (f x) w) w xs) (dirname p) = Some Directory"
    using o by (auto simp: files_puts)
  then show "doc_save p (foldl (\<lambda>w x. put PngFile (f x) w) w xs)
           = Inr (put DocxFile p (foldl (\<lambda>w x. put PngFile (f x) w) w xs))"
    unfolding doc_save_def by (rule write_file_ok)
  show "saved (put DocxFile p (foldl (\<lambda>w x. put PngFile (f x) w) w xs))
           = saved w @ map (\<lambda>x. (PngFile, f x)) xs @ [(DocxFile, p)]"
    by (simp add: saved_put saved_puts)
qed

subsection \<open>The runs of the scripts\<close>

lemma st_anchors:
  "\<forall>p \<in> set st_PARAMS. anchors_x p \<noteq> [] \<and> length (anchors_y p) = length (anchors_x p)"
  by (simp add: st_PARAMS_def)

lemma st2_anchors:
  "\<forall>p \<in> set st2_PARAMS. anchors_x p \<noteq> [] \<and> length (anchors_y p) = length (anchors_x p)"
  by (simp add: st2_PARAMS_def)

lemma st_chapter_figure:
  "p \<in> set st_PARAMS \<Longrightarrow> st_chapter cwd p w = figure (st_img_path cwd p) w"
  using st_anchors by (auto simp: st_chapter_def smooth_curve_def np_interp_def)

lemma st_main_result:
  "\<exists>w'. st_main cwd w = Inr w'
     \<and> saved w' = saved w @ map (\<lambda>p. (PngFile, st_img_path cwd p)) st_PARAMS
                    @ [(DocxFile, st_OUT_DOCX cwd)]"
proof -
  let ?out = "st_OUT_DIR cwd"
  let ?w0 = "ensure_dir (st_IMG_DIR cwd) (ensure_dir ?out w)"
  have o: "?out \<noteq> []" "last ?out \<noteq> CHR ''/''"
    unfolding st_OUT_DIR_def by (rule out_dir; simp)+
  note b = below_images [OF o safe_name_no_slash, folded st_IMG_DIR_def, folded st_img_path_def]
  have dn: "CHR ''/'' \<notin> set ''School_Lighting_Booklet_FULL.docx''" by simp
  note c = below [OF o dn, folded st_OUT_DOCX_def]
  have d: "st_IMG_DIR cwd = [] \<or> st_IMG_DIR cwd = ''/'' \<or> files ?w0 (st_IMG_DIR cwd) = Some Directory"
    by (simp add: files_ensure_dir)
  have f: "\<forall>p \<in> set st_PARAMS. dirname (st_img_path cwd p) = st_IMG_DIR cwd
      \<and> st_img_path cwd p \<noteq> st_IMG_DIR cwd"
    unfolding st_img_path_def using b(1,2) by simp
  have od: "files ?w0 ?out = Some Directory"
    using b(4) [folded st_IMG_DIR_def] by (simp add: files_ensure_dir st_IMG_DIR_def)
  have "?out \<notin> st_img_path cwd ` set st_PARAMS"
    by (rule not_in_image) (simp add: st_img_path_def b(3))
  with od c(1) have p: "dirname (st_OUT_DOCX cwd) = [] \<or> dirname (st_OUT_DOCX cwd) = ''/''
      \<or> dirname (st_OUT_DOCX cwd) \<notin> st_img_path cwd ` set st_PARAMS
        \<and> files ?w0 (dirname (st_OUT_DOCX cwd)) = Some Directory"
    by simp
  note r = figures_then_document [OF d f p]
  have e: "for_each (st_chapter cwd) st_PARAMS ?w0
      = for_each (\<lambda>p. figure (st_img_path cwd p)) st_PARAMS ?w0"
    by (rule for_each_cong) (rule st_chapter_figure)
  show ?thesis
    unfolding st_main_def e r(1) using r(2,3) by (simp add: saved_ensure_dir)
qed

lemma file_main_result:
  "\<exists>w'. file_main cwd w = Inr w'
     \<and> saved w' = saved w @ map (\<lambda>p. (PngFile, file_img_path cwd p)) PARAMETERS
                    @ [(DocxFile, file_out_docx cwd)]"
proof -
  let ?out = "file_out_dir cwd"
  let ?w0 = "ensure_dir (file_img_dir cwd) w"
  let ?w1 = "foldl (\<lambda>w p. put PngFile (file_img_path cwd p) w) ?w0 PARAMETERS"
  have o: "?out \<noteq> []" "last ?out \<noteq> CHR ''/''"
    unfolding file_out_dir_def by (rule out_dir; simp)+
  note b = below_images [OF o file_img_name_no_slash, folded file_img_dir_def,
      folded file_img_path_def]
  have dn: "CHR ''/'' \<notin> set ''School_Lighting_Booklet_FINAL.docx''" by simp
  note c = below [OF o dn, folded file_out_docx_def]
  have d: "file_img_dir cwd = [] \<or> file_img_dir cwd = ''/''
      \<or> files ?w0 (file_img_dir cwd) = Some Directory"
    by (simp add: files_ensure_dir)
  have f: "\<forall>p \<in> set PARAMETERS. dirname (file_img_path cwd p) = file_img_dir cwd
      \<and> file_img_path cwd p \<noteq> file_img_dir cwd"
    using b(1,2) by simp
  have fig: "for_each (\<lambda>p. figure (file_img_path cwd p)) PARAMETERS ?w0 = Inr ?w1"
    by (rule for_each_figure [OF d f])
  have "files (ensure_dir ?out ?w1) (dirname (file_out_docx cwd)) = Some Directory"
    by (simp add: c(1) files_ensure_dir)
  then have sv: "doc_save (file_out_docx cwd) (ensure_dir ?out ?w1)
      = Inr (put DocxFile (file_out_docx cwd) (ensure_dir ?out ?w1))"
    unfolding doc_save_def by (intro write_file_ok) simp
  show ?thesis
    unfolding file_main_def fig using sv
    by (simp add: saved_put saved_ensure_dir saved_puts)
qed

lemma file2_main_result:
  assumes "files w ''graphs'' = None \<or> files w ''graphs'' = Some Directory"
  shows "\<exists>w'. file2_main w = Inr w'
     \<and> saved w' = saved w @ map (\<lambda>e. (PngFile, file2_fname (fst e))) file2_parameters
                    @ [(DocxFile, ''School_Lighting_Booklet.docx'')]"
proof -
  let ?w0 = "if files w ''graphs'' = None then makedirs ''graphs'' w else w"
  have e: "(\<lambda>(param, info). figure (file2_fname param)) = (\<lambda>x. figure (file2_fname (fst x)))"
    by (simp add: fun_eq_iff split_beta)
  have g: "''graphs'' \<noteq> []" "last ''graphs'' \<noteq> CHR ''/''" by simp_all
  have n: "dirname (file2_fname t) = ''graphs''" "file2_fname t \<noteq> ''graphs''" for t
    using dirname_append [OF g file2_name_no_slash, of t] by (simp_all add: file2_fname_def)
  have d: "''graphs'' = [] \<or> ''graphs'' = ''/'' \<or> files ?w0 ''graphs'' = Some Directory"
    using assms by (auto simp: files_makedirs)
  have f: "\<forall>x \<in> set file2_parameters. dirname (file2_fname (fst x)) = ''graphs''
      \<and> file2_fname (fst x) \<noteq> ''graphs''"
    using n by simp
  have p: "dirname ''School_Lighting_Booklet.docx'' = [] \<or> dirname ''School_Lighting_Booklet.docx'' = ''/''
      \<or> dirname ''School_Lighting_Booklet.docx'' \<notin> (\<lambda>x. file2_fname (fst x)) ` set file2_parameters
        \<and> files ?w0 (dirname ''School_Lighting_Booklet.docx'') = Some Directory"
    by (simp add: dirname_plain)
  note r = figures_then_document [OF d f p]
  have s0: "saved ?w0 = saved w" by (simp add: saved_makedirs)
  show ?thesis
    unfolding file2_main_def e r(1) using r(2,3) s0 by simp
qed

lemma school_paths:
  "dirname (school_file_name t) = ''/mnt/data''" "school_file_name t \<noteq> ''/mnt/data''"
  "dirname ''/mnt/data/School_Lighting_Booklet_Final.docx'' = ''/mnt/data''"
proof -
  have g: "''/mnt/data'' \<noteq> []" "last ''/mnt/data'' \<noteq> CHR ''/''" by simp_all
  show "dirname (school_file_name t) = ''/mnt/data''" "school_file_name t \<noteq> ''/mnt/data''"
    using dirname_append [OF g school_name_no_slash, of t] by (simp_all add: school_file_name_def)
  have "CHR ''/'' \<notin> set ''School_Lighting_Booklet_Final.docx''" by simp
  from dirname_append [OF g this]
  show "dirname ''/mnt/data/School_Lighting_Booklet_Final.docx'' = ''/mnt/data''" by simp
qed

lemma school_main_result:
  assumes "files w ''/mnt/data'' = Some Directory"
  shows "\<exists>w'. school_main w = Inr w'
     \<and> saved w' = saved w @ map (\<lambda>x. (PngFile, school_file_name x)) school_parameters
                    @ [(DocxFile, ''/mnt/data/School_Lighting_Booklet_Final.docx'')]"
proof -
  have d: "''/mnt/data'' = [] \<or> ''/mnt/data'' = ''/'' \<or> files w ''/mnt/data'' = Some Directory"
    using assms by simp
  have f: "\<forall>x \<in> set school_parameters. dirname (school_file_name x) = ''/mnt/data''
      \<and> school_file_name x \<noteq> ''/mnt/data''"
    using school_paths(1,2) by simp
  have "''/mnt/data'' \<notin> school_file_name ` set school_parameters"
    by (rule not_in_image) (rule school_paths(2))
  with assms have p: "dirname ''/mnt/data/School_Lighting_Booklet_Final.docx'' = []
      \<or> dirname ''/mnt/data/School_Lighting_Booklet_Final.docx'' = ''/''
      \<or> dirname ''/mnt/data/School_Lighting_Booklet_Final.docx'' \<notin> school_file_name ` set school_parameters
        \<and> files w (dirname ''/mnt/data/School_Lighting_Booklet_Final.docx'') = Some Directory"
    unfolding school_paths(3) by simp
  note r = figures_then_document [OF d f p]
  show ?thesis
    unfolding school_main_def r(1) using r(2,3) by simp
qed

lemma school_main_missing:
  assumes "files w ''/mnt/data'' = None"
  shows "school_main w = Inl FileNotFoundError"
proof -
  have "dirname (school_file_name ''CCT (Color Temperature, K)'') = ''/mnt/data''"
    by (rule school_paths(1))
  then have "figure (school_file_name ''CCT (Color Temperature, K)'') w = Inl FileNotFoundError"
    using assms by (simp add: figure_def savefig_def write_file_missing)
  then show ?thesis
    by (simp add: school_main_def school_parameters_def)
qed

lemma file_old_missing:
  "files w ''mdpi_vis_comparison.png'' = None \<Longrightarrow> file_old_main w = Inl FileNotFoundError"
  by (simp add: file_old_main_def figure_ok dirname_plain add_picture_def files_put)

lemma file_old_present:
  "files w ''mdpi_vis_comparison.png'' = Some PngFile \<Longrightarrow>
   file_old_main w = Inr (put DocxFile ''Smart_Lighting_Research_Final.docx''
     (put PngFile ''spectral.png'' (put PngFile ''energy_comparison.png''
        (put PngFile ''block_diagram_better.png'' w))))"
  by (simp add: file_old_main_def figure_ok dirname_plain add_picture_def files_put doc_save_def
      write_file_ok)

lemma int_main_result: "int_main w = Inr (put DocxFile ''Intro_School_Lighting.docx'' w)"
  by (simp add: int_main_def doc_save_def write_file_ok dirname_plain)

lemma st3_chapters:
  assumes "files w ''school_lighting_chapters'' = Some Directory"
    and "\<forall>f \<in> set fs. CHR ''/'' \<notin> set f"
  shows "\<exists>w'. for_each write_chapter fs w = Inr w'
     \<and> saved w' = saved w @ map (\<lambda>f. (DocxFile, ''school_lighting_chapters/'' @ f)) fs"
  using assms
proof (induction fs arbitrary: w)
  case Nil
  then show ?case by simp
next
  case (Cons f fs)
  have g: "''school_lighting_chapters'' \<noteq> []" "last ''school_lighting_chapters'' \<noteq> CHR ''/''"
    by simp_all
  have n: "CHR ''/'' \<notin> set f" using Cons.prems(2) by simp
  have dn: "dirname (''school_lighting_chapters/'' @ f) = ''school_lighting_chapters''"
    using dirname_append [OF g n] by simp
  have ne: "''school_lighting_chapters/'' @ f \<noteq> ''school_lighting_chapters''" by simp
  have "files w (dirname (''school_lighting_chapters/'' @ f)) = Some Directory"
    unfolding dn by (rule Cons.prems(1))
  then have wr: "write_chapter f w = Inr (put DocxFile (''school_lighting_chapters/'' @ f) w)"
    unfolding write_chapter_def doc_save_def by (intro write_file_ok disjI2)
  have inv: "files (put DocxFile (''school_lighting_chapters/'' @ f) w) ''school_lighting_chapters''
      = Some Directory"
    using Cons.prems(1) ne by (simp add: files_put)
  have rest: "\<forall>f \<in> set fs. CHR ''/'' \<notin> set f" using Cons.prems(2) by simp
  from Cons.IH [OF inv rest] wr show ?case by (auto simp: saved_put)
qed

lemma st3_main_result:
  "\<exists>w'. st3_main w = Inr w'
     \<and> saved w' = saved w @ map (\<lambda>f. (DocxFile, ''school_lighting_chapters/'' @ f)) st3_filenames"
proof -
  have d: "files (makedirs ''school_lighting_chapters'' w) ''school_lighting_chapters'' = Some Directory"
    by (simp add: files_makedirs)
  have n: "\<forall>f \<in> set st3_filenames. CHR ''/'' \<notin> set f" by (simp add: st3_filenames_def)
  from st3_chapters [OF d n] show ?thesis
    by (simp add: st3_main_def saved_makedirs)
qed

subsection \<open>The merged booklet\<close>

lemma st2_dirs:
  "st2_OUT_DIR cwd \<noteq> []" "last (st2_OUT_DIR cwd) \<noteq> CHR ''/''"
  "last (st2_IMG_DIR cwd) = CHR ''s''"
  unfolding st2_OUT_DIR_def st2_IMG_DIR_def
  by (simp_all add: path_join_nonempty path_join_last)

lemma st2_img_not_upload: "st2_IMG_DIR cwd \<noteq> INPUT_UPLOADED_DOCX"
proof
  assume "st2_IMG_DIR cwd = INPUT_UPLOADED_DOCX"
  then have "last (st2_IMG_DIR cwd) = last INPUT_UPLOADED_DOCX" by simp
  then show False by (simp add: st2_dirs(3) INPUT_UPLOADED_DOCX_def)
qed

lemma read_docx_text_makedirs: "d \<noteq> p \<Longrightarrow> read_docx_text (makedirs d w) p = read_docx_text w p"
  unfolding read_docx_text_def makedirs_def
  by (auto split: option.splits kind.splits)

lemma uploaded_makedirs: "d \<noteq> INPUT_UPLOADED_DOCX \<Longrightarrow> uploaded (makedirs d w) = uploaded w"
  by (simp add: uploaded_def read_docx_text_makedirs)

lemma st2_chapter_ok:
  assumes "p \<in> set st2_PARAMS" and "files w (st2_IMG_DIR cwd) = Some Directory"
  shows "st2_chapter cwd p (w, doc)
     = Inr (put PngFile (path_join (st2_IMG_DIR cwd) (imgname (title p))) w, doc @ chapter_items cwd p)"
proof -
  note b = below_images [OF st2_dirs(1,2) imgname_no_slash, folded st2_IMG_DIR_def]
  have a: "anchors_x p \<noteq> []" "length (anchors_y p) = length (anchors_x p)"
    using st2_anchors assms(1) by simp_all
  have i: "interpolate_curve xs (anchors_x p) (anchors_y p)
      = Inr (map (interp1 (anchors_x p) (anchors_y p)) xs)" for xs
    using a by (simp add: interpolate_curve_def np_interp_def)
  have s: "savefig (path_join (st2_IMG_DIR cwd) (imgname (title p))) w
      = Inr (put PngFile (path_join (st2_IMG_DIR cwd) (imgname (title p))) w)"
    unfolding savefig_def using assms(2) by (intro write_file_ok) (simp add: b(1))
  show ?thesis
    by (simp add: st2_chapter_def Let_def i s add_picture_def files_put chapter_items_def)
qed

lemma for_each_chapters:
  assumes "set ps \<subseteq> set st2_PARAMS" and "files w (st2_IMG_DIR cwd) = Some Directory"
  shows "for_each (st2_chapter cwd) ps (w, doc)
     = Inr (foldl (\<lambda>w p. put PngFile (path_join (st2_IMG_DIR cwd) (imgname (title p))) w) w ps,
            doc @ concat (map (chapter_items cwd) ps))"
  using assms
proof (induction ps arbitrary: w doc)
  case Nil
  then show ?case by simp
next
  case (Cons p ps)
  note b = below_images [OF st2_dirs(1,2) imgname_no_slash, folded st2_IMG_DIR_def]
  have p: "p \<in> set st2_PARAMS" and ps: "set ps \<subseteq> set st2_PARAMS" using Cons.prems(1) by simp_all
  have inv: "files (put PngFile (path_join (st2_IMG_DIR cwd) (imgname (title p))) w) (st2_IMG_DIR cwd)
      = Some Directory"
    using Cons.prems(2) b(2) [THEN not_sym] by (simp add: files_put)
  show ?case
    by (simp add: st2_chapter_ok [OF p Cons.prems(2)] Cons.IH [OF ps inv])
qed

lemma st2_main_result:
  assumes "uploaded w = Inr (t, paras, summary)"
  shows "\<exists>w'. st2_main cwd w =
    Inr (w',
         front_matter summary paras @ solution @ [Heading 1 ''Chapters: Parameter-by-Parameter'']
         @ concat (map (chapter_items cwd) st2_PARAMS) @ [Heading 1 ''Master References'']
         @ map (\<lambda>(t, u). Paragraph (bullet @ '' '' @ t @ '' '' @ em_dash @ '' '' @ u)) st2_master_refs)
     \<and> files w' (st2_OUTPUT_DOCX cwd) = Some DocxFile
     \<and> saved w' = saved w
         @ map (\<lambda>p. (PngFile, path_join (st2_IMG_DIR cwd) (imgname (title p)))) st2_PARAMS
         @ [(DocxFile, st2_OUTPUT_DOCX cwd)]"
proof -
  let ?w0 = "makedirs (st2_IMG_DIR cwd) w"
  let ?w1 = "foldl (\<lambda>w p. put PngFile (path_join (st2_IMG_DIR cwd) (imgname (title p))) w) ?w0 st2_PARAMS"
  have u: "uploaded ?w0 = Inr (t, paras, summary)"
    using assms by (simp add: uploaded_makedirs st2_img_not_upload)
  have d: "files ?w0 (st2_IMG_DIR cwd) = Some Directory" by (simp add: files_makedirs)
  note c = for_each_chapters [OF subset_refl d]
  have dn: "CHR ''/'' \<notin> set ''School_Lighting_Booklet_Merged.docx''" by simp
  note o = below [OF st2_dirs(1,2) dn, folded st2_OUTPUT_DOCX_def]
  have "files (makedirs (st2_OUT_DIR cwd) ?w1) (dirname (st2_OUTPUT_DOCX cwd)) = Some Directory"
    by (simp add: o(1) files_makedirs)
  then have sv: "doc_save (st2_OUTPUT_DOCX cwd) (makedirs (st2_OUT_DIR cwd) ?w1)
      = Inr (put DocxFile (st2_OUTPUT_DOCX cwd) (makedirs (st2_OUT_DIR cwd) ?w1))"
    unfolding doc_save_def by (intro write_file_ok) simp
  show ?thesis
    by (simp add: st2_main_def Let_def u c sv files_put saved_put saved_makedirs saved_puts)
qed

lemma uploaded_missing:
  "files w INPUT_UPLOADED_DOCX = None \<Longrightarrow>
   uploaded w = Inr ([], [], ''No uploaded file found at: '' @ INPUT_UPLOADED_DOCX)"
  by (simp add: uploaded_def read_docx_text_def)

lemma uploaded_docx:
  "files w INPUT_UPLOADED_DOCX = Some DocxFile \<Longrightarrow> \<exists>t paras summary. uploaded w = Inr (t, paras, summary)"
  by (simp add: uploaded_def read_docx_text_def Let_def)


text \<open>
  Claim C2: when the Word document at the path \<^verbatim>\<open>INPUT_UPLOADED_DOCX\<close> is absent,
  \<^verbatim>\<open>read_docx_text\<close> returns \<^verbatim>\<open>(None, [])\<close>, the summary is the placeholder
  ``No uploaded file found at: <path>'', and \<^verbatim>\<open>st2.py\<close> still builds and saves its
  document, with the placeholder in it. The one other script that reads a file it does
  not write, \<^verbatim>\<open>escai/file_old.py\<close>, raises \<^verbatim>\<open>FileNotFoundError\<close> when that file is absent.
\<close>

theorem missing_upload_placeholder:
  assumes "files w INPUT_UPLOADED_DOCX = None"
  shows "read_docx_text w INPUT_UPLOADED_DOCX = Inr (None, [])
    \<and> uploaded w = Inr ([], [], ''No uploaded file found at: /mnt/data/Schools information.docx'')
    \<and> (\<exists>w' doc. st2_main cwd w = Inr (w', doc)
          \<and> Paragraph ''No uploaded file found at: /mnt/data/Schools information.docx'' \<in> set doc
          \<and> Paragraph ''No uploaded study content available or file not found at the expected path.''
                \<in> set doc
          \<and> files w' (st2_OUTPUT_DOCX cwd) = Some DocxFile
          \<and> docx_saved w' = docx_saved w @ [st2_OUTPUT_DOCX cwd])
    \<and> (files w ''mdpi_vis_comparison.png'' = None \<longrightarrow> file_old_main w = Inl FileNotFoundError)"
proof -
  have r: "read_docx_text w INPUT_UPLOADED_DOCX = Inr (None, [])"
    using assms by (simp add: read_docx_text_def)
  have u: "uploaded w = Inr ([], [], ''No uploaded file found at: /mnt/data/Schools information.docx'')"
    using uploaded_missing [OF assms] by (simp add: INPUT_UPLOADED_DOCX_def)
  define doc where "doc =
    front_matter ''No uploaded file found at: /mnt/data/Schools information.docx'' [] @ solution
      @ [Heading 1 ''Chapters: Parameter-by-Parameter'']
      @ concat (map (chapter_items cwd) st2_PARAMS) @ [Heading 1 ''Master References'']
      @ map (\<lambda>(t, u). Paragraph (bullet @ '' '' @ t @ '' '' @ em_dash @ '' '' @ u)) st2_master_refs"
  from st2_main_result [OF u, of cwd, folded doc_def] obtain w' where
    m: "st2_main cwd w = Inr (w', doc) \<and> files w' (st2_OUTPUT_DOCX cwd) = Some DocxFile
      \<and> saved w' = saved w
         @ map (\<lambda>p. (PngFile, path_join (st2_IMG_DIR cwd) (imgname (title p)))) st2_PARAMS
         @ [(DocxFile, st2_OUTPUT_DOCX cwd)]" ..
  have p1: "Paragraph ''No uploaded file found at: /mnt/data/Schools information.docx''
      \<in> set (front_matter ''No uploaded file found at: /mnt/data/Schools information.docx'' [])"
    by (simp add: front_matter_def)
  have p2: "Paragraph ''No uploaded study content available or file not found at the expected path.''
      \<in> set (front_matter ''No uploaded file found at: /mnt/data/Schools information.docx'' [])"
    by (simp add: front_matter_def key_points_def)
  have s: "\<exists>w' doc. st2_main cwd w = Inr (w', doc)
          \<and> Paragraph ''No uploaded file found at: /mnt/data/Schools information.docx'' \<in> set doc
          \<and> Paragraph ''No uploaded study content available or file not found at the expected path.''
                \<in> set doc
          \<and> files w' (st2_OUTPUT_DOCX cwd) = Some DocxFile
          \<and> docx_saved w' = docx_saved w @ [st2_OUTPUT_DOCX cwd]"
  proof (intro exI conjI)
    show "st2_main cwd w = Inr (w', doc)" using m by (rule conjunct1)
    show "Paragraph ''No uploaded file found at: /mnt/data/Schools information.docx'' \<in> set doc"
      unfolding doc_def using p1 by simp
    show "Paragraph ''No uploaded study content available or file not found at the expected path.''
        \<in> set doc"
      unfolding doc_def using p2 by simp
    show "files w' (st2_OUTPUT_DOCX cwd) = Some DocxFile"
      using m by (rule conjunct2 [THEN conjunct1])
    show "docx_saved w' = docx_saved w @ [st2_OUTPUT_DOCX cwd]"
      by (rule docx_saved_eq [OF m [THEN conjunct2, THEN conjunct2]])
  qed
  from r u s file_old_missing show ?thesis by blast
qed

theorem missing_upload_placeholder_witness:
  "files empty_world INPUT_UPLOADED_DOCX = None
   \<and> files empty_world ''mdpi_vis_comparison.png'' = None
   \<and> read_docx_text empty_world INPUT_UPLOADED_DOCX = Inr (None, [])
   \<and> (\<exists>w' doc. st2_main ''/home/user'' empty_world = Inr (w', doc)
          \<and> Paragraph ''No uploaded file found at: /mnt/data/Schools information.docx'' \<in> set doc
          \<and> docx_saved w' = [''/home/user/school_lighting_booklet_output/School_Lighting_Booklet_Merged.docx''])
   \<and> file_old_main empty_world = Inl FileNotFoundError"
proof -
  have a: "files empty_world INPUT_UPLOADED_DOCX = None" by (simp add: empty_world_def)
  have b: "files empty_world ''mdpi_vis_comparison.png'' = None" by (simp add: empty_world_def)
  have d: "docx_saved empty_world = []" by (simp add: docx_saved_def empty_world_def)
  have o: "st2_OUTPUT_DOCX ''/home/user''
      = ''/home/user/school_lighting_booklet_output/School_Lighting_Booklet_Merged.docx''"
    by (simp add: st2_OUTPUT_DOCX_def st2_OUT_DIR_def path_join_def)
  from missing_upload_placeholder [OF a, of "''/home/user''"] a b d o show ?thesis
    by auto
qed

lemma saved_docx_only:
  "saved w' = saved w @ map (\<lambda>f. (DocxFile, g f)) fs
   \<Longrightarrow> docx_saved w' = docx_saved w @ map g fs \<and> png_saved w' = png_saved w"
  by (simp add: docx_saved_def png_saved_def filter_map comp_def)

text \<open>
  Claim C3 as stated (every script saves exactly one Word document, with its PNG charts in
  an images subdirectory) fails for \<^verbatim>\<open>st3.py\<close>: one run saves nine documents and no image.
\<close>

theorem st3_saves_nine_documents:
  "\<exists>w'. st3_main empty_world = Inr w'
     \<and> docx_saved w' =
         [''school_lighting_chapters/01_CCT.docx'', ''school_lighting_chapters/02_CRI.docx'',
          ''school_lighting_chapters/03_Flicker.docx'', ''school_lighting_chapters/04_Glare_UGR.docx'',
          ''school_lighting_chapters/05_Horizontal_Illuminance.docx'',
          ''school_lighting_chapters/06_Vertical_Illuminance.docx'',
          ''school_lighting_chapters/07_Melanopic_EDI.docx'', ''school_lighting_chapters/08_Uniformity.docx'',
          ''school_lighting_chapters/09_Exposure_Duration.docx'']
     \<and> length (docx_saved w') = 9
     \<and> png_saved w' = []"
proof -
  from st3_main_result [of empty_world] obtain w' where
    m: "st3_main empty_world = Inr w'
      \<and> saved w' = saved empty_world
           @ map (\<lambda>f. (DocxFile, ''school_lighting_chapters/'' @ f)) st3_filenames" ..
  have d: "docx_saved empty_world = []" "png_saved empty_world = []"
    by (simp_all add: docx_saved_def png_saved_def empty_world_def)
  note s = saved_docx_only [OF m [THEN conjunct2]]
  have "docx_saved w' = map (\<lambda>f. ''school_lighting_chapters/'' @ f) st3_filenames"
    using s d by simp
  moreover have "png_saved w' = []" using s d by simp
  ultimately show ?thesis
    using m by (intro exI [of _ w']) (simp add: st3_filenames_def)
qed

text \<open>
  Claim C3, amended: starting with nothing saved, and with no path that the run makes a
  directory taken by a regular file and no path that it writes taken by a directory
  (\<open>clear\<close>), one run of \<^verbatim>\<open>st.py\<close>, \<^verbatim>\<open>st2.py\<close> or \<^verbatim>\<open>escai/file.py\<close> saves exactly one Word
  document, in the output directory under the working directory, and one PNG chart per
  parameter record in the subdirectory \<^verbatim>\<open>images\<close> of that directory (for \<^verbatim>\<open>st2.py\<close>: when the
  uploaded document is absent or is a Word document); \<^verbatim>\<open>escai/file2.py\<close> saves one document
  in the working directory and its charts under \<^verbatim>\<open>graphs/\<close>; \<^verbatim>\<open>school Papers/file.py\<close> saves
  one document and its charts under \<^verbatim>\<open>/mnt/data/\<close> when that directory exists, and raises
  \<^verbatim>\<open>FileNotFoundError\<close> at its first chart when it does not, for the script does not make
  it; \<^verbatim>\<open>escai/file_old.py\<close> saves one document and three charts in the working directory,
  when the picture \<^verbatim>\<open>mdpi_vis_comparison.png\<close> is there; \<^verbatim>\<open>int.py\<close> saves one document and no
  chart; \<^verbatim>\<open>st3.py\<close> saves one document per chapter, nine in all, under
  \<^verbatim>\<open>school_lighting_chapters/\<close>, and no chart.
\<close>

theorem saved_files_per_script:
  assumes "saved w = []"
  shows
   "(clear w [st_OUT_DIR cwd, st_IMG_DIR cwd] (st_OUT_DOCX cwd # map (st_img_path cwd) st_PARAMS) \<longrightarrow>
       (\<exists>w'. st_main cwd w = Inr w'
          \<and> docx_saved w' = [path_join (st_OUT_DIR cwd) ''School_Lighting_Booklet_FULL.docx'']
          \<and> png_saved w' = map (\<lambda>p. path_join (path_join (st_OUT_DIR cwd) ''images'')
                                     (safe_name (title p) @ ''.png'')) st_PARAMS
          \<and> length (png_saved w') = 8))
    \<and> (clear w [st2_IMG_DIR cwd, st2_OUT_DIR cwd]
          (st2_OUTPUT_DOCX cwd # map (\<lambda>p. path_join (st2_IMG_DIR cwd) (imgname (title p))) st2_PARAMS)
        \<and> (files w INPUT_UPLOADED_DOCX = None \<or> files w INPUT_UPLOADED_DOCX = Some DocxFile) \<longrightarrow>
         (\<exists>w' doc. st2_main cwd w = Inr (w', doc)
            \<and> docx_saved w' = [path_join (st2_OUT_DIR cwd) ''School_Lighting_Booklet_Merged.docx'']
            \<and> png_saved w' = map (\<lambda>p. path_join (path_join (st2_OUT_DIR cwd) ''images'')
                                       (imgname (title p))) st2_PARAMS
            \<and> length (png_saved w') = 9))
    \<and> (clear w [file_img_dir cwd, file_out_dir cwd]
          (file_out_docx cwd # map (file_img_path cwd) PARAMETERS) \<longrightarrow>
         (\<exists>w'. file_main cwd w = Inr w'
            \<and> docx_saved w' = [path_join (file_out_dir cwd) ''School_Lighting_Booklet_FINAL.docx'']
            \<and> png_saved w' = map (\<lambda>p. path_join (path_join (file_out_dir cwd) ''images'')
                                       (file_img_name p)) PARAMETERS
            \<and> length (png_saved w') = 8))
    \<and> (\<forall>t. CHR ''/'' \<notin> set (safe_name t @ ''.png'') \<and> CHR ''/'' \<notin> set (imgname t))
    \<and> (\<forall>p. CHR ''/'' \<notin> set (file_img_name p))
    \<and> (clear w [''graphs'']
          (''School_Lighting_Booklet.docx'' # map (\<lambda>e. file2_fname (fst e)) file2_parameters) \<longrightarrow>
         (\<exists>w'. file2_main w = Inr w' \<and> docx_saved w' = [''School_Lighting_Booklet.docx'']
            \<and> png_saved w' = map (\<lambda>e. file2_fname (fst e)) file2_parameters
            \<and> length (png_saved w') = 8))
    \<and> (files w ''/mnt/data'' = Some Directory
        \<and> clear w [] (''/mnt/data/School_Lighting_Booklet_Final.docx''
                        # map school_file_name school_parameters) \<longrightarrow>
         (\<exists>w'. school_main w = Inr w'
            \<and> docx_saved w' = [''/mnt/data/School_Lighting_Booklet_Final.docx'']
            \<and> png_saved w' = map school_file_name school_parameters
            \<and> length (png_saved w') = 8))
    \<and> (files w ''/mnt/data'' = None \<longrightarrow> school_main w = Inl FileNotFoundError)
    \<and> (files w ''mdpi_vis_comparison.png'' = Some PngFile
        \<and> clear w [] [''block_diagram_better.png'', ''energy_comparison.png'', ''spectral.png'',
                       ''Smart_Lighting_Research_Final.docx''] \<longrightarrow>
         (\<exists>w'. file_old_main w = Inr w' \<and> docx_saved w' = [''Smart_Lighting_Research_Final.docx'']
            \<and> png_saved w' = [''block_diagram_better.png'', ''energy_comparison.png'', ''spectral.png'']))
    \<and> (clear w [] [''Intro_School_Lighting.docx''] \<longrightarrow>
         (\<exists>w'. int_main w = Inr w' \<and> docx_saved w' = [''Intro_School_Lighting.docx'']
            \<and> png_saved w' = []))
    \<and> (clear w [''school_lighting_chapters'']
          (map (\<lambda>f. ''school_lighting_chapters/'' @ f) st3_filenames) \<longrightarrow>
         (\<exists>w'. st3_main w = Inr w'
            \<and> docx_saved w' = map (\<lambda>f. ''school_lighting_chapters/'' @ f) st3_filenames
            \<and> length (docx_saved w') = 9 \<and> png_saved w' = []))"
proof -
  note f = fresh_saved [OF assms]
  have st: "\<exists>w'. st_main cwd w = Inr w'
          \<and> docx_saved w' = [path_join (st_OUT_DIR cwd) ''School_Lighting_Booklet_FULL.docx'']
          \<and> png_saved w' = map (\<lambda>p. path_join (path_join (st_OUT_DIR cwd) ''images'')
                                     (safe_name (title p) @ ''.png'')) st_PARAMS
          \<and> length (png_saved w') = 8"
  proof -
    from st_main_result [of cwd w] obtain w' where
      m: "st_main cwd w = Inr w'
        \<and> saved w' = saved w @ map (\<lambda>p. (PngFile, st_img_path cwd p)) st_PARAMS
                    @ [(DocxFile, st_OUT_DOCX cwd)]" ..
    have l: "length st_PARAMS = 8" by (simp add: st_PARAMS_def)
    have d: "docx_saved w' = [path_join (st_OUT_DIR cwd) ''School_Lighting_Booklet_FULL.docx'']"
      using docx_saved_eq [OF m [THEN conjunct2]] f by (simp add: st_OUT_DOCX_def)
    have p: "png_saved w' = map (\<lambda>p. path_join (path_join (st_OUT_DIR cwd) ''images'')
                                     (safe_name (title p) @ ''.png'')) st_PARAMS"
      using png_saved_eq [OF m [THEN conjunct2]] f
      by (simp add: st_img_path_def st_IMG_DIR_def)
    from m d p l show ?thesis by (intro exI [of _ w']) simp
  qed
  have st2: "\<exists>w' doc. st2_main cwd w = Inr (w', doc)
            \<and> docx_saved w' = [path_join (st2_OUT_DIR cwd) ''School_Lighting_Booklet_Merged.docx'']
            \<and> png_saved w' = map (\<lambda>p. path_join (path_join (st2_OUT_DIR cwd) ''images'')
                                       (imgname (title p))) st2_PARAMS
            \<and> length (png_saved w') = 9"
    if "files w INPUT_UPLOADED_DOCX = None \<or> files w INPUT_UPLOADED_DOCX = Some DocxFile"
  proof -
    from that obtain t paras summary where u: "uploaded w = Inr (t, paras, summary)"
      using uploaded_missing [of w] uploaded_docx [of w] by blast
    from st2_main_result [OF u, of cwd] obtain w' doc where
      m: "st2_main cwd w = Inr (w', doc)"
      and sv: "saved w' = saved w
         @ map (\<lambda>p. (PngFile, path_join (st2_IMG_DIR cwd) (imgname (title p)))) st2_PARAMS
         @ [(DocxFile, st2_OUTPUT_DOCX cwd)]"
      by (elim exE conjE)
    have l: "length st2_PARAMS = 9" by (simp add: st2_PARAMS_def)
    have d: "docx_saved w' = [path_join (st2_OUT_DIR cwd) ''School_Lighting_Booklet_Merged.docx'']"
      using docx_saved_eq [OF sv] f by (simp add: st2_OUTPUT_DOCX_def)
    have p: "png_saved w' = map (\<lambda>p. path_join (path_join (st2_OUT_DIR cwd) ''images'')
                                       (imgname (title p))) st2_PARAMS"
      using png_saved_eq [OF sv] f by (simp add: st2_IMG_DIR_def)
    from m d p l show ?thesis by (intro exI [of _ w'] exI [of _ doc]) simp
  qed
  have fi: "\<exists>w'. file_main cwd w = Inr w'
            \<and> docx_saved w' = [path_join (file_out_dir cwd) ''School_Lighting_Booklet_FINAL.docx'']
            \<and> png_saved w' = map (\<lambda>p. path_join (path_join (file_out_dir cwd) ''images'')
                                       (file_img_name p)) PARAMETERS
            \<and> length (png_saved w') = 8"
  proof -
    from file_main_result [of cwd w] obtain w' where
      m: "file_main cwd w = Inr w'
        \<and> saved w' = saved w @ map (\<lambda>p. (PngFile, file_img_path cwd p)) PARAMETERS
                    @ [(DocxFile, file_out_docx cwd)]" ..
    have l: "length PARAMETERS = 8" by (simp add: PARAMETERS_def)
    have d: "docx_saved w' = [path_join (file_out_dir cwd) ''School_Lighting_Booklet_FINAL.docx'']"
      using docx_saved_eq [OF m [THEN conjunct2]] f by (simp add: file_out_docx_def)
    have p: "png_saved w' = map (\<lambda>p. path_join (path_join (file_out_dir cwd) ''images'')
                                       (file_img_name p)) PARAMETERS"
      using png_saved_eq [OF m [THEN conjunct2]] f
      by (simp add: file_img_path_def file_img_dir_def)
    from m d p l show ?thesis by (intro exI [of _ w']) simp
  qed
  have ns: "\<forall>t. CHR ''/'' \<notin> set (safe_name t @ ''.png'') \<and> CHR ''/'' \<notin> set (imgname t)"
    using safe_name_no_slash imgname_no_slash by blast
  have nf: "\<forall>p. CHR ''/'' \<notin> set (file_img_name p)"
    using file_img_name_no_slash by blast
  have f2: "\<exists>w'. file2_main w = Inr w' \<and> docx_saved w' = [''School_Lighting_Booklet.docx'']
            \<and> png_saved w' = map (\<lambda>e. file2_fname (fst e)) file2_parameters
            \<and> length (png_saved w') = 8"
    if c: "clear w [''graphs'']
          (''School_Lighting_Booklet.docx'' # map (\<lambda>e. file2_fname (fst e)) file2_parameters)"
  proof -
    from c have g: "files w ''graphs'' = None \<or> files w ''graphs'' = Some Directory"
      by (simp add: clear_def)
    from file2_main_result [OF g] obtain w' where
      m: "file2_main w = Inr w'
        \<and> saved w' = saved w @ map (\<lambda>e. (PngFile, file2_fname (fst e))) file2_parameters
                    @ [(DocxFile, ''School_Lighting_Booklet.docx'')]" ..
    have l: "length file2_parameters = 8" by (simp add: file2_parameters_def)
    have d: "docx_saved w' = [''School_Lighting_Booklet.docx'']"
      using docx_saved_eq [OF m [THEN conjunct2]] f by simp
    have p: "png_saved w' = map (\<lambda>e. file2_fname (fst e)) file2_parameters"
      using png_saved_eq [OF m [THEN conjunct2]] f by simp
    from m d p l show ?thesis by (intro exI [of _ w']) simp
  qed
  have sc: "\<exists>w'. school_main w = Inr w'
            \<and> docx_saved w' = [''/mnt/data/School_Lighting_Booklet_Final.docx'']
            \<and> png_saved w' = map school_file_name school_parameters
            \<and> length (png_saved w') = 8"
    if c: "files w ''/mnt/data'' = Some Directory"
  proof -
    from school_main_result [OF c] obtain w' where
      m: "school_main w = Inr w'
        \<and> saved w' = saved w @ map (\<lambda>x. (PngFile, school_file_name x)) school_parameters
                    @ [(DocxFile, ''/mnt/data/School_Lighting_Booklet_Final.docx'')]" ..
    have l: "length school_parameters = 8" by (simp add: school_parameters_def)
    have d: "docx_saved w' = [''/mnt/data/School_Lighting_Booklet_Final.docx'']"
      using docx_saved_eq [OF m [THEN conjunct2]] f by simp
    have p: "png_saved w' = map school_file_name school_parameters"
      using png_saved_eq [OF m [THEN conjunct2]] f by simp
    from m d p l show ?thesis by (intro exI [of _ w']) simp
  qed
  have sm: "school_main w = Inl FileNotFoundError" if "files w ''/mnt/data'' = None"
    by (rule school_main_missing [OF that])
  have fo: "\<exists>w'. file_old_main w = Inr w' \<and> docx_saved w' = [''Smart_Lighting_Research_Final.docx'']
            \<and> png_saved w' = [''block_diagram_better.png'', ''energy_comparison.png'', ''spectral.png'']"
    if "files w ''mdpi_vis_comparison.png'' = Some PngFile"
    unfolding file_old_present [OF that]
    using assms by (simp add: docx_saved_def png_saved_def put_def)
  have i: "\<exists>w'. int_main w = Inr w' \<and> docx_saved w' = [''Intro_School_Lighting.docx'']
            \<and> png_saved w' = []"
    unfolding int_main_result
    using assms by (simp add: docx_saved_def png_saved_def put_def)
  have s3: "\<exists>w'. st3_main w = Inr w'
            \<and> docx_saved w' = map (\<lambda>f. ''school_lighting_chapters/'' @ f) st3_filenames
            \<and> length (docx_saved w') = 9 \<and> png_saved w' = []"
  proof -
    from st3_main_result [of w] obtain w' where
      m: "st3_main w = Inr w'
        \<and> saved w' = saved w @ map (\<lambda>f. (DocxFile, ''school_lighting_chapters/'' @ f)) st3_filenames" ..
    note s = saved_docx_only [OF m [THEN conjunct2]]
    have l: "length st3_filenames = 9" by (simp add: st3_filenames_def)
    have d: "docx_saved w' = map (\<lambda>f. ''school_lighting_chapters/'' @ f) st3_filenames"
      using s f by simp
    have p: "png_saved w' = []" using s f by simp
    from m d p l show ?thesis by (intro exI [of _ w']) simp
  qed
  show ?thesis
  proof (intro conjI impI)
    show "\<forall>t. CHR ''/'' \<notin> set (safe_name t @ ''.png'') \<and> CHR ''/'' \<notin> set (imgname t)" by (rule ns)
    show "\<forall>p. CHR ''/'' \<notin> set (file_img_name p)" by (rule nf)
  qed (use st st2 fi f2 sc sm fo i s3 in blast)+
qed


theorem saved_files_per_script_witness:
  "saved (empty_world\<lparr>files := [''mdpi_vis_comparison.png'' \<mapsto> PngFile]\<rparr>) = []
   \<and> files (empty_world\<lparr>files := [''mdpi_vis_comparison.png'' \<mapsto> PngFile]\<rparr>) INPUT_UPLOADED_DOCX = None
   \<and> files (empty_world\<lparr>files := [''mdpi_vis_comparison.png'' \<mapsto> PngFile]\<rparr>) ''/mnt/data'' = None
   \<and> (\<exists>w'. st_main ''/home/user'' (empty_world\<lparr>files := [''mdpi_vis_comparison.png'' \<mapsto> PngFile]\<rparr>) = Inr w'
         \<and> docx_saved w' = [''/home/user/school_lighting_booklet_output/School_Lighting_Booklet_FULL.docx'']
         \<and> length (png_saved w') = 8)
   \<and> (\<exists>w' doc. st2_main ''/home/user'' (empty_world\<lparr>files := [''mdpi_vis_comparison.png'' \<mapsto> PngFile]\<rparr>)
           = Inr (w', doc)
         \<and> docx_saved w' = [''/home/user/school_lighting_booklet_output/School_Lighting_Booklet_Merged.docx'']
         \<and> length (png_saved w') = 9)
   \<and> (\<exists>w'. file_main ''/home/user'' (empty_world\<lparr>files := [''mdpi_vis_comparison.png'' \<mapsto> PngFile]\<rparr>) = Inr w'
         \<and> docx_saved w' = [''/home/user/lighting_booklet_output/School_Lighting_Booklet_FINAL.docx'']
         \<and> length (png_saved w') = 8)
   \<and> (\<exists>w'. file2_main (empty_world\<lparr>files := [''mdpi_vis_comparison.png'' \<mapsto> PngFile]\<rparr>) = Inr w'
         \<and> docx_saved w' = [''School_Lighting_Booklet.docx''] \<and> length (png_saved w') = 8)
   \<and> school_main (empty_world\<lparr>files := [''mdpi_vis_comparison.png'' \<mapsto> PngFile]\<rparr>) = Inl FileNotFoundError
   \<and> (\<exists>w'. file_old_main (empty_world\<lparr>files := [''mdpi_vis_comparison.png'' \<mapsto> PngFile]\<rparr>) = Inr w'
         \<and> docx_saved w' = [''Smart_Lighting_Research_Final.docx'']
         \<and> png_saved w' = [''block_diagram_better.png'', ''energy_comparison.png'', ''spectral.png''])
   \<and> (\<exists>w'. int_main (empty_world\<lparr>files := [''mdpi_vis_comparison.png'' \<mapsto> PngFile]\<rparr>) = Inr w'
         \<and> docx_saved w' = [''Intro_School_Lighting.docx''] \<and> png_saved w' = [])
   \<and> (\<exists>w'. st3_main (empty_world\<lparr>files := [''mdpi_vis_comparison.png'' \<mapsto> PngFile]\<rparr>) = Inr w'
         \<and> length (docx_saved w') = 9 \<and> png_saved w' = [])
   \<and> saved (empty_world\<lparr>files := [''/mnt/data'' \<mapsto> Directory]\<rparr>) = []
   \<and> files (empty_world\<lparr>files := [''/mnt/data'' \<mapsto> Directory]\<rparr>) ''/mnt/data'' = Some Directory
   \<and> (\<exists>w'. school_main (empty_world\<lparr>files := [''/mnt/data'' \<mapsto> Directory]\<rparr>) = Inr w'
         \<and> docx_saved w' = [''/mnt/data/School_Lighting_Booklet_Final.docx'']
         \<and> length (png_saved w') = 8)"
proof -
  let ?A = "empty_world\<lparr>files := [''mdpi_vis_comparison.png'' \<mapsto> PngFile]\<rparr>"
  let ?B = "empty_world\<lparr>files := [''/mnt/data'' \<mapsto> Directory]\<rparr>"
  have a: "saved ?A = []" by (simp add: empty_world_def)
  have b: "files ?A INPUT_UPLOADED_DOCX = None"
    by (simp add: empty_world_def INPUT_UPLOADED_DOCX_def)
  have c: "files ?A ''mdpi_vis_comparison.png'' = Some PngFile" by simp
  have n: "files ?A ''/mnt/data'' = None" by simp
  have cl: "clear ?A ds ps" if "''mdpi_vis_comparison.png'' \<notin> set ds" for ds ps
    using that by (auto simp: clear_def list_all_iff)
  have a': "saved ?B = []" by (simp add: empty_world_def)
  have m: "files ?B ''/mnt/data'' = Some Directory" by simp
  have cl': "clear ?B [] ps" if "''/mnt/data'' \<notin> set ps" for ps
    using that by (auto simp: clear_def list_all_iff)
  have p1: "path_join (st_OUT_DIR ''/home/user'') ''School_Lighting_Booklet_FULL.docx''
      = ''/home/user/school_lighting_booklet_output/School_Lighting_Booklet_FULL.docx''"
    by (simp add: st_OUT_DIR_def path_join_def)
  have p2: "path_join (st2_OUT_DIR ''/home/user'') ''School_Lighting_Booklet_Merged.docx''
      = ''/home/user/school_lighting_booklet_output/School_Lighting_Booklet_Merged.docx''"
    by (simp add: st2_OUT_DIR_def path_join_def)
  have p3: "path_join (file_out_dir ''/home/user'') ''School_Lighting_Booklet_FINAL.docx''
      = ''/home/user/lighting_booklet_output/School_Lighting_Booklet_FINAL.docx''"
    by (simp add: file_out_dir_def path_join_def)
  have d1: "''mdpi_vis_comparison.png'' \<notin> set [st_OUT_DIR ''/home/user'', st_IMG_DIR ''/home/user'']"
    by (simp add: st_OUT_DIR_def st_IMG_DIR_def path_join_def)
  have d2: "''mdpi_vis_comparison.png'' \<notin> set [st2_IMG_DIR ''/home/user'', st2_OUT_DIR ''/home/user'']"
    by (simp add: st2_OUT_DIR_def st2_IMG_DIR_def path_join_def)
  have d3: "''mdpi_vis_comparison.png'' \<notin> set [file_img_dir ''/home/user'', file_out_dir ''/home/user'']"
    by (simp add: file_out_dir_def file_img_dir_def path_join_def)
  have d4: "''mdpi_vis_comparison.png'' \<notin> set [''graphs'']" by simp
  have d5: "''mdpi_vis_comparison.png'' \<notin> set [''school_lighting_chapters'']" by simp
  have d6: "''mdpi_vis_comparison.png'' \<notin> set []" by simp
  have "''/mnt/data'' \<notin> school_file_name ` set school_parameters"
    by (rule not_in_image) (rule school_paths(2))
  then have s: "''/mnt/data'' \<notin> set (''/mnt/data/School_Lighting_Booklet_Final.docx''
                        # map school_file_name school_parameters)"
    by simp
  note t = saved_files_per_script [OF a, of "''/home/user''"]
  note t' = saved_files_per_script [OF a', of "''/home/user''"]
  note t1 = t [THEN conjunct1]
  note t2 = t [THEN conjunct2, THEN conjunct1]
  note t3 = t [THEN conjunct2, THEN conjunct2, THEN conjunct1]
  note r = t [THEN conjunct2, THEN conjunct2, THEN conjunct2, THEN conjunct2, THEN conjunct2]
  note t6 = r [THEN conjunct1]
  note t8 = r [THEN conjunct2, THEN conjunct2, THEN conjunct1]
  note t9 = r [THEN conjunct2, THEN conjunct2, THEN conjunct2, THEN conjunct1]
  note t10 = r [THEN conjunct2, THEN conjunct2, THEN conjunct2, THEN conjunct2, THEN conjunct1]
  note t11 = r [THEN conjunct2, THEN conjunct2, THEN conjunct2, THEN conjunct2, THEN conjunct2]
  note t7' = t' [THEN conjunct2, THEN conjunct2, THEN conjunct2, THEN conjunct2, THEN conjunct2,
      THEN conjunct2, THEN conjunct1]
  from t1 [THEN mp, OF cl [OF d1]] have st: "\<exists>w'. st_main ''/home/user'' ?A = Inr w'
         \<and> docx_saved w' = [''/home/user/school_lighting_booklet_output/School_Lighting_Booklet_FULL.docx'']
         \<and> length (png_saved w') = 8"
    unfolding p1 by (elim exE conjE, intro exI conjI)
  from t2 [THEN mp, OF conjI [OF cl [OF d2] disjI1 [OF b]]]
  have st2: "\<exists>w' doc. st2_main ''/home/user'' ?A = Inr (w', doc)
         \<and> docx_saved w' = [''/home/user/school_lighting_booklet_output/School_Lighting_Booklet_Merged.docx'']
         \<and> length (png_saved w') = 9"
    unfolding p2 by (elim exE conjE, intro exI conjI)
  from t3 [THEN mp, OF cl [OF d3]] have fi: "\<exists>w'. file_main ''/home/user'' ?A = Inr w'
         \<and> docx_saved w' = [''/home/user/lighting_booklet_output/School_Lighting_Booklet_FINAL.docx'']
         \<and> length (png_saved w') = 8"
    unfolding p3 by (elim exE conjE, intro exI conjI)
  from t6 [THEN mp, OF cl [OF d4]] have f2: "\<exists>w'. file2_main ?A = Inr w'
         \<and> docx_saved w' = [''School_Lighting_Booklet.docx''] \<and> length (png_saved w') = 8"
    by (elim exE conjE, intro exI conjI)
  from t8 [THEN mp, OF n] have sm: "school_main ?A = Inl FileNotFoundError" .
  from t9 [THEN mp, OF conjI [OF c cl [OF d6]]] have fo: "\<exists>w'. file_old_main ?A = Inr w'
         \<and> docx_saved w' = [''Smart_Lighting_Research_Final.docx'']
         \<and> png_saved w' = [''block_diagram_better.png'', ''energy_comparison.png'', ''spectral.png'']" .
  from t10 [THEN mp, OF cl [OF d6]] have i: "\<exists>w'. int_main ?A = Inr w'
         \<and> docx_saved w' = [''Intro_School_Lighting.docx''] \<and> png_saved w' = []" .
  from t11 [THEN mp, OF cl [OF d5]] have s3: "\<exists>w'. st3_main ?A = Inr w'
         \<and> length (docx_saved w') = 9 \<and> png_saved w' = []"
    by (elim exE conjE, intro exI conjI)
  from t7' [THEN mp, OF conjI [OF m cl' [OF s]]] have sc: "\<exists>w'. school_main ?B = Inr w'
         \<and> docx_saved w' = [''/mnt/data/School_Lighting_Booklet_Final.docx'']
         \<and> length (png_saved w') = 8"
    by (elim exE conjE, intro exI conjI)
  show ?thesis
    using a b n st st2 fi f2 sm fo i s3 a' m sc by (intro conjI) assumption+
qed
end
